theory Spec2Isabelle
  imports Main
begin

section \<open>JavaScript strings and buffers\<close>

text \<open>
  A JavaScript string is a sequence of UTF-16 code units, modelled as a list of naturals.
  A Node \<open>Buffer\<close> (the argument of a stream's \<open>data\<close> event) is a sequence of bytes,
  modelled as a HOL \<open>string\<close>, whose characters are bytes.
\<close>

type_synonym jsstring = "nat list"

text \<open>A string literal of the source, all of whose characters are ASCII.\<close>

definition str :: "string \<Rightarrow> jsstring" where
  "str s = map of_char s"

text \<open>
  \<open>Buffer.prototype.toString()\<close> decodes UTF-8. A byte sequence that is not well formed
  yields U+FFFD for each maximal ill-formed part; a code point above U+FFFF yields a
  surrogate pair. The decoder state is the code point so far, the number of continuation
  bytes still needed, and the bounds of the next continuation byte.
\<close>

definition code_units :: "nat \<Rightarrow> jsstring" where
  "code_units cp =
     (if cp < 0x10000 then [cp]
      else [0xD800 + (cp - 0x10000) div 0x400, 0xDC00 + (cp - 0x10000) mod 0x400])"

fun utf8 :: "(nat \<times> nat \<times> nat \<times> nat) option \<Rightarrow> nat list \<Rightarrow> jsstring" where
  "utf8 None [] = []"
| "utf8 (Some d) [] = [0xFFFD]"
| "utf8 None (b # bs) =
     (if b < 0x80 then b # utf8 None bs
      else if 0xC2 \<le> b \<and> b \<le> 0xDF then utf8 (Some (b - 0xC0, 1, 0x80, 0xBF)) bs
      else if 0xE0 \<le> b \<and> b \<le> 0xEF then
        utf8 (Some (b - 0xE0, 2, if b = 0xE0 then 0xA0 else 0x80,
                    if b = 0xED then 0x9F else 0xBF)) bs
      else if 0xF0 \<le> b \<and> b \<le> 0xF4 then
        utf8 (Some (b - 0xF0, 3, if b = 0xF0 then 0x90 else 0x80,
                    if b = 0xF4 then 0x8F else 0xBF)) bs
      else 0xFFFD # utf8 None bs)"
| "utf8 (Some (cp, needed, lo, hi)) (b # bs) =
     (if b < lo \<or> hi < b then 0xFFFD # utf8 None (b # bs)
      else if needed \<le> 1 then code_units (cp * 64 + (b - 0x80)) @ utf8 None bs
      else utf8 (Some (cp * 64 + (b - 0x80), needed - 1, 0x80, 0xBF)) bs)"

definition toString :: "string \<Rightarrow> jsstring" where
  "toString data = utf8 None (map of_char data)"

text \<open>
  The white space of \<open>String.prototype.trim\<close> and of the regular expression class
  \<open>\s\<close>: the WhiteSpace and LineTerminator code points, all in the basic plane.
\<close>

definition is_space :: "nat \<Rightarrow> bool" where
  "is_space c \<longleftrightarrow>
     (9 \<le> c \<and> c \<le> 13) \<or> c = 0x20 \<or> c = 0xA0 \<or> c = 0x1680 \<or>
     (0x2000 \<le> c \<and> c \<le> 0x200A) \<or> c = 0x2028 \<or> c = 0x2029 \<or> c = 0x202F \<or>
     c = 0x205F \<or> c = 0x3000 \<or> c = 0xFEFF"

text \<open>The characters the regular expression \<open>.\<close> does not match.\<close>

definition is_line_terminator :: "nat \<Rightarrow> bool" where
  "is_line_terminator c \<longleftrightarrow> c = 10 \<or> c = 13 \<or> c = 0x2028 \<or> c = 0x2029"

definition trim :: "jsstring \<Rightarrow> jsstring" where
  "trim s = rev (dropWhile is_space (rev (dropWhile is_space s)))"

text \<open>\<open>s.split('\n')\<close>: never empty; the last element is what follows the last newline.\<close>

fun split_from :: "jsstring \<Rightarrow> jsstring \<Rightarrow> jsstring list" where
  "split_from cur [] = [cur]"
| "split_from cur (c # cs) =
     (if c = 10 then cur # split_from [] cs else split_from (cur @ [c]) cs)"

definition split_newline :: "jsstring \<Rightarrow> jsstring list" where
  "split_newline s = split_from [] s"

text \<open>\<open>lines.join('\n')\<close>.\<close>

fun join_newline :: "jsstring list \<Rightarrow> jsstring" where
  "join_newline [] = []"
| "join_newline [l] = l"
| "join_newline (l # m # ls) = l @ 10 # join_newline (m # ls)"

text \<open>\<open>s.includes(sub)\<close>.\<close>

fun includes_js :: "jsstring \<Rightarrow> jsstring \<Rightarrow> bool" where
  "includes_js [] sub = (sub = [])"
| "includes_js (c # cs) sub = (take (length sub) (c # cs) = sub \<or> includes_js cs sub)"

text \<open>
  \<open>s.toLowerCase()\<close> on the ASCII letters. The case mappings of other characters are left
  out: none of them yields a letter of \<open>welcome\<close>, the only text searched for in a
  lower-cased string.
\<close>

definition toLowerCase :: "jsstring \<Rightarrow> jsstring" where
  "toLowerCase s = map (\<lambda>c. if 65 \<le> c \<and> c \<le> 90 then c + 32 else c) s"

text \<open>
  \<open>line.match(/[#$]\s*$/)\<close>: the expression matches when, from some position on, the line
  is \<open>#\<close> or \<open>$\<close> followed by white space only.
\<close>

fun isPrompt :: "jsstring \<Rightarrow> bool" where
  "isPrompt [] = False"
| "isPrompt (c # cs) = (((c = 0x23 \<or> c = 0x24) \<and> list_all is_space cs) \<or> isPrompt cs)"

section \<open>Log streams (\<open>logs/tail\<close> of the desktop main process)\<close>

text \<open>
  \<open>trimmedLine.match(/^==>\s+(.+?)\s+<==$/)\<close>, by the backtracking order of the
  expression: the first \<open>\s+\<close> is greedy (longest run first), the group is lazy (shortest
  first, never across a line terminator), and what is left must be white space and \<open><==\<close>
  up to the end of the line. The result is the group.
\<close>

definition header_tail :: "jsstring \<Rightarrow> bool" where
  "header_tail r \<longleftrightarrow> takeWhile is_space r \<noteq> [] \<and> dropWhile is_space r = str ''<==''"

fun lazy_group :: "jsstring \<Rightarrow> jsstring \<Rightarrow> jsstring option" where
  "lazy_group g [] = None"
| "lazy_group g (c # cs) =
     (if is_line_terminator c then None
      else if header_tail cs then Some (g @ [c])
      else lazy_group (g @ [c]) cs)"

fun greedy_space :: "nat \<Rightarrow> jsstring \<Rightarrow> jsstring option" where
  "greedy_space 0 r = None"
| "greedy_space (Suc n) r =
     (case lazy_group [] (drop (Suc n) r) of
        Some g \<Rightarrow> Some g
      | None \<Rightarrow> greedy_space n r)"

definition fileHeaderMatch :: "jsstring \<Rightarrow> jsstring option" where
  "fileHeaderMatch t =
     (if take 3 t = str ''==>''
      then greedy_space (length (takeWhile is_space (drop 3 t))) (drop 3 t)
      else None)"

text \<open>
  The state of one stream is the closure's \<open>buffer\<close> and \<open>currentFile\<close>; the latter is
  \<open>files[0]\<close> at first, which is \<open>undefined\<close> (\<open>None\<close>) for an empty list. A forwarded line
  is the payload of a \<open>logs/line\<close> event; its \<open>streamId\<close> is the stream's own and is left
  out.
\<close>

record logstream =
  buffer :: jsstring
  currentFile :: "jsstring option"

record logs_line =
  logfile :: "jsstring option"
  logline :: jsstring

definition tail_start :: "jsstring list \<Rightarrow> logstream" where
  "tail_start files =
     \<lparr>buffer = [], currentFile = (case files of [] \<Rightarrow> None | f # _ \<Rightarrow> Some f)\<rparr>"

text \<open>The body of \<open>lines.forEach\<close>, over the complete lines of a chunk.\<close>

fun tail_forEach :: "jsstring list \<Rightarrow> jsstring option \<Rightarrow> jsstring option \<times> logs_line list" where
  "tail_forEach [] cf = (cf, [])"
| "tail_forEach (l # ls) cf =
     (if trim l = [] then tail_forEach ls cf
      else case fileHeaderMatch (trim l) of
        Some f \<Rightarrow> tail_forEach ls (Some f)
      | None \<Rightarrow>
          (case tail_forEach ls cf of
             (cf', sent) \<Rightarrow> (cf', \<lparr>logfile = cf, logline = trim l\<rparr> # sent)))"

text \<open>The handler of the stream's \<open>data\<close> event, once the chunk is decoded.\<close>

definition tail_text :: "jsstring \<Rightarrow> logstream \<Rightarrow> logstream \<times> logs_line list" where
  "tail_text text st =
     (case tail_forEach (butlast (split_newline (buffer st @ text))) (currentFile st) of
        (cf, sent) \<Rightarrow>
          (\<lparr>buffer = last (split_newline (buffer st @ text)), currentFile = cf\<rparr>, sent))"

definition tail_data :: "string \<Rightarrow> logstream \<Rightarrow> logstream \<times> logs_line list" where
  "tail_data data st = tail_text (toString data) st"

text \<open>A stream fed a sequence of chunks: the final state and all lines forwarded.\<close>

fun tail_texts :: "jsstring list \<Rightarrow> logstream \<Rightarrow> logstream \<times> logs_line list" where
  "tail_texts [] st = (st, [])"
| "tail_texts (t # ts) st =
     (case tail_text t st of
        (st1, sent1) \<Rightarrow> (case tail_texts ts st1 of (st2, sent2) \<Rightarrow> (st2, sent1 @ sent2)))"

definition tail_chunks :: "string list \<Rightarrow> logstream \<Rightarrow> logstream \<times> logs_line list" where
  "tail_chunks chunks st = tail_texts (map toString chunks) st"

section \<open>Log streams (\<open>/api/logs/tail\<close> of the web server)\<close>

text \<open>
  The handler of the \<open>data\<close> event in \<open>server.js\<close>. Each chunk is decoded and split on
  its own, the lines that are not blank are forwarded as they are, and the file is
  \<open>files[currentFileIndex % files.length] || files[0]\<close> with a \<open>currentFileIndex\<close> that
  stays 0: the first file, or \<open>undefined\<close> for an empty list.
\<close>

definition server_tail_data :: "jsstring list \<Rightarrow> string \<Rightarrow> logs_line list" where
  "server_tail_data files data =
     map (\<lambda>l. \<lparr>logfile = (case files of [] \<Rightarrow> None | f # _ \<Rightarrow> Some f), logline = l\<rparr>)
       (filter (\<lambda>l. trim l \<noteq> []) (split_newline (toString data)))"

definition server_tail_chunks :: "jsstring list \<Rightarrow> string list \<Rightarrow> logs_line list" where
  "server_tail_chunks files chunks = concat (map (server_tail_data files) chunks)"

section \<open>The session: state, events and effects\<close>

text \<open>
  Both the desktop main process and the web server keep the same module-level state.
  A command id is the string \<open>cmd-${Date.now()}-${++commandCounter}\<close>, kept as its two
  numbers. A promise is known by a number: the pair \<open>resolve\<close>/\<open>reject\<close> of a queue entry
  and of its tracker is the number of the promise of that \<open>executeInRDESession\<close> call, and
  \<open>connectionResolve\<close> holds the number of the welcome promise. Each tracker is created for
  one promise, so two trackers are the same object exactly when their promises are the same.
  A timer is known by its callback; the handles \<open>timeout\<close> and \<open>outputTimeout\<close> of a
  tracker are the timers \<open>HardTimeout\<close> and \<open>OutputCheck\<close> of its promise. The first is
  set as soon as the tracker is the Active Command; the field \<open>outputTimeout\<close> says whether
  the second is set (it is \<open>null\<close> until \<open>checkOutputActivity\<close> schedules itself, and the
  trackers of the desktop program have no such handle: there it stays \<open>False\<close>).
\<close>

datatype cmdid = CmdId int nat

datatype jserror = JsError string

datatype source = Stdout | Stderr

datatype connstate = Connected | Disconnected | Failed

record result =
  exitCode :: int
  output_str :: jsstring

record outputs =
  stdout :: "jsstring list"
  stderr :: "jsstring list"

record entry =
  qcommand :: jsstring
  commandId :: cmdid
  qpromise :: nat

record tracker =
  tid :: cmdid
  command :: jsstring
  promise :: nat
  outputTimeout :: bool
  lastOutputTime :: int
  earlyCompleteScheduled :: bool

record process =
  currentCommand :: "tracker option"

record state =
  currentTarget :: "jsstring option"
  rdeProcess :: "process option"
  commandQueue :: "entry list"
  isExecutingCommand :: bool
  commandOutputs :: "(cmdid \<times> outputs) list"
  commandCounter :: nat
  connectionResolve :: "nat option"
  welcomeBuffer :: jsstring
  promises :: nat

datatype callback =
    HardTimeout nat
  | OutputCheck nat
  | EarlyMain cmdid
  | EarlyServer cmdid nat
  | ConnectTimeout nat

text \<open>
  What a handler does to the world outside the state, in order. \<open>CommandOutput\<close> is a
  \<open>command/output\<close> event carrying a command's id, \<open>DebugOutput\<close> one carrying the id
  \<open>rde-debug\<close>; of the latter only the server's forwarding of the session's stderr is
  modelled, the other diagnostic messages and the console log are left out.
  \<open>ConnectReply\<close> is the result of the connect request, \<open>Refused\<close> the failure result
  of a request made while not connected.
\<close>

datatype effect =
    Resolve nat result
  | Reject nat jserror
  | ConnectionResolve nat "jserror option"
  | ConnectionReject nat jserror
  | CommandOutput cmdid source jsstring
  | DebugOutput source jsstring
  | Status connstate string
  | ConnectReply bool string
  | Refused string
  | Spawn
  | Kill
  | StdinWrite jsstring
  | StdinEnd
  | SetTimeout callback nat
  | ClearTimeout callback

text \<open>
  A handler returns, or throws a \<open>TypeError\<close> (reading \<open>_currentCommand\<close> of \<open>null\<close>)
  that nothing catches; either way with the state and the effects reached so far.
\<close>

datatype outcome = Returns state "effect list" | Throws state "effect list"

fun state_of :: "outcome \<Rightarrow> state" where
  "state_of (Returns s es) = s"
| "state_of (Throws s es) = s"

fun effects :: "outcome \<Rightarrow> effect list" where
  "effects (Returns s es) = es"
| "effects (Throws s es) = es"

fun emit :: "effect list \<Rightarrow> outcome \<Rightarrow> outcome" where
  "emit es0 (Returns s es) = Returns s (es0 @ es)"
| "emit es0 (Throws s es) = Throws s (es0 @ es)"

fun seq :: "outcome \<Rightarrow> (state \<Rightarrow> outcome) \<Rightarrow> outcome" where
  "seq (Returns s es) f = emit es (f s)"
| "seq (Throws s es) f = Throws s es"

text \<open>A \<open>Map\<close> keeps its keys in insertion order: \<open>get\<close>, \<open>set\<close> and \<open>delete\<close>.\<close>

fun map_set :: "'k \<Rightarrow> 'v \<Rightarrow> ('k \<times> 'v) list \<Rightarrow> ('k \<times> 'v) list" where
  "map_set k v [] = [(k, v)]"
| "map_set k v (p # ps) = (if fst p = k then (k, v) # ps else p # map_set k v ps)"

definition map_delete :: "'k \<Rightarrow> ('k \<times> 'v) list \<Rightarrow> ('k \<times> 'v) list" where
  "map_delete k m = filter (\<lambda>p. fst p \<noteq> k) m"

definition init :: state where
  "init = \<lparr>currentTarget = None, rdeProcess = None, commandQueue = [],
           isExecutingCommand = False, commandOutputs = [], commandCounter = 0,
           connectionResolve = None, welcomeBuffer = [], promises = 0\<rparr>"

text \<open>\<open>output ? output.stdout.join('\n') : ''\<close> for the entry of a command id.\<close>

definition fullOutput :: "cmdid \<Rightarrow> state \<Rightarrow> jsstring" where
  "fullOutput cid s =
     (case map_of (commandOutputs s) cid of
        None \<Rightarrow> []
      | Some out \<Rightarrow> join_newline (stdout out))"

text \<open>\<open>output.stdout.push(line)\<close> and \<open>output.stderr.push(text)\<close> on the entry of an id.\<close>

definition push_stdout :: "cmdid \<Rightarrow> jsstring \<Rightarrow> state \<Rightarrow> state" where
  "push_stdout cid l s =
     s\<lparr>commandOutputs :=
         map (\<lambda>(k, out). if k = cid then (k, out\<lparr>stdout := stdout out @ [l]\<rparr>) else (k, out))
           (commandOutputs s)\<rparr>"

definition push_stderr :: "cmdid \<Rightarrow> jsstring \<Rightarrow> state \<Rightarrow> state" where
  "push_stderr cid l s =
     s\<lparr>commandOutputs :=
         map (\<lambda>(k, out). if k = cid then (k, out\<lparr>stderr := stderr out @ [l]\<rparr>) else (k, out))
           (commandOutputs s)\<rparr>"

text \<open>\<open>rdeProcess._currentCommand = v\<close>, for a session that exists.\<close>

definition set_current :: "tracker option \<Rightarrow> state \<Rightarrow> state" where
  "set_current v s = s\<lparr>rdeProcess := map_option (\<lambda>pr. pr\<lparr>currentCommand := v\<rparr>) (rdeProcess s)\<rparr>"

text \<open>The early-completion pattern of both handlers.\<close>

definition early_pattern :: "jsstring \<Rightarrow> bool" where
  "early_pattern cmd = includes_js cmd (str ''supervisorctl status'')"

text \<open>The welcome detection at the head of both stdout handlers.\<close>

definition welcome_append :: "jsstring \<Rightarrow> state \<Rightarrow> state" where
  "welcome_append text s =
     (let b = welcomeBuffer s @ text
      in s\<lparr>welcomeBuffer := (if length b > 10000 then drop (length b - 5000) b else b)\<rparr>)"

definition welcome_seen :: "state \<Rightarrow> bool" where
  "welcome_seen s \<longleftrightarrow>
     connectionResolve s \<noteq> None \<and> includes_js (toLowerCase (welcomeBuffer s)) (str ''welcome'')"

text \<open>\<open>closeRDESession\<close>, the same in both files.\<close>

definition closeRDESession :: "state \<Rightarrow> outcome" where
  "closeRDESession s =
     Returns (s\<lparr>rdeProcess := None, commandQueue := [], isExecutingCommand := False,
                currentTarget := None, welcomeBuffer := [], connectionResolve := None\<rparr>)
       (if rdeProcess s \<noteq> None then [StdinEnd, Kill] else [])"

text \<open>
  A continuation of an \<open>await\<close> runs once the handler that settled the promise is over,
  whether that handler returned or threw.
\<close>

fun resume :: "outcome \<Rightarrow> (state \<Rightarrow> outcome) \<Rightarrow> outcome" where
  "resume (Returns s es) f = emit es (f s)"
| "resume (Throws s es) f = Throws (state_of (f s)) (es @ effects (f s))"

text \<open>\<open>createRDESession\<close>: the early return, or the spawn and the resets that follow it.\<close>

definition createRDESession :: "state \<Rightarrow> outcome" where
  "createRDESession s =
     (if rdeProcess s \<noteq> None then Returns s []
      else Returns (s\<lparr>rdeProcess := Some \<lparr>currentCommand = None\<rparr>, commandOutputs := [],
                      welcomeBuffer := []\<rparr>) [Spawn])"

section \<open>The desktop main process (\<open>main.js\<close>)\<close>

definition main_processNextCommand :: "state \<Rightarrow> outcome" where
  "main_processNextCommand s =
     (case commandQueue s of
        [] \<Rightarrow> Returns s []
      | q # rest \<Rightarrow>
          if isExecutingCommand s then Returns s []
          else
            (let s1 = s\<lparr>commandQueue := rest, isExecutingCommand := True,
                        commandOutputs :=
                          map_set (commandId q) \<lparr>stdout = [], stderr = []\<rparr> (commandOutputs s)\<rparr>;
                 tr = \<lparr>tid = commandId q, command = qcommand q, promise = qpromise q,
                       outputTimeout = False, lastOutputTime = 0,
                       earlyCompleteScheduled = False\<rparr>
             in if rdeProcess s1 = None
                then Throws s1 [SetTimeout (HardTimeout (qpromise q)) 30000]
                else Returns (set_current (Some tr) s1)
                       [SetTimeout (HardTimeout (qpromise q)) 30000,
                        StdinWrite (qcommand q @ [10])]))"

text \<open>
  The block the three completion paths share: the collector of the command is read and
  deleted, the active slot is freed, the promise is resolved and the queue goes on.
\<close>

definition main_complete :: "cmdid \<Rightarrow> nat \<Rightarrow> state \<Rightarrow> outcome" where
  "main_complete cid p s =
     emit [Resolve p \<lparr>exitCode = 0, output_str = fullOutput cid s\<rparr>]
       (main_processNextCommand
          (set_current None
             (s\<lparr>commandOutputs := map_delete cid (commandOutputs s),
                isExecutingCommand := False\<rparr>)))"

text \<open>The callback of the grace-window timer, a closure over \<open>cmdId\<close>.\<close>

definition main_early :: "cmdid \<Rightarrow> state \<Rightarrow> outcome" where
  "main_early cmdId s =
     (case rdeProcess s of
        None \<Rightarrow> Throws s []
      | Some pr \<Rightarrow>
          (case currentCommand pr of
             None \<Rightarrow> Returns s []
           | Some tr \<Rightarrow>
               if tid tr = cmdId then main_complete cmdId (promise tr) s else Returns s []))"

text \<open>The callback of the fallback timer, a closure over the tracker.\<close>

definition main_timeout :: "nat \<Rightarrow> state \<Rightarrow> outcome" where
  "main_timeout p s =
     (case rdeProcess s of
        None \<Rightarrow> Throws s []
      | Some pr \<Rightarrow>
          (case currentCommand pr of
             None \<Rightarrow> Returns s []
           | Some tr \<Rightarrow>
               if promise tr = p then main_complete (tid tr) p s else Returns s []))"

text \<open>
  The stdout handler, line by line. \<open>commandOutputs.forEach\<close> visits the collectors in
  insertion order.
\<close>

fun main_outputs_forEach :: "jsstring \<Rightarrow> cmdid list \<Rightarrow> state \<Rightarrow> outcome" where
  "main_outputs_forEach ln [] s = Returns s []"
| "main_outputs_forEach ln (cmdId # rest) s =
     (if trim ln \<noteq> [] \<and> \<not> isPrompt ln then
        (case rdeProcess s of
           None \<Rightarrow> Throws (push_stdout cmdId (trim ln) s) [CommandOutput cmdId Stdout (trim ln)]
         | Some pr \<Rightarrow>
             emit [CommandOutput cmdId Stdout (trim ln)]
               (case currentCommand pr of
                  None \<Rightarrow> main_outputs_forEach ln rest (push_stdout cmdId (trim ln) s)
                | Some tr \<Rightarrow>
                    if tid tr = cmdId \<and> early_pattern (command tr)
                       \<and> \<not> earlyCompleteScheduled tr
                    then emit [SetTimeout (EarlyMain cmdId) 300]
                           (main_outputs_forEach ln rest
                              (set_current (Some (tr\<lparr>earlyCompleteScheduled := True\<rparr>))
                                 (push_stdout cmdId (trim ln) s)))
                    else main_outputs_forEach ln rest (push_stdout cmdId (trim ln) s)))
      else main_outputs_forEach ln rest s)"

definition main_prompt :: "state \<Rightarrow> outcome" where
  "main_prompt s =
     (case rdeProcess s of
        None \<Rightarrow> Throws s []
      | Some pr \<Rightarrow>
          (case currentCommand pr of
             None \<Rightarrow> Returns s []
           | Some tr \<Rightarrow>
               emit [ClearTimeout (HardTimeout (promise tr))]
                 (main_complete (tid tr) (promise tr) s)))"

definition main_line :: "jsstring \<Rightarrow> state \<Rightarrow> outcome" where
  "main_line ln s =
     seq (main_outputs_forEach ln (map fst (commandOutputs s)) s)
       (\<lambda>s1. if isPrompt ln then main_prompt s1 else Returns s1 [])"

fun main_lines :: "jsstring list \<Rightarrow> state \<Rightarrow> outcome" where
  "main_lines [] s = Returns s []"
| "main_lines (ln # lns) s = seq (main_line ln s) (main_lines lns)"

text \<open>The connect request: up to the \<open>await\<close>, and its two continuations.\<close>

definition main_connect :: "state \<Rightarrow> outcome" where
  "main_connect s =
     seq (createRDESession s)
       (\<lambda>s1. Returns (s1\<lparr>connectionResolve := Some (promises s1), welcomeBuffer := [],
                          promises := Suc (promises s1)\<rparr>)
                [SetTimeout (ConnectTimeout (promises s1)) 15000])"

definition main_connect_resolved :: "state \<Rightarrow> outcome" where
  "main_connect_resolved s =
     Returns (s\<lparr>currentTarget := Some []\<rparr>)
       [Status Connected ''Connected to RDE'', ConnectReply True []]"

definition main_connect_rejected :: "string \<Rightarrow> state \<Rightarrow> outcome" where
  "main_connect_rejected msg s =
     seq (closeRDESession (s\<lparr>connectionResolve := None\<rparr>))
       (\<lambda>s1. Returns (s1\<lparr>connectionResolve := None\<rparr>) [Status Failed msg, ConnectReply False msg])"

definition main_connect_timeout :: "nat \<Rightarrow> state \<Rightarrow> outcome" where
  "main_connect_timeout w s =
     (if connectionResolve s = Some w
      then emit [ConnectionReject w (JsError ''Connection timeout: Welcome message not received'')]
             (main_connect_rejected ''Connection timeout: Welcome message not received''
                (s\<lparr>connectionResolve := None, welcomeBuffer := []\<rparr>))
      else Returns s [])"

definition main_stdout :: "string \<Rightarrow> state \<Rightarrow> outcome" where
  "main_stdout data s =
     (let s1 = welcome_append (toString data) s
      in case connectionResolve s1 of
           None \<Rightarrow> main_lines (split_newline (toString data)) s1
         | Some w \<Rightarrow>
             if welcome_seen s1
             then emit [ConnectionResolve w None]
                    (resume
                       (main_lines (split_newline (toString data))
                          (s1\<lparr>connectionResolve := None, welcomeBuffer := []\<rparr>))
                       main_connect_resolved)
             else main_lines (split_newline (toString data)) s1)"

definition main_stderr :: "string \<Rightarrow> state \<Rightarrow> outcome" where
  "main_stderr data s =
     (if trim (toString data) = [] then Returns s []
      else Returns
             (s\<lparr>commandOutputs :=
                  map (\<lambda>(k, out). (k, out\<lparr>stderr := stderr out @ [trim (toString data)]\<rparr>))
                    (commandOutputs s)\<rparr>)
             (map (\<lambda>(k, out). CommandOutput k Stderr (trim (toString data))) (commandOutputs s)))"

definition main_exit :: "state \<Rightarrow> outcome" where
  "main_exit s =
     Returns (s\<lparr>rdeProcess := None, currentTarget := None, commandQueue := [],
                commandOutputs := [], isExecutingCommand := False\<rparr>)
       (map (\<lambda>q. Reject (qpromise q) (JsError ''RDE session closed'')) (commandQueue s)
        @ [Status Disconnected ''RDE session closed''])"

definition main_error :: "string \<Rightarrow> state \<Rightarrow> outcome" where
  "main_error msg s =
     Returns (s\<lparr>rdeProcess := None, currentTarget := None, commandQueue := [],
                commandOutputs := [], isExecutingCommand := False\<rparr>)
       (map (\<lambda>q. Reject (qpromise q) (JsError msg)) (commandQueue s) @ [Status Failed msg])"

definition main_executeInRDESession :: "jsstring \<Rightarrow> cmdid \<Rightarrow> state \<Rightarrow> outcome" where
  "main_executeInRDESession cmd cid s =
     (if rdeProcess s = None
      then Returns (s\<lparr>promises := Suc (promises s)\<rparr>)
             [Reject (promises s) (JsError ''RDE session not established'')]
      else if isExecutingCommand s
      then Returns
             (s\<lparr>promises := Suc (promises s),
                commandQueue :=
                  commandQueue s @ [\<lparr>qcommand = cmd, commandId = cid, qpromise = promises s\<rparr>]\<rparr>) []
      else main_processNextCommand
             (s\<lparr>promises := Suc (promises s),
                commandQueue :=
                  commandQueue s @ [\<lparr>qcommand = cmd, commandId = cid, qpromise = promises s\<rparr>]\<rparr>))"

text \<open>
  \<open>command/execute\<close>; the supervisor requests differ only in the command text they build
  and in what they read from the result.
\<close>

definition main_execute :: "int \<Rightarrow> jsstring \<Rightarrow> state \<Rightarrow> outcome" where
  "main_execute now cmd s =
     (if currentTarget s = None then Returns s [Refused ''Not connected. Please connect first.'']
      else main_executeInRDESession cmd (CmdId now (Suc (commandCounter s)))
             (s\<lparr>commandCounter := Suc (commandCounter s)\<rparr>))"

text \<open>\<open>rde/disconnect\<close>; the log streams it stops first are not part of this state.\<close>

definition main_disconnect :: "state \<Rightarrow> outcome" where
  "main_disconnect s = seq (closeRDESession s) (\<lambda>s1. Returns s1 [Status Disconnected ''Disconnected''])"

text \<open>What can happen to the process, with the value of \<open>Date.now()\<close> at that moment.\<close>

datatype event =
    Connect
  | Disconnect
  | Execute jsstring
  | StdoutData string
  | StderrData string
  | Exit
  | ProcessError string
  | Timeout callback

fun main_step :: "int \<Rightarrow> event \<Rightarrow> state \<Rightarrow> outcome" where
  "main_step now Connect s = main_connect s"
| "main_step now Disconnect s = main_disconnect s"
| "main_step now (Execute cmd) s = main_execute now cmd s"
| "main_step now (StdoutData d) s = main_stdout d s"
| "main_step now (StderrData d) s = main_stderr d s"
| "main_step now Exit s = main_exit s"
| "main_step now (ProcessError msg) s = main_error msg s"
| "main_step now (Timeout (HardTimeout p)) s = main_timeout p s"
| "main_step now (Timeout (EarlyMain c)) s = main_early c s"
| "main_step now (Timeout (ConnectTimeout w)) s = main_connect_timeout w s"
| "main_step now (Timeout (OutputCheck p)) s = Returns s []"
| "main_step now (Timeout (EarlyServer c p)) s = Returns s []"

text \<open>A history of events from a state: the state reached and everything done.\<close>

fun main_run :: "(int \<times> event) list \<Rightarrow> state \<Rightarrow> state \<times> effect list" where
  "main_run [] s = (s, [])"
| "main_run ((now, ev) # evs) s =
     (case main_run evs (state_of (main_step now ev s)) of
        (s', es) \<Rightarrow> (s', effects (main_step now ev s) @ es))"

section \<open>The web server (\<open>server.js\<close>)\<close>

text \<open>
  \<open>processNextCommand\<close> calls \<open>checkOutputActivity()\<close> before it stores the tracker in
  \<open>rdeProcess._currentCommand\<close>. The tracker is a new object, so the guard of that first
  call compares it with another value and fails, or the read throws when there is no
  session: the call schedules nothing, and the fallback timer is the only one set here.
\<close>

definition server_processNextCommand :: "int \<Rightarrow> state \<Rightarrow> outcome" where
  "server_processNextCommand now s =
     (case commandQueue s of
        [] \<Rightarrow> Returns s []
      | q # rest \<Rightarrow>
          if isExecutingCommand s then Returns s []
          else
            (let s1 = s\<lparr>commandQueue := rest, isExecutingCommand := True,
                        commandOutputs :=
                          map_set (commandId q) \<lparr>stdout = [], stderr = []\<rparr> (commandOutputs s)\<rparr>;
                 tr = \<lparr>tid = commandId q, command = qcommand q, promise = qpromise q,
                       outputTimeout = False, lastOutputTime = now,
                       earlyCompleteScheduled = False\<rparr>
             in if rdeProcess s1 = None then Throws s1 []
                else Returns (set_current (Some tr) s1)
                       [SetTimeout (HardTimeout (qpromise q)) 5000,
                        StdinWrite (qcommand q @ [10])]))"

text \<open>
  The block the completion paths share; they differ in the timers they clear before the
  promise is resolved.
\<close>

definition server_complete :: "int \<Rightarrow> cmdid \<Rightarrow> nat \<Rightarrow> effect list \<Rightarrow> state \<Rightarrow> outcome" where
  "server_complete now cid p clears s =
     emit (clears @ [Resolve p \<lparr>exitCode = 0, output_str = fullOutput cid s\<rparr>])
       (server_processNextCommand now
          (set_current None
             (s\<lparr>commandOutputs := map_delete cid (commandOutputs s),
                isExecutingCommand := False\<rparr>)))"

definition completeCommand :: "int \<Rightarrow> nat \<Rightarrow> state \<Rightarrow> outcome" where
  "completeCommand now p s =
     (case rdeProcess s of
        None \<Rightarrow> Throws s []
      | Some pr \<Rightarrow>
          (case currentCommand pr of
             None \<Rightarrow> Returns s []
           | Some tr \<Rightarrow>
               if promise tr = p
               then server_complete now (tid tr) p
                      (ClearTimeout (HardTimeout p)
                       # (if outputTimeout tr then [ClearTimeout (OutputCheck p)] else [])) s
               else Returns s []))"

definition checkOutputActivity :: "int \<Rightarrow> nat \<Rightarrow> state \<Rightarrow> outcome" where
  "checkOutputActivity now p s =
     (case rdeProcess s of
        None \<Rightarrow> Throws s []
      | Some pr \<Rightarrow>
          (case currentCommand pr of
             None \<Rightarrow> Returns s []
           | Some tr \<Rightarrow>
               if promise tr = p then
                 (if now - lastOutputTime tr \<ge> 1000
                     \<and> (case map_of (commandOutputs s) (tid tr) of
                           None \<Rightarrow> False
                         | Some out \<Rightarrow> stdout out \<noteq> [])
                  then completeCommand now p s
                  else Returns (set_current (Some (tr\<lparr>outputTimeout := True\<rparr>)) s)
                         [SetTimeout (OutputCheck p) 200])
               else Returns s []))"

definition server_timeout :: "int \<Rightarrow> nat \<Rightarrow> state \<Rightarrow> outcome" where
  "server_timeout now p s =
     (case rdeProcess s of
        None \<Rightarrow> Throws s []
      | Some pr \<Rightarrow>
          (case currentCommand pr of
             None \<Rightarrow> Returns s []
           | Some tr \<Rightarrow> if promise tr = p then completeCommand now p s else Returns s []))"

text \<open>The callback of the grace-window timer, a closure over the tracker.\<close>

definition server_early :: "int \<Rightarrow> cmdid \<Rightarrow> nat \<Rightarrow> state \<Rightarrow> outcome" where
  "server_early now cid p s =
     (case rdeProcess s of
        None \<Rightarrow> Throws s []
      | Some pr \<Rightarrow>
          (case currentCommand pr of
             None \<Rightarrow> Returns s []
           | Some tr \<Rightarrow>
               if tid tr = cid
               then server_complete now cid p [ClearTimeout (HardTimeout p)] s
               else Returns s []))"

definition server_store :: "int \<Rightarrow> jsstring \<Rightarrow> tracker \<Rightarrow> state \<Rightarrow> outcome" where
  "server_store now ln tr s =
     (let s0 = (if map_of (commandOutputs s) (tid tr) = None
                then s\<lparr>commandOutputs :=
                         map_set (tid tr) \<lparr>stdout = [], stderr = []\<rparr> (commandOutputs s)\<rparr>
                else s)
      in if trim ln \<noteq> [] \<and> \<not> isPrompt ln then
           (if early_pattern (command tr) \<and> \<not> earlyCompleteScheduled tr
            then Returns
                   (set_current
                      (Some (tr\<lparr>lastOutputTime := now, earlyCompleteScheduled := True\<rparr>))
                      (push_stdout (tid tr) (trim ln) s0))
                   [CommandOutput (tid tr) Stdout (trim ln),
                    SetTimeout (EarlyServer (tid tr) (promise tr)) 2000]
            else Returns
                   (set_current (Some (tr\<lparr>lastOutputTime := now\<rparr>))
                      (push_stdout (tid tr) (trim ln) s0))
                   [CommandOutput (tid tr) Stdout (trim ln)])
         else Returns s0 [])"

definition server_prompt :: "int \<Rightarrow> state \<Rightarrow> outcome" where
  "server_prompt now s =
     (case rdeProcess s of
        None \<Rightarrow> Throws s []
      | Some pr \<Rightarrow>
          (case currentCommand pr of
             None \<Rightarrow> Returns s []
           | Some tr \<Rightarrow>
               server_complete now (tid tr) (promise tr)
                 (ClearTimeout (HardTimeout (promise tr))
                  # (if outputTimeout tr then [ClearTimeout (OutputCheck (promise tr))] else []))
                 s))"

definition server_line :: "int \<Rightarrow> jsstring \<Rightarrow> state \<Rightarrow> outcome" where
  "server_line now ln s =
     (case rdeProcess s of
        None \<Rightarrow> Throws s []
      | Some pr \<Rightarrow>
          seq (case currentCommand pr of
                 None \<Rightarrow> Returns s []
               | Some tr \<Rightarrow> server_store now ln tr s)
            (\<lambda>s1. if isPrompt ln then server_prompt now s1 else Returns s1 []))"

fun server_lines :: "int \<Rightarrow> jsstring list \<Rightarrow> state \<Rightarrow> outcome" where
  "server_lines now [] s = Returns s []"
| "server_lines now (ln # lns) s = seq (server_line now ln s) (server_lines now lns)"

definition server_connect :: "state \<Rightarrow> outcome" where
  "server_connect s =
     (if currentTarget s \<noteq> None \<and> rdeProcess s \<noteq> None
      then Returns s [ConnectReply True ''Already connected'']
      else seq (createRDESession s)
             (\<lambda>s1. Returns (s1\<lparr>connectionResolve := Some (promises s1), welcomeBuffer := [],
                                promises := Suc (promises s1)\<rparr>)
                      [SetTimeout (ConnectTimeout (promises s1)) 15000]))"

definition server_connect_resolved :: "state \<Rightarrow> outcome" where
  "server_connect_resolved s =
     Returns (s\<lparr>currentTarget := Some []\<rparr>)
       [Status Connected ''Connected to RDE'', ConnectReply True []]"

definition server_connect_rejected :: "string \<Rightarrow> state \<Rightarrow> outcome" where
  "server_connect_rejected msg s =
     seq (if rdeProcess s \<noteq> None then closeRDESession (s\<lparr>connectionResolve := None\<rparr>)
          else Returns (s\<lparr>connectionResolve := None\<rparr>) [])
       (\<lambda>s1. Returns (s1\<lparr>connectionResolve := None\<rparr>) [Status Failed msg, ConnectReply False msg])"

definition server_connect_timeout :: "nat \<Rightarrow> state \<Rightarrow> outcome" where
  "server_connect_timeout w s =
     (if connectionResolve s = Some w
      then emit [ConnectionReject w
                   (JsError ''Connection timeout: Welcome message not received. Buffer: '')]
             (server_connect_rejected
                ''Connection timeout: Welcome message not received. Buffer: ''
                (s\<lparr>connectionResolve := None, welcomeBuffer := []\<rparr>))
      else Returns s [])"

definition server_stdout :: "int \<Rightarrow> string \<Rightarrow> state \<Rightarrow> outcome" where
  "server_stdout now data s =
     (let s1 = welcome_append (toString data) s
      in case connectionResolve s1 of
           None \<Rightarrow> server_lines now (split_newline (toString data)) s1
         | Some w \<Rightarrow>
             if welcome_seen s1
             then emit [ConnectionResolve w None]
                    (resume
                       (server_lines now (split_newline (toString data))
                          (s1\<lparr>connectionResolve := None, welcomeBuffer := []\<rparr>))
                       server_connect_resolved)
             else server_lines now (split_newline (toString data)) s1)"

definition server_stderr :: "string \<Rightarrow> state \<Rightarrow> outcome" where
  "server_stderr data s = Returns s [DebugOutput Stderr (toString data)]"

text \<open>
  The \<open>exit\<close> and \<open>error\<close> handlers call \<open>connectionResolve\<close> with the error: the welcome
  promise is resolved, and the connect request that awaits it goes on as after a welcome.
\<close>

definition server_closed :: "string \<Rightarrow> string \<Rightarrow> connstate \<Rightarrow> state \<Rightarrow> outcome" where
  "server_closed cmsg msg st s =
     (let s1 = s\<lparr>rdeProcess := None, currentTarget := None, connectionResolve := None,
                 commandQueue := [], commandOutputs := [], isExecutingCommand := False\<rparr>;
          es = map (\<lambda>q. Reject (qpromise q) (JsError msg)) (commandQueue s) @ [Status st msg]
      in case connectionResolve s of
           None \<Rightarrow> Returns s1 es
         | Some w \<Rightarrow>
             emit [ConnectionResolve w (Some (JsError cmsg))]
               (resume (Returns s1 es) server_connect_resolved))"

definition server_exit :: "state \<Rightarrow> outcome" where
  "server_exit s =
     server_closed ''RDE session closed before connection'' ''RDE session closed'' Disconnected s"

definition server_error :: "string \<Rightarrow> state \<Rightarrow> outcome" where
  "server_error msg s = server_closed msg msg Failed s"

definition server_executeInRDESession :: "int \<Rightarrow> jsstring \<Rightarrow> cmdid \<Rightarrow> state \<Rightarrow> outcome" where
  "server_executeInRDESession now cmd cid s =
     (if rdeProcess s = None
      then Returns (s\<lparr>promises := Suc (promises s)\<rparr>)
             [Reject (promises s) (JsError ''RDE session not established'')]
      else if isExecutingCommand s
      then Returns
             (s\<lparr>promises := Suc (promises s),
                commandQueue :=
                  commandQueue s @ [\<lparr>qcommand = cmd, commandId = cid, qpromise = promises s\<rparr>]\<rparr>) []
      else server_processNextCommand now
             (s\<lparr>promises := Suc (promises s),
                commandQueue :=
                  commandQueue s @ [\<lparr>qcommand = cmd, commandId = cid, qpromise = promises s\<rparr>]\<rparr>))"

definition server_execute :: "int \<Rightarrow> jsstring \<Rightarrow> state \<Rightarrow> outcome" where
  "server_execute now cmd s =
     (if currentTarget s = None then Returns s [Refused ''Not connected'']
      else server_executeInRDESession now cmd (CmdId now (Suc (commandCounter s)))
             (s\<lparr>commandCounter := Suc (commandCounter s)\<rparr>))"

definition server_disconnect :: "state \<Rightarrow> outcome" where
  "server_disconnect s =
     seq (closeRDESession s) (\<lambda>s1. Returns s1 [Status Disconnected ''Disconnected''])"

fun server_step :: "int \<Rightarrow> event \<Rightarrow> state \<Rightarrow> outcome" where
  "server_step now Connect s = server_connect s"
| "server_step now Disconnect s = server_disconnect s"
| "server_step now (Execute cmd) s = server_execute now cmd s"
| "server_step now (StdoutData d) s = server_stdout now d s"
| "server_step now (StderrData d) s = server_stderr d s"
| "server_step now Exit s = server_exit s"
| "server_step now (ProcessError msg) s = server_error msg s"
| "server_step now (Timeout (HardTimeout p)) s = server_timeout now p s"
| "server_step now (Timeout (OutputCheck p)) s = checkOutputActivity now p s"
| "server_step now (Timeout (EarlyServer c p)) s = server_early now c p s"
| "server_step now (Timeout (ConnectTimeout w)) s = server_connect_timeout w s"
| "server_step now (Timeout (EarlyMain c)) s = Returns s []"

fun server_run :: "(int \<times> event) list \<Rightarrow> state \<Rightarrow> state \<times> effect list" where
  "server_run [] s = (s, [])"
| "server_run ((now, ev) # evs) s =
     (case server_run evs (state_of (server_step now ev s)) of
        (s', es) \<Rightarrow> (s', effects (server_step now ev s) @ es))"

section \<open>Notions the properties are stated with\<close>

text \<open>The Active Command of a state, and the content lines captured for it so far.\<close>

definition active :: "state \<Rightarrow> tracker option" where
  "active s = (case rdeProcess s of None \<Rightarrow> None | Some pr \<Rightarrow> currentCommand pr)"

definition captured :: "state \<Rightarrow> jsstring list" where
  "captured s =
     (case active s of
        None \<Rightarrow> []
      | Some tr \<Rightarrow>
          (case map_of (commandOutputs s) (tid tr) of None \<Rightarrow> [] | Some out \<Rightarrow> stdout out))"

text \<open>A line that is not blank and has no white space at either end.\<close>

definition trimmed :: "jsstring \<Rightarrow> bool" where
  "trimmed l \<longleftrightarrow> l \<noteq> [] \<and> \<not> is_space (hd l) \<and> \<not> is_space (last l)"

text \<open>The scheduling of a grace-window timer, among the effects of a handler.\<close>

fun is_grace_timer :: "effect \<Rightarrow> bool" where
  "is_grace_timer (SetTimeout (EarlyMain c) d) = True"
| "is_grace_timer (SetTimeout (EarlyServer c p) d) = True"
| "is_grace_timer e = False"

text \<open>Whether a promise is settled by one of the effects.\<close>

fun settles :: "nat \<Rightarrow> effect \<Rightarrow> bool" where
  "settles p (Resolve q r) = (p = q)"
| "settles p (Reject q e) = (p = q)"
| "settles p e = False"

text \<open>
  A line fit to be stored: trimmed and free of newlines. A state whose collectors hold
  such lines only, and an effect that shows such lines only: a streamed stdout line
  that is trimmed, a result whose output is empty or splits into trimmed lines.
\<close>

definition clean_line :: "jsstring \<Rightarrow> bool" where
  "clean_line l \<longleftrightarrow> trimmed l \<and> 10 \<notin> set l"

definition clean_outputs :: "state \<Rightarrow> bool" where
  "clean_outputs s \<longleftrightarrow> list_all (\<lambda>(k, out). list_all clean_line (stdout out)) (commandOutputs s)"

fun clean_effect :: "effect \<Rightarrow> bool" where
  "clean_effect (Resolve p r) =
     (output_str r = [] \<or> list_all trimmed (split_newline (output_str r)))"
| "clean_effect (CommandOutput k Stdout t) = trimmed t"
| "clean_effect e = True"

text \<open>An outcome whose state satisfies an invariant and whose effects all satisfy a property.\<close>

definition keeps :: "(state \<Rightarrow> bool) \<Rightarrow> (effect \<Rightarrow> bool) \<Rightarrow> outcome \<Rightarrow> bool" where
  "keeps I G r \<longleftrightarrow> I (state_of r) \<and> list_all G (effects r)"

abbreviation clean :: "outcome \<Rightarrow> bool" where
  "clean \<equiv> keeps clean_outputs clean_effect"

text \<open>
  To compare a history with the same history without its stderr data: the state with
  the stderr lists of all collectors emptied, a function applied to the state of an
  outcome, the stderr events among the effects, and the stderr data among the events.
\<close>

definition forget_stderr :: "state \<Rightarrow> state" where
  "forget_stderr s =
     s\<lparr>commandOutputs := map (\<lambda>(k, out). (k, out\<lparr>stderr := []\<rparr>)) (commandOutputs s)\<rparr>"

fun map_state :: "(state \<Rightarrow> state) \<Rightarrow> outcome \<Rightarrow> outcome" where
  "map_state f (Returns s es) = Returns (f s) es"
| "map_state f (Throws s es) = Throws (f s) es"

fun is_stderr_output :: "effect \<Rightarrow> bool" where
  "is_stderr_output (CommandOutput k Stderr t) = True"
| "is_stderr_output e = False"

fun is_stderr_data :: "event \<Rightarrow> bool" where
  "is_stderr_data (StderrData d) = True"
| "is_stderr_data ev = False"

fun is_result :: "effect \<Rightarrow> bool" where
  "is_result (Resolve p r) = True"
| "is_result e = False"

text \<open>
  The inactivity check among the timers set and among the timers that fire; the
  grace-window timer of the server for a given promise among the timers that fire.
\<close>

fun is_poll_timer :: "effect \<Rightarrow> bool" where
  "is_poll_timer (SetTimeout (OutputCheck p) d) = True"
| "is_poll_timer e = False"

fun is_poll_event :: "event \<Rightarrow> bool" where
  "is_poll_event (Timeout (OutputCheck p)) = True"
| "is_poll_event ev = False"

fun is_early_event :: "nat \<Rightarrow> event \<Rightarrow> bool" where
  "is_early_event p (Timeout (EarlyServer c q)) = (p = q)"
| "is_early_event p ev = False"

text \<open>
  A promise that nothing in the state can settle any more: it was created, and it is
  neither the promise of a queue entry nor that of the Active Command.
\<close>

definition orphan :: "nat \<Rightarrow> state \<Rightarrow> bool" where
  "orphan p s \<longleftrightarrow>
     p < promises s \<and> list_all (\<lambda>q. qpromise q \<noteq> p) (commandQueue s)
     \<and> (case active s of None \<Rightarrow> True | Some tr \<Rightarrow> promise tr \<noteq> p)"

abbreviation quiet :: "outcome \<Rightarrow> bool" where
  "quiet \<equiv> keeps (\<lambda>s. True) (\<lambda>e. \<not> is_poll_timer e)"

abbreviation lost :: "nat \<Rightarrow> outcome \<Rightarrow> bool" where
  "lost p \<equiv> keeps (orphan p) (\<lambda>e. \<not> settles p e)"

text \<open>
  The content lines among the lines of a chunk (trimmed; blank lines and prompt lines
  are none), of a chunk of data, and of a sequence of chunks with their times of arrival;
  the history in which these chunks arrive on stdout; a chunk without a prompt line.
\<close>

definition content_lines :: "jsstring list \<Rightarrow> jsstring list" where
  "content_lines lns = map trim (filter (\<lambda>l. trim l \<noteq> [] \<and> \<not> isPrompt l) lns)"

definition chunk_content :: "string \<Rightarrow> jsstring list" where
  "chunk_content d = content_lines (split_newline (toString d))"

definition chunks_content :: "(int \<times> string) list \<Rightarrow> jsstring list" where
  "chunks_content ds = concat (map (\<lambda>x. chunk_content (snd x)) ds)"

definition stdout_events :: "(int \<times> string) list \<Rightarrow> (int \<times> event) list" where
  "stdout_events ds = map (\<lambda>x. (fst x, StdoutData (snd x))) ds"

definition no_prompt :: "string \<Rightarrow> bool" where
  "no_prompt d \<longleftrightarrow> list_all (\<lambda>l. \<not> isPrompt l) (split_newline (toString d))"

text \<open>
  Histories used as examples. After a connect and the welcome of the remote shell:
  the session is connected and idle; then \<open>ls\<close> is submitted and becomes the Active
  Command (promise 1), and \<open>pwd\<close> is submitted and waits in the queue (promise 2).
\<close>

definition main_connected :: state where
  "main_connected = fst (main_run [(0, Connect), (1, StdoutData ''Welcome\<newline>'')] init)"

definition server_connected :: state where
  "server_connected = fst (server_run [(0, Connect), (1, StdoutData ''Welcome\<newline>'')] init)"

definition main_busy :: state where
  "main_busy = fst (main_run [(2, Execute (str ''ls'')), (3, Execute (str ''pwd''))] main_connected)"

definition server_busy :: state where
  "server_busy =
     fst (server_run [(2, Execute (str ''ls'')), (3, Execute (str ''pwd''))] server_connected)"

text \<open>
  \<open>echo ok\<close> submitted to the idle session and Active; and \<open>ls\<close> Active with two lines
  of its listing captured.
\<close>

definition main_echo :: state where
  "main_echo = fst (main_run [(2, Execute (str ''echo ok''))] main_connected)"

definition server_echo :: state where
  "server_echo = fst (server_run [(2, Execute (str ''echo ok''))] server_connected)"

definition main_listing :: state where
  "main_listing = state_of (main_stdout ''a.txt\<newline>b.txt\<newline>'' main_busy)"

text \<open>
  The supervisor status command Active in each program, and the server with \<open>ls\<close>
  Active and one line of its listing captured at time 3.
\<close>

definition main_status :: state where
  "main_status =
     fst (main_run [(2, Execute (str ''sudo supervisorctl status all''))] main_connected)"

definition server_status :: state where
  "server_status =
     fst (server_run [(2, Execute (str ''sudo supervisorctl status all''))] server_connected)"

definition server_listing :: state where
  "server_listing = state_of (server_stdout 3 ''a.txt\<newline>'' server_busy)"

section \<open>Lines and chunks\<close>

lemma split_from_nonempty: "split_from cur s \<noteq> []"
  by (induction s arbitrary: cur) auto

lemma split_from_append:
  "split_from cur (a @ b) = butlast (split_from cur a) @ split_from (last (split_from cur a)) b"
proof (induction a arbitrary: cur)
  case Nil
  show ?case by simp
next
  case (Cons c cs)
  show ?case
  proof (cases "c = 10")
    case True
    then show ?thesis
      using Cons.IH [of "[]"] by (simp add: split_from_nonempty)
  next
    case False
    then show ?thesis
      using Cons.IH [of "cur @ [c]"] by simp
  qed
qed

lemma split_from_prefix:
  "10 \<notin> set cur \<Longrightarrow> split_from pre (cur @ b) = split_from (pre @ cur) b"
  by (induction cur arbitrary: pre) auto

lemma split_from_no_newline:
  "10 \<notin> set cur \<Longrightarrow> \<forall>l \<in> set (split_from cur s). 10 \<notin> set l"
proof (induction s arbitrary: cur)
  case Nil
  then show ?case by simp
next
  case (Cons c s)
  show ?case
    using Cons.IH [of "[]"] Cons.IH [of "cur @ [c]"] Cons.prems by auto
qed

lemma split_newline_nonempty: "split_newline s \<noteq> []"
  by (simp add: split_newline_def split_from_nonempty)

lemma split_newline_no_newline: "l \<in> set (split_newline s) \<Longrightarrow> 10 \<notin> set l"
  using split_from_no_newline [of "[]" s] by (simp add: split_newline_def)

lemma last_split_no_newline: "10 \<notin> set (last (split_newline s))"
  using split_newline_no_newline [of "last (split_newline s)" s] split_newline_nonempty [of s]
  by simp

lemma split_newline_append:
  "split_newline (a @ b) = butlast (split_newline a) @ split_newline (last (split_newline a) @ b)"
proof -
  have "split_from [] (last (split_newline a) @ b) = split_from (last (split_newline a)) b"
    using split_from_prefix [OF last_split_no_newline, of "[]" a b] by simp
  then show ?thesis
    using split_from_append [of "[]" a b] by (simp add: split_newline_def)
qed

lemma split_newline_plain: "10 \<notin> set s \<Longrightarrow> split_newline s = [s]"
  unfolding split_newline_def using split_from_prefix [of s "[]" "[]"] by simp

lemma utf8_ascii: "\<forall>b \<in> set bs. b < 0x80 \<Longrightarrow> utf8 None bs = bs"
  by (induction bs) auto

section \<open>Log streams: chunking and attribution\<close>

lemma tail_forEach_append:
  "tail_forEach (xs @ ys) cf =
     (case tail_forEach xs cf of
        (cf1, sent1) \<Rightarrow> (case tail_forEach ys cf1 of (cf2, sent2) \<Rightarrow> (cf2, sent1 @ sent2)))"
  by (induction xs arbitrary: cf) (auto split: prod.splits option.splits)

lemma tail_text_buffer: "10 \<notin> set (buffer (fst (tail_text t st)))"
  by (simp add: tail_text_def last_split_no_newline split: prod.splits)

lemma tail_texts_concat:
  "10 \<notin> set (buffer st) \<Longrightarrow> tail_texts ts st = tail_text (concat ts) st"
proof (induction ts arbitrary: st)
  case Nil
  then show ?case
    by (cases st) (simp add: tail_text_def split_newline_plain)
next
  case (Cons t ts)
  obtain st1 sent1 where t1: "tail_text t st = (st1, sent1)"
    by (cases "tail_text t st")
  have b1: "10 \<notin> set (buffer st1)"
    using tail_text_buffer [of t st] t1 by simp
  have ih: "tail_texts ts st1 = tail_text (concat ts) st1"
    by (rule Cons.IH [OF b1])
  have sp: "split_newline (buffer st @ t @ concat ts) =
      butlast (split_newline (buffer st @ t)) @ split_newline (buffer st1 @ concat ts)"
    using split_newline_append [of "buffer st @ t" "concat ts"] t1
    by (auto simp: tail_text_def split: prod.splits)
  show ?case
    using t1 ih
    by (auto simp: tail_text_def sp tail_forEach_append split_newline_nonempty
        butlast_append split: prod.splits)
qed

text \<open>
  In the desktop program every chunk is decoded on its own, and the splitter is
  invariant under re-chunking of the decoded text: two sequences of chunks whose decoded texts concatenate
  to the same string leave the stream in the same state and forward the same lines, from
  any state whose carry buffer holds no newline (as every state the handler leaves does).
  The trailing partial line stays in the buffer until its newline arrives.
\<close>

theorem tail_chunks_rechunk:
  "10 \<notin> set (buffer st) \<Longrightarrow> concat (map toString cs1) = concat (map toString cs2) \<Longrightarrow>
   tail_chunks cs1 st = tail_chunks cs2 st"
  by (simp add: tail_chunks_def tail_texts_concat)

text \<open>
  A chunk that ends in the middle of a line, then the chunk that completes it: one line
  is forwarded, with the concatenated text, as for the undivided chunk.
\<close>

theorem tail_chunks_rechunk_witness:
  "10 \<notin> set (buffer (tail_start [str ''/var/log/app.log'']))
   \<and> concat (map toString [''ab'', ''c\<newline>'']) = concat (map toString [''abc\<newline>''])
   \<and> tail_chunks [''ab'', ''c\<newline>''] (tail_start [str ''/var/log/app.log''])
       = tail_chunks [''abc\<newline>''] (tail_start [str ''/var/log/app.log''])
   \<and> snd (tail_chunks [''ab'', ''c\<newline>''] (tail_start [str ''/var/log/app.log'']))
       = [\<lparr>logfile = Some (str ''/var/log/app.log''), logline = str ''abc''\<rparr>]"
proof -
  have h1: "10 \<notin> set (buffer (tail_start [str ''/var/log/app.log'']))"
    by (simp add: tail_start_def)
  have h2: "concat (map toString [''ab'', ''c\<newline>'']) = concat (map toString [''abc\<newline>''])"
    by (simp add: toString_def)
  have h3: "snd (tail_chunks [''abc\<newline>''] (tail_start [str ''/var/log/app.log'']))
       = [\<lparr>logfile = Some (str ''/var/log/app.log''), logline = str ''abc''\<rparr>]"
    by (simp add: tail_chunks_def tail_text_def tail_start_def toString_def split_newline_def
        trim_def is_space_def fileHeaderMatch_def str_def)
  show ?thesis
    using h1 h2 h3 tail_chunks_rechunk [OF h1 h2] by simp
qed

text \<open>
  On bytes it is not: the two bytes of one character, split between two chunks,
  are decoded to two replacement characters, and the line forwarded differs from the one
  of the undivided chunk.
\<close>

theorem tail_chunks_bytes_counterexample:
  "concat [[CHR 0xC3], [CHR 0xA9, CHR 0x0A]] = concat [[CHR 0xC3, CHR 0xA9, CHR 0x0A]]
   \<and> snd (tail_chunks [[CHR 0xC3], [CHR 0xA9, CHR 0x0A]] (tail_start [str ''/var/log/app.log'']))
       = [\<lparr>logfile = Some (str ''/var/log/app.log''), logline = [0xFFFD, 0xFFFD]\<rparr>]
   \<and> snd (tail_chunks [[CHR 0xC3, CHR 0xA9, CHR 0x0A]] (tail_start [str ''/var/log/app.log'']))
       = [\<lparr>logfile = Some (str ''/var/log/app.log''), logline = [0xE9]\<rparr>]
   \<and> snd (tail_chunks [[CHR 0xC3], [CHR 0xA9, CHR 0x0A]] (tail_start [str ''/var/log/app.log'']))
       \<noteq> snd (tail_chunks [[CHR 0xC3, CHR 0xA9, CHR 0x0A]] (tail_start [str ''/var/log/app.log'']))"
  by (simp add: tail_chunks_def tail_text_def tail_start_def toString_def split_newline_def
      code_units_def trim_def is_space_def fileHeaderMatch_def str_def)

text \<open>
  C7, evaluated on the web server. Its handler keeps no buffer and splits every chunk
  on its own: a chunk that ends in the middle of a line, followed by the chunk that
  completes it, is forwarded as two lines, and the undivided chunk as one; the desktop
  program forwards one line, with the concatenated text, either way.
\<close>

theorem server_tail_no_carry:
  "server_tail_chunks [str ''/var/log/app.log''] [''ab'', ''c\<newline>'']
     = [\<lparr>logfile = Some (str ''/var/log/app.log''), logline = str ''ab''\<rparr>,
        \<lparr>logfile = Some (str ''/var/log/app.log''), logline = str ''c''\<rparr>]
   \<and> server_tail_chunks [str ''/var/log/app.log''] [''abc\<newline>'']
     = [\<lparr>logfile = Some (str ''/var/log/app.log''), logline = str ''abc''\<rparr>]
   \<and> snd (tail_chunks [''ab'', ''c\<newline>''] (tail_start [str ''/var/log/app.log'']))
     = [\<lparr>logfile = Some (str ''/var/log/app.log''), logline = str ''abc''\<rparr>]"
  by (simp add: server_tail_chunks_def server_tail_data_def tail_chunks_def tail_text_def
      tail_start_def toString_def split_newline_def fileHeaderMatch_def trim_def str_def
      is_space_def)

text \<open>
  In the complete lines of a stream of the desktop program, a line of the header format
  sets the current file and is not forwarded; the lines after it, up to the next header, are forwarded in
  order when they are not blank, each trimmed and attributed to that file. What was
  forwarded before the header is unchanged.
\<close>

lemma fileHeaderMatch_empty: "fileHeaderMatch [] = None"
  by (simp add: fileHeaderMatch_def str_def)

lemma tail_forEach_content:
  "\<forall>l \<in> set body. fileHeaderMatch (trim l) = None \<Longrightarrow>
   tail_forEach body cf =
     (cf, map (\<lambda>l. \<lparr>logfile = cf, logline = trim l\<rparr>) (filter (\<lambda>l. trim l \<noteq> []) body))"
  by (induction body) auto

theorem tail_forEach_attribution:
  assumes "fileHeaderMatch (trim h) = Some f"
    and "\<forall>l \<in> set body. fileHeaderMatch (trim l) = None"
  shows "tail_forEach (pre @ h # body) cf =
     (Some f, snd (tail_forEach pre cf)
        @ map (\<lambda>l. \<lparr>logfile = Some f, logline = trim l\<rparr>) (filter (\<lambda>l. trim l \<noteq> []) body))"
proof -
  have nonblank: "trim h \<noteq> []"
    using assms(1) fileHeaderMatch_empty by auto
  have "tail_forEach (h # body) c = (Some f,
      map (\<lambda>l. \<lparr>logfile = Some f, logline = trim l\<rparr>) (filter (\<lambda>l. trim l \<noteq> []) body))" for c
    using assms(1) nonblank tail_forEach_content [OF assms(2), of "Some f"] by simp
  then show ?thesis
    by (simp add: tail_forEach_append split: prod.splits)
qed

text \<open>
  A header for file A, three lines, a header for file B, two lines: three lines are
  forwarded for A and two for B, in the order they came.
\<close>

theorem tail_forEach_attribution_witness:
  "fileHeaderMatch (trim (str ''==> /var/log/b.log <=='')) = Some (str ''/var/log/b.log'')
   \<and> fileHeaderMatch (trim (str ''b1'')) = None
   \<and> fileHeaderMatch (trim (str ''b2'')) = None
   \<and> tail_forEach
        ([str ''==> /var/log/a.log <=='', str ''a1'', str ''a2'', str ''a3'']
           @ str ''==> /var/log/b.log <=='' # [str ''b1'', str ''b2''])
        (Some (str ''/var/log/a.log''))
      = (Some (str ''/var/log/b.log''),
         snd (tail_forEach [str ''==> /var/log/a.log <=='', str ''a1'', str ''a2'', str ''a3'']
                (Some (str ''/var/log/a.log'')))
         @ [\<lparr>logfile = Some (str ''/var/log/b.log''), logline = str ''b1''\<rparr>,
            \<lparr>logfile = Some (str ''/var/log/b.log''), logline = str ''b2''\<rparr>])
   \<and> tail_data
        ''==> /var/log/a.log <==\<newline>a1\<newline>a2\<newline>a3\<newline>==> /var/log/b.log <==\<newline>b1\<newline>b2\<newline>''
        (tail_start [str ''/var/log/a.log'', str ''/var/log/b.log''])
      = (\<lparr>buffer = [], currentFile = Some (str ''/var/log/b.log'')\<rparr>,
         [\<lparr>logfile = Some (str ''/var/log/a.log''), logline = str ''a1''\<rparr>,
          \<lparr>logfile = Some (str ''/var/log/a.log''), logline = str ''a2''\<rparr>,
          \<lparr>logfile = Some (str ''/var/log/a.log''), logline = str ''a3''\<rparr>,
          \<lparr>logfile = Some (str ''/var/log/b.log''), logline = str ''b1''\<rparr>,
          \<lparr>logfile = Some (str ''/var/log/b.log''), logline = str ''b2''\<rparr>])"
proof -
  have h1: "fileHeaderMatch (trim (str ''==> /var/log/b.log <=='')) = Some (str ''/var/log/b.log'')"
    by (simp add: fileHeaderMatch_def trim_def str_def is_space_def header_tail_def
        is_line_terminator_def)
  have h2: "\<forall>l \<in> set [str ''b1'', str ''b2'']. fileHeaderMatch (trim l) = None"
    by (simp add: fileHeaderMatch_def trim_def str_def is_space_def)
  have h3: "tail_data
        ''==> /var/log/a.log <==\<newline>a1\<newline>a2\<newline>a3\<newline>==> /var/log/b.log <==\<newline>b1\<newline>b2\<newline>''
        (tail_start [str ''/var/log/a.log'', str ''/var/log/b.log''])
      = (\<lparr>buffer = [], currentFile = Some (str ''/var/log/b.log'')\<rparr>,
         [\<lparr>logfile = Some (str ''/var/log/a.log''), logline = str ''a1''\<rparr>,
          \<lparr>logfile = Some (str ''/var/log/a.log''), logline = str ''a2''\<rparr>,
          \<lparr>logfile = Some (str ''/var/log/a.log''), logline = str ''a3''\<rparr>,
          \<lparr>logfile = Some (str ''/var/log/b.log''), logline = str ''b1''\<rparr>,
          \<lparr>logfile = Some (str ''/var/log/b.log''), logline = str ''b2''\<rparr>])"
    by (simp add: tail_data_def tail_text_def tail_start_def toString_def split_newline_def
        fileHeaderMatch_def trim_def str_def is_space_def header_tail_def is_line_terminator_def)
  have h4: "map (\<lambda>l. \<lparr>logfile = Some (str ''/var/log/b.log''), logline = trim l\<rparr>)
              (filter (\<lambda>l. trim l \<noteq> []) [str ''b1'', str ''b2''])
      = [\<lparr>logfile = Some (str ''/var/log/b.log''), logline = str ''b1''\<rparr>,
         \<lparr>logfile = Some (str ''/var/log/b.log''), logline = str ''b2''\<rparr>]"
    by (simp add: trim_def str_def is_space_def)
  show ?thesis
    using h1 h2 h3 h4
      tail_forEach_attribution [OF h1 h2,
        of "[str ''==> /var/log/a.log <=='', str ''a1'', str ''a2'', str ''a3'']"
           "Some (str ''/var/log/a.log'')"]
    by simp
qed

text \<open>
  C8, evaluated on the web server. Its handler does not look for headers, and its file
  index never moves: of the output of \<open>tail\<close> for two files (a header for A, three lines,
  an empty line, a header for B, two lines) it forwards the two headers as content and
  attributes all seven lines to the first file, where the desktop program forwards three
  lines for A and two for B.
\<close>

theorem server_tail_forwards_headers:
  "server_tail_data [str ''/var/log/a.log'', str ''/var/log/b.log'']
     ''==> /var/log/a.log <==\<newline>a1\<newline>a2\<newline>a3\<newline>\<newline>==> /var/log/b.log <==\<newline>b1\<newline>b2\<newline>''
     = [\<lparr>logfile = Some (str ''/var/log/a.log''), logline = str ''==> /var/log/a.log <==''\<rparr>,
        \<lparr>logfile = Some (str ''/var/log/a.log''), logline = str ''a1''\<rparr>,
        \<lparr>logfile = Some (str ''/var/log/a.log''), logline = str ''a2''\<rparr>,
        \<lparr>logfile = Some (str ''/var/log/a.log''), logline = str ''a3''\<rparr>,
        \<lparr>logfile = Some (str ''/var/log/a.log''), logline = str ''==> /var/log/b.log <==''\<rparr>,
        \<lparr>logfile = Some (str ''/var/log/a.log''), logline = str ''b1''\<rparr>,
        \<lparr>logfile = Some (str ''/var/log/a.log''), logline = str ''b2''\<rparr>]
   \<and> snd (tail_data
        ''==> /var/log/a.log <==\<newline>a1\<newline>a2\<newline>a3\<newline>\<newline>==> /var/log/b.log <==\<newline>b1\<newline>b2\<newline>''
        (tail_start [str ''/var/log/a.log'', str ''/var/log/b.log'']))
     = [\<lparr>logfile = Some (str ''/var/log/a.log''), logline = str ''a1''\<rparr>,
        \<lparr>logfile = Some (str ''/var/log/a.log''), logline = str ''a2''\<rparr>,
        \<lparr>logfile = Some (str ''/var/log/a.log''), logline = str ''a3''\<rparr>,
        \<lparr>logfile = Some (str ''/var/log/b.log''), logline = str ''b1''\<rparr>,
        \<lparr>logfile = Some (str ''/var/log/b.log''), logline = str ''b2''\<rparr>]"
  by (simp add: server_tail_data_def tail_data_def tail_text_def tail_start_def toString_def
      split_newline_def fileHeaderMatch_def trim_def str_def is_space_def header_tail_def
      is_line_terminator_def)

section \<open>The session: evaluation of the examples\<close>

lemmas string_defs = str_def toString_def split_newline_def trim_def is_space_def
  toLowerCase_def code_units_def

lemmas session_defs = init_def fullOutput_def push_stdout_def push_stderr_def set_current_def
  early_pattern_def welcome_append_def welcome_seen_def closeRDESession_def createRDESession_def
  map_delete_def

lemmas main_defs = main_processNextCommand_def main_complete_def main_early_def main_timeout_def
  main_prompt_def main_line_def main_connect_def main_connect_resolved_def
  main_connect_rejected_def main_connect_timeout_def main_stdout_def main_stderr_def
  main_exit_def main_error_def main_executeInRDESession_def main_execute_def main_disconnect_def

lemmas server_defs = server_processNextCommand_def server_complete_def completeCommand_def
  checkOutputActivity_def server_timeout_def server_early_def server_store_def server_prompt_def
  server_line_def server_connect_def server_connect_resolved_def server_connect_rejected_def
  server_connect_timeout_def server_stdout_def server_stderr_def server_closed_def
  server_exit_def server_error_def server_executeInRDESession_def server_execute_def
  server_disconnect_def

lemma main_connected_eq:
  "main_connected =
     \<lparr>currentTarget = Some [], rdeProcess = Some \<lparr>currentCommand = None\<rparr>, commandQueue = [],
      isExecutingCommand = False, commandOutputs = [], commandCounter = 0,
      connectionResolve = None, welcomeBuffer = [], promises = 1\<rparr>"
  by (simp add: main_connected_def string_defs session_defs main_defs Let_def)

lemma server_connected_eq: "server_connected = main_connected"
  by (simp add: main_connected_eq server_connected_def string_defs session_defs server_defs
      Let_def)

lemma main_busy_eq:
  "main_busy =
     \<lparr>currentTarget = Some [],
      rdeProcess = Some \<lparr>currentCommand =
        Some \<lparr>tid = CmdId 2 1, command = str ''ls'', promise = 1, outputTimeout = False, lastOutputTime = 0,
              earlyCompleteScheduled = False\<rparr>\<rparr>,
      commandQueue = [\<lparr>qcommand = str ''pwd'', commandId = CmdId 3 2, qpromise = 2\<rparr>],
      isExecutingCommand = True,
      commandOutputs = [(CmdId 2 1, \<lparr>stdout = [], stderr = []\<rparr>)], commandCounter = 2,
      connectionResolve = None, welcomeBuffer = [], promises = 3\<rparr>"
  by (simp add: main_busy_def main_connected_eq string_defs session_defs main_defs Let_def)

lemma server_busy_eq:
  "server_busy =
     \<lparr>currentTarget = Some [],
      rdeProcess = Some \<lparr>currentCommand =
        Some \<lparr>tid = CmdId 2 1, command = str ''ls'', promise = 1, outputTimeout = False, lastOutputTime = 2,
              earlyCompleteScheduled = False\<rparr>\<rparr>,
      commandQueue = [\<lparr>qcommand = str ''pwd'', commandId = CmdId 3 2, qpromise = 2\<rparr>],
      isExecutingCommand = True,
      commandOutputs = [(CmdId 2 1, \<lparr>stdout = [], stderr = []\<rparr>)], commandCounter = 2,
      connectionResolve = None, welcomeBuffer = [], promises = 3\<rparr>"
  by (simp add: server_busy_def server_connected_eq main_connected_eq string_defs session_defs
      server_defs Let_def)

lemma main_echo_eq:
  "main_echo =
     \<lparr>currentTarget = Some [],
      rdeProcess = Some \<lparr>currentCommand =
        Some \<lparr>tid = CmdId 2 1, command = str ''echo ok'', promise = 1, outputTimeout = False, lastOutputTime = 0,
              earlyCompleteScheduled = False\<rparr>\<rparr>,
      commandQueue = [], isExecutingCommand = True,
      commandOutputs = [(CmdId 2 1, \<lparr>stdout = [], stderr = []\<rparr>)], commandCounter = 1,
      connectionResolve = None, welcomeBuffer = [], promises = 2\<rparr>"
  by (simp add: main_echo_def main_connected_eq string_defs session_defs main_defs Let_def)

lemma server_echo_eq:
  "server_echo =
     \<lparr>currentTarget = Some [],
      rdeProcess = Some \<lparr>currentCommand =
        Some \<lparr>tid = CmdId 2 1, command = str ''echo ok'', promise = 1, outputTimeout = False, lastOutputTime = 2,
              earlyCompleteScheduled = False\<rparr>\<rparr>,
      commandQueue = [], isExecutingCommand = True,
      commandOutputs = [(CmdId 2 1, \<lparr>stdout = [], stderr = []\<rparr>)], commandCounter = 1,
      connectionResolve = None, welcomeBuffer = [], promises = 2\<rparr>"
  by (simp add: server_echo_def server_connected_eq main_connected_eq string_defs session_defs
      server_defs Let_def)

lemma main_listing_eq:
  "main_listing =
     \<lparr>currentTarget = Some [],
      rdeProcess = Some \<lparr>currentCommand =
        Some \<lparr>tid = CmdId 2 1, command = str ''ls'', promise = 1, outputTimeout = False, lastOutputTime = 0,
              earlyCompleteScheduled = False\<rparr>\<rparr>,
      commandQueue = [\<lparr>qcommand = str ''pwd'', commandId = CmdId 3 2, qpromise = 2\<rparr>],
      isExecutingCommand = True,
      commandOutputs = [(CmdId 2 1, \<lparr>stdout = [str ''a.txt'', str ''b.txt''], stderr = []\<rparr>)],
      commandCounter = 2, connectionResolve = None,
      welcomeBuffer = str ''a.txt'' @ 10 # str ''b.txt'' @ [10], promises = 3\<rparr>"
  by (simp add: main_listing_def main_busy_eq string_defs session_defs main_defs Let_def)

lemma server_listing_eq:
  "server_listing =
     \<lparr>currentTarget = Some [],
      rdeProcess = Some \<lparr>currentCommand =
        Some \<lparr>tid = CmdId 2 1, command = str ''ls'', promise = 1,
              outputTimeout = False, lastOutputTime = 3, earlyCompleteScheduled = False\<rparr>\<rparr>,
      commandQueue = [\<lparr>qcommand = str ''pwd'', commandId = CmdId 3 2, qpromise = 2\<rparr>],
      isExecutingCommand = True,
      commandOutputs = [(CmdId 2 1, \<lparr>stdout = [str ''a.txt''], stderr = []\<rparr>)],
      commandCounter = 2, connectionResolve = None,
      welcomeBuffer = str ''a.txt'' @ [10], promises = 3\<rparr>"
  by (simp add: server_listing_def server_busy_eq string_defs session_defs server_defs Let_def)

section \<open>The session: completion\<close>

lemma effects_emit [simp]: "effects (emit es r) = es @ effects r"
  by (cases r) auto
lemma state_of_emit [simp]: "state_of (emit es r) = state_of r"
  by (cases r) auto
lemma effects_seq: "effects (seq r f) = (case r of Returns s es \<Rightarrow> es @ effects (f s) | Throws s es \<Rightarrow> es)"
  by (cases r) auto
lemma effects_resume [simp]: "effects (resume r f) = effects r @ effects (f (state_of r))"
  by (cases r) auto

lemma main_next_no_resolve: "Resolve p r \<notin> set (effects (main_processNextCommand s))"
  by (auto simp: main_processNextCommand_def Let_def split: list.splits)

lemma server_next_no_resolve: "Resolve p r \<notin> set (effects (server_processNextCommand now s))"
  by (auto simp: server_processNextCommand_def Let_def split: list.splits)

lemma main_next_returns:
  "rdeProcess s \<noteq> None \<Longrightarrow> \<exists>s' es. main_processNextCommand s = Returns s' es"
  by (auto simp: main_processNextCommand_def Let_def split: list.splits)

lemma server_next_returns:
  "rdeProcess s \<noteq> None \<Longrightarrow> \<exists>s' es. server_processNextCommand now s = Returns s' es"
  by (auto simp: server_processNextCommand_def Let_def split: list.splits)

lemma main_forEach_prompt: "isPrompt ln \<Longrightarrow> main_outputs_forEach ln ids s = Returns s []"
  by (induction ids) auto

lemma main_forEach_no_resolve: "Resolve p r \<notin> set (effects (main_outputs_forEach ln ids s))"
  by (induction ln ids s rule: main_outputs_forEach.induct) (auto split: option.splits)

lemma fullOutput_captured: "active s = Some tr \<Longrightarrow> fullOutput (tid tr) s = join_newline (captured s)"
  by (simp add: fullOutput_def captured_def split: option.splits)

lemma main_complete_effects:
  "\<exists>es. effects (main_complete cid p s) = Resolve p \<lparr>exitCode = 0, output_str = fullOutput cid s\<rparr> # es
     \<and> (\<forall>q r. Resolve q r \<notin> set es)"
  by (simp add: main_complete_def main_next_no_resolve)

lemma main_complete_returns:
  "rdeProcess s \<noteq> None \<Longrightarrow> \<exists>s' es. main_complete cid p s = Returns s' (Resolve p \<lparr>exitCode = 0, output_str = fullOutput cid s\<rparr> # es)"
proof -
  assume a: "rdeProcess s \<noteq> None"
  let ?s1 = "set_current None (s\<lparr>commandOutputs := map_delete cid (commandOutputs s), isExecutingCommand := False\<rparr>)"
  have "rdeProcess ?s1 \<noteq> None" using a by (simp add: set_current_def)
  from main_next_returns [OF this] obtain s' es where "main_processNextCommand ?s1 = Returns s' es" by blast
  then show ?thesis by (simp add: main_complete_def)
qed

lemma server_complete_returns:
  "rdeProcess s \<noteq> None \<Longrightarrow> \<exists>s' es. server_complete now cid p clears s = Returns s' (clears @ Resolve p \<lparr>exitCode = 0, output_str = fullOutput cid s\<rparr> # es)"
proof -
  assume a: "rdeProcess s \<noteq> None"
  let ?s1 = "set_current None (s\<lparr>commandOutputs := map_delete cid (commandOutputs s), isExecutingCommand := False\<rparr>)"
  have "rdeProcess ?s1 \<noteq> None" using a by (simp add: set_current_def)
  from server_next_returns [OF this] obtain s' es where "server_processNextCommand now ?s1 = Returns s' es" by blast
  then show ?thesis by (simp add: server_complete_def)
qed

lemma map_of_map_set: "map_of (map_set k v m) k' = (if k' = k then Some v else map_of m k')"
  by (induction m) auto

lemma server_store_prompt:
  "isPrompt ln \<Longrightarrow> \<exists>s0. server_store now ln tr s = Returns s0 [] \<and> rdeProcess s0 = rdeProcess s
     \<and> fullOutput (tid tr) s0 = fullOutput (tid tr) s"
  by (auto simp: server_store_def Let_def fullOutput_def map_of_map_set)


text \<open>
  C3. Whenever a Command is Active, a line that matches the prompt pattern completes it
  in the handling of that very line, in both programs: its fallback timer is cleared (and
  in the server the timer of the inactivity check, when that handle is set) and its
  promise is resolved with exit code 0 and the join of the lines captured before.
\<close>

theorem prompt_completes:
  assumes "active s = Some tr" and "isPrompt ln"
  shows "(\<exists>s' es. main_line ln s =
            Returns s' (ClearTimeout (HardTimeout (promise tr))
              # Resolve (promise tr) \<lparr>exitCode = 0, output_str = join_newline (captured s)\<rparr> # es))
       \<and> (\<exists>s' es. server_line now ln s =
            Returns s' (ClearTimeout (HardTimeout (promise tr))
              # (if outputTimeout tr then [ClearTimeout (OutputCheck (promise tr))] else [])
              @ Resolve (promise tr) \<lparr>exitCode = 0, output_str = join_newline (captured s)\<rparr> # es))"
proof
  obtain pr where pr: "rdeProcess s = Some pr" "currentCommand pr = Some tr"
    using assms(1) by (auto simp: active_def split: option.splits)
  have ne: "rdeProcess s \<noteq> None" using pr by simp
  from main_complete_returns [OF ne, of "tid tr" "promise tr"]
  show "\<exists>s' es. main_line ln s =
            Returns s' (ClearTimeout (HardTimeout (promise tr))
              # Resolve (promise tr) \<lparr>exitCode = 0, output_str = join_newline (captured s)\<rparr> # es)"
    using assms pr
    by (auto simp: main_line_def main_forEach_prompt main_prompt_def fullOutput_captured)
  obtain s0 where s0: "server_store now ln tr s = Returns s0 []" "rdeProcess s0 = rdeProcess s"
      "fullOutput (tid tr) s0 = fullOutput (tid tr) s"
    using server_store_prompt [OF assms(2)] by blast
  have ne0: "rdeProcess s0 \<noteq> None" using pr s0 by simp
  from server_complete_returns [OF ne0, of now "tid tr" "promise tr"
      "ClearTimeout (HardTimeout (promise tr))
       # (if outputTimeout tr then [ClearTimeout (OutputCheck (promise tr))] else [])"]
  show "\<exists>s' es. server_line now ln s =
            Returns s' (ClearTimeout (HardTimeout (promise tr))
              # (if outputTimeout tr then [ClearTimeout (OutputCheck (promise tr))] else [])
              @ Resolve (promise tr) \<lparr>exitCode = 0, output_str = join_newline (captured s)\<rparr> # es)"
    using assms pr s0
    by (auto simp: server_line_def server_prompt_def fullOutput_captured)
qed


text \<open>
  The shell answers \<open>echo ok\<close> with the chunk \<open>ok\<close>, newline, \<open>$ \<close>: the line \<open>ok\<close> is
  captured, the prompt line completes the Command, and the result is \<open>ok\<close>.
\<close>

theorem prompt_completes_witness:
  "active (state_of (main_line (str ''ok'') main_echo))
     = Some \<lparr>tid = CmdId 2 1, command = str ''echo ok'', promise = 1,
             outputTimeout = False, lastOutputTime = 0, earlyCompleteScheduled = False\<rparr>
   \<and> isPrompt (str ''$ '')
   \<and> captured (state_of (main_line (str ''ok'') main_echo)) = [str ''ok'']
   \<and> effects (main_line (str ''$ '') (state_of (main_line (str ''ok'') main_echo)))
       = [ClearTimeout (HardTimeout 1), Resolve 1 \<lparr>exitCode = 0, output_str = str ''ok''\<rparr>]
   \<and> effects (main_stdout ''ok\<newline>$ '' main_echo)
       = [CommandOutput (CmdId 2 1) Stdout (str ''ok''), ClearTimeout (HardTimeout 1),
          Resolve 1 \<lparr>exitCode = 0, output_str = str ''ok''\<rparr>]
   \<and> effects (server_stdout 3 ''ok\<newline>$ '' server_echo)
       = [CommandOutput (CmdId 2 1) Stdout (str ''ok''), ClearTimeout (HardTimeout 1),
          Resolve 1 \<lparr>exitCode = 0, output_str = str ''ok''\<rparr>]"
proof -
  have h1: "active (state_of (main_line (str ''ok'') main_echo))
     = Some \<lparr>tid = CmdId 2 1, command = str ''echo ok'', promise = 1,
             outputTimeout = False, lastOutputTime = 0, earlyCompleteScheduled = False\<rparr>"
    by (simp add: main_echo_eq active_def string_defs session_defs main_defs Let_def)
  have h2: "isPrompt (str ''$ '')"
    by (simp add: str_def is_space_def)
  show ?thesis
    using h1 h2 prompt_completes [OF h1 h2, of 3]
    by (simp add: main_echo_eq server_echo_eq active_def captured_def string_defs session_defs
        main_defs server_defs Let_def)
qed

lemma main_complete_resolve:
  "Resolve q r \<in> set (effects (main_complete cid p s)) \<Longrightarrow>
   q = p \<and> r = \<lparr>exitCode = 0, output_str = fullOutput cid s\<rparr>"
  by (auto simp: main_complete_def main_next_no_resolve)

lemma server_complete_resolve:
  "Resolve q r \<in> set (effects (server_complete now cid p clears s)) \<Longrightarrow>
   \<forall>q r. Resolve q r \<notin> set clears \<Longrightarrow>
   q = p \<and> r = \<lparr>exitCode = 0, output_str = fullOutput cid s\<rparr>"
  by (auto simp: server_complete_def server_next_no_resolve)

lemma main_early_resolve:
  "Resolve q r \<in> set (effects (main_early c s)) \<Longrightarrow>
   exitCode r = 0 \<and> output_str r = join_newline (captured s)"
  by (auto simp: main_early_def active_def fullOutput_captured
      split: option.splits if_splits dest!: main_complete_resolve)

lemma main_timeout_resolve:
  "Resolve q r \<in> set (effects (main_timeout p s)) \<Longrightarrow>
   exitCode r = 0 \<and> output_str r = join_newline (captured s)"
  by (auto simp: main_timeout_def active_def fullOutput_captured
      split: option.splits if_splits dest!: main_complete_resolve)

lemma main_prompt_resolve:
  "Resolve q r \<in> set (effects (main_prompt s)) \<Longrightarrow>
   exitCode r = 0 \<and> output_str r = join_newline (captured s)"
  by (auto simp: main_prompt_def active_def fullOutput_captured
      split: option.splits if_splits dest!: main_complete_resolve)

lemma main_line_resolve:
  "Resolve q r \<in> set (effects (main_line ln s)) \<Longrightarrow>
   exitCode r = 0 \<and> output_str r = join_newline (captured s)"
proof (cases "isPrompt ln")
  case True
  assume "Resolve q r \<in> set (effects (main_line ln s))"
  then show ?thesis
    using True main_prompt_resolve [of q r s] by (simp add: main_line_def main_forEach_prompt)
next
  case False
  assume "Resolve q r \<in> set (effects (main_line ln s))"
  then have "Resolve q r \<in> set (effects (main_outputs_forEach ln (map fst (commandOutputs s)) s))"
    using False by (auto simp: main_line_def effects_seq split: outcome.splits)
  then show ?thesis
    by (simp add: main_forEach_no_resolve)
qed

lemma completeCommand_resolve:
  "Resolve q r \<in> set (effects (completeCommand now p s)) \<Longrightarrow>
   exitCode r = 0 \<and> output_str r = join_newline (captured s)"
  by (auto simp: completeCommand_def active_def fullOutput_captured
      split: option.splits if_splits dest!: server_complete_resolve)

lemma checkOutputActivity_resolve:
  "Resolve q r \<in> set (effects (checkOutputActivity now p s)) \<Longrightarrow>
   exitCode r = 0 \<and> output_str r = join_newline (captured s)"
  by (auto simp: checkOutputActivity_def split: option.splits if_splits
      dest!: completeCommand_resolve)

lemma server_timeout_resolve:
  "Resolve q r \<in> set (effects (server_timeout now p s)) \<Longrightarrow>
   exitCode r = 0 \<and> output_str r = join_newline (captured s)"
  by (auto simp: server_timeout_def split: option.splits if_splits
      dest!: completeCommand_resolve)

lemma server_early_resolve:
  "Resolve q r \<in> set (effects (server_early now c p s)) \<Longrightarrow>
   exitCode r = 0 \<and> output_str r = join_newline (captured s)"
  by (auto simp: server_early_def active_def fullOutput_captured
      split: option.splits if_splits dest!: server_complete_resolve)

lemma server_prompt_resolve:
  "Resolve q r \<in> set (effects (server_prompt now s)) \<Longrightarrow>
   exitCode r = 0 \<and> output_str r = join_newline (captured s)"
  by (auto simp: server_prompt_def active_def fullOutput_captured
      split: option.splits if_splits dest!: server_complete_resolve)

lemma server_store_no_resolve: "Resolve q r \<notin> set (effects (server_store now ln tr s))"
  by (auto simp: server_store_def Let_def)

lemma server_store_prompt_captured:
  "isPrompt ln \<Longrightarrow> active s = Some tr \<Longrightarrow>
   \<exists>s0. server_store now ln tr s = Returns s0 [] \<and> captured s0 = captured s"
  by (auto simp: server_store_def Let_def captured_def active_def map_of_map_set
      split: option.splits)

lemma server_line_resolve:
  "Resolve q r \<in> set (effects (server_line now ln s)) \<Longrightarrow>
   exitCode r = 0 \<and> output_str r = join_newline (captured s)"
proof -
  assume a: "Resolve q r \<in> set (effects (server_line now ln s))"
  show ?thesis
  proof (cases "active s")
    case None
    then show ?thesis
      using a server_prompt_resolve [of q r now s]
      by (auto simp: server_line_def active_def split: option.splits if_splits)
  next
    case (Some tr)
    then obtain pr where pr: "rdeProcess s = Some pr" "currentCommand pr = Some tr"
      by (auto simp: active_def split: option.splits)
    show ?thesis
    proof (cases "isPrompt ln")
      case True
      obtain s0 where s0: "server_store now ln tr s = Returns s0 []" "captured s0 = captured s"
        using server_store_prompt_captured [OF True Some] by blast
      show ?thesis
        using a pr s0 True server_prompt_resolve [of q r now s0]
        by (simp add: server_line_def)
    next
      case False
      then have "Resolve q r \<in> set (effects (server_store now ln tr s))"
        using a pr by (auto simp: server_line_def effects_seq split: outcome.splits)
      then show ?thesis
        by (simp add: server_store_no_resolve)
    qed
  qed
qed

lemma main_lines_exit0:
  "Resolve q r \<in> set (effects (main_lines lns s)) \<Longrightarrow> exitCode r = 0"
proof (induction lns arbitrary: s)
  case Nil
  then show ?case by simp
next
  case (Cons ln lns)
  then show ?case
    using main_line_resolve [of q r ln s]
    by (cases "main_line ln s") auto
qed

lemma server_lines_exit0:
  "Resolve q r \<in> set (effects (server_lines now lns s)) \<Longrightarrow> exitCode r = 0"
proof (induction lns arbitrary: s)
  case Nil
  then show ?case by simp
next
  case (Cons ln lns)
  then show ?case
    using server_line_resolve [of q r now ln s]
    by (cases "server_line now ln s") auto
qed

lemma main_execute_no_resolve: "Resolve q r \<notin> set (effects (main_execute now cmd s))"
  by (auto simp: main_execute_def main_executeInRDESession_def main_next_no_resolve)

lemma server_execute_no_resolve: "Resolve q r \<notin> set (effects (server_execute now cmd s))"
  by (auto simp: server_execute_def server_executeInRDESession_def server_next_no_resolve)

lemma main_step_exit0:
  "Resolve q r \<in> set (effects (main_step now ev s)) \<Longrightarrow> exitCode r = 0"
proof (cases ev)
  case (StdoutData d)
  assume "Resolve q r \<in> set (effects (main_step now ev s))"
  then show ?thesis
    using StdoutData main_lines_exit0 [of q r]
    by (auto simp: main_stdout_def Let_def main_connect_resolved_def split: option.splits if_splits)
next
  case (Timeout cb)
  assume "Resolve q r \<in> set (effects (main_step now ev s))"
  then show ?thesis
    using Timeout main_early_resolve [of q r] main_timeout_resolve [of q r]
    by (cases cb)
      (auto simp: main_connect_timeout_def main_connect_rejected_def closeRDESession_def
        split: if_splits)
next
  case (Execute cmd)
  assume "Resolve q r \<in> set (effects (main_step now ev s))"
  then show ?thesis
    using Execute main_execute_no_resolve by simp
qed (auto simp: main_connect_def createRDESession_def main_disconnect_def closeRDESession_def
    main_stderr_def main_exit_def main_error_def split: if_splits)

lemma server_step_exit0:
  "Resolve q r \<in> set (effects (server_step now ev s)) \<Longrightarrow> exitCode r = 0"
proof (cases ev)
  case (StdoutData d)
  assume "Resolve q r \<in> set (effects (server_step now ev s))"
  then show ?thesis
    using StdoutData server_lines_exit0 [of q r]
    by (auto simp: server_stdout_def Let_def server_connect_resolved_def
        split: option.splits if_splits)
next
  case (Timeout cb)
  assume "Resolve q r \<in> set (effects (server_step now ev s))"
  then show ?thesis
    using Timeout server_early_resolve [of q r] server_timeout_resolve [of q r]
      checkOutputActivity_resolve [of q r]
    by (cases cb)
      (auto simp: server_connect_timeout_def server_connect_rejected_def closeRDESession_def
        split: if_splits)
next
  case (Execute cmd)
  assume "Resolve q r \<in> set (effects (server_step now ev s))"
  then show ?thesis
    using Execute server_execute_no_resolve by simp
qed (auto simp: server_connect_def createRDESession_def server_disconnect_def closeRDESession_def
    server_stderr_def server_exit_def server_error_def server_closed_def Let_def
    server_connect_resolved_def split: option.splits if_splits)

lemma main_run_exit0:
  "Resolve q r \<in> set (snd (main_run evs s)) \<Longrightarrow> exitCode r = 0"
proof (induction evs arbitrary: s)
  case Nil
  then show ?case by simp
next
  case (Cons e evs)
  obtain now ev where e: "e = (now, ev)" by (cases e)
  show ?case
    using Cons.prems Cons.IH [of "state_of (main_step now ev s)"] main_step_exit0 [of q r now ev s]
    by (auto simp: e split: prod.splits)
qed

lemma server_run_exit0:
  "Resolve q r \<in> set (snd (server_run evs s)) \<Longrightarrow> exitCode r = 0"
proof (induction evs arbitrary: s)
  case Nil
  then show ?case by simp
next
  case (Cons e evs)
  obtain now ev where e: "e = (now, ev)" by (cases e)
  show ?case
    using Cons.prems Cons.IH [of "state_of (server_step now ev s)"]
      server_step_exit0 [of q r now ev s]
    by (auto simp: e split: prod.splits)
qed

lemma main_next_no_result: "filter is_result (effects (main_processNextCommand s)) = []"
  by (auto simp: main_processNextCommand_def Let_def split: list.splits)

lemma server_next_no_result: "filter is_result (effects (server_processNextCommand now s)) = []"
  by (auto simp: server_processNextCommand_def Let_def split: list.splits)

text \<open>
  C2. When a Command is Active, each completion trigger of either program (a prompt
  line, the grace-window timer, the fallback timer, and the inactivity check once its
  conditions hold) delivers exactly one result: the promise of that Command is resolved
  with exit code 0 and the newline-join of the content lines captured for it. Whatever
  result one of these handlers delivers, in any state, has exit code 0 and that output;
  and in every history of either program every result delivered has exit code 0.
\<close>

theorem completion_result:
  "(active s = Some tr \<longrightarrow>
      (isPrompt ln \<longrightarrow>
         filter is_result (effects (main_line ln s))
           = [Resolve (promise tr) \<lparr>exitCode = 0, output_str = join_newline (captured s)\<rparr>]
         \<and> filter is_result (effects (server_line now ln s))
           = [Resolve (promise tr) \<lparr>exitCode = 0, output_str = join_newline (captured s)\<rparr>])
      \<and> filter is_result (effects (main_early (tid tr) s))
           = [Resolve (promise tr) \<lparr>exitCode = 0, output_str = join_newline (captured s)\<rparr>]
      \<and> filter is_result (effects (main_timeout (promise tr) s))
           = [Resolve (promise tr) \<lparr>exitCode = 0, output_str = join_newline (captured s)\<rparr>]
      \<and> filter is_result (effects (server_early now (tid tr) (promise tr) s))
           = [Resolve (promise tr) \<lparr>exitCode = 0, output_str = join_newline (captured s)\<rparr>]
      \<and> filter is_result (effects (server_timeout now (promise tr) s))
           = [Resolve (promise tr) \<lparr>exitCode = 0, output_str = join_newline (captured s)\<rparr>]
      \<and> (captured s \<noteq> [] \<and> now - lastOutputTime tr \<ge> 1000 \<longrightarrow>
           filter is_result (effects (checkOutputActivity now (promise tr) s))
             = [Resolve (promise tr) \<lparr>exitCode = 0, output_str = join_newline (captured s)\<rparr>]))
   \<and> (Resolve q r \<in> set (effects (main_line ln s))
      \<or> Resolve q r \<in> set (effects (main_early c s))
      \<or> Resolve q r \<in> set (effects (main_timeout p s))
      \<or> Resolve q r \<in> set (effects (server_line now ln s))
      \<or> Resolve q r \<in> set (effects (server_early now c p s))
      \<or> Resolve q r \<in> set (effects (checkOutputActivity now p s))
      \<or> Resolve q r \<in> set (effects (server_timeout now p s))
    \<longrightarrow> exitCode r = 0 \<and> output_str r = join_newline (captured s))
   \<and> (Resolve q r \<in> set (snd (main_run evs s)) \<or> Resolve q r \<in> set (snd (server_run evs s))
    \<longrightarrow> exitCode r = 0)"
proof (intro conjI impI)
  assume "Resolve q r \<in> set (effects (main_line ln s))
      \<or> Resolve q r \<in> set (effects (main_early c s))
      \<or> Resolve q r \<in> set (effects (main_timeout p s))
      \<or> Resolve q r \<in> set (effects (server_line now ln s))
      \<or> Resolve q r \<in> set (effects (server_early now c p s))
      \<or> Resolve q r \<in> set (effects (checkOutputActivity now p s))
      \<or> Resolve q r \<in> set (effects (server_timeout now p s))"
  then have "exitCode r = 0 \<and> output_str r = join_newline (captured s)"
    by (elim disjE)
      (erule main_line_resolve main_early_resolve main_timeout_resolve server_line_resolve
        server_early_resolve checkOutputActivity_resolve server_timeout_resolve)+
  then show "exitCode r = 0" and "output_str r = join_newline (captured s)"
    by simp_all
next
  assume "Resolve q r \<in> set (snd (main_run evs s)) \<or> Resolve q r \<in> set (snd (server_run evs s))"
  then show "exitCode r = 0"
    using main_run_exit0 server_run_exit0 by blast
next
  assume a: "active s = Some tr"
  then obtain pr where pr: "rdeProcess s = Some pr" "currentCommand pr = Some tr"
    by (auto simp: active_def split: option.splits)
  have f: "fullOutput (tid tr) s = join_newline (captured s)"
    using a by (rule fullOutput_captured)
  show "filter is_result (effects (main_early (tid tr) s))
      = [Resolve (promise tr) \<lparr>exitCode = 0, output_str = join_newline (captured s)\<rparr>]"
    using pr f by (simp add: main_early_def main_complete_def main_next_no_result)
  show "filter is_result (effects (main_timeout (promise tr) s))
      = [Resolve (promise tr) \<lparr>exitCode = 0, output_str = join_newline (captured s)\<rparr>]"
    using pr f by (simp add: main_timeout_def main_complete_def main_next_no_result)
  show "filter is_result (effects (server_early now (tid tr) (promise tr) s))
      = [Resolve (promise tr) \<lparr>exitCode = 0, output_str = join_newline (captured s)\<rparr>]"
    using pr f by (simp add: server_early_def server_complete_def server_next_no_result)
  show "filter is_result (effects (server_timeout now (promise tr) s))
      = [Resolve (promise tr) \<lparr>exitCode = 0, output_str = join_newline (captured s)\<rparr>]"
    using pr f
    by (simp add: server_timeout_def completeCommand_def server_complete_def
        server_next_no_result)
  {
    assume "captured s \<noteq> [] \<and> 1000 \<le> now - lastOutputTime tr"
    then show "filter is_result (effects (checkOutputActivity now (promise tr) s))
        = [Resolve (promise tr) \<lparr>exitCode = 0, output_str = join_newline (captured s)\<rparr>]"
      using a pr f
      by (auto simp: checkOutputActivity_def completeCommand_def server_complete_def
          server_next_no_result captured_def split: option.splits)
  }
  {
    assume p: "isPrompt ln"
    show "filter is_result (effects (main_line ln s))
        = [Resolve (promise tr) \<lparr>exitCode = 0, output_str = join_newline (captured s)\<rparr>]"
      using p pr f
      by (simp add: main_line_def main_forEach_prompt main_prompt_def main_complete_def
          main_next_no_result)
    obtain s0 where s0: "server_store now ln tr s = Returns s0 []" "rdeProcess s0 = rdeProcess s"
        "fullOutput (tid tr) s0 = fullOutput (tid tr) s"
      using server_store_prompt [OF p] by blast
    show "filter is_result (effects (server_line now ln s))
        = [Resolve (promise tr) \<lparr>exitCode = 0, output_str = join_newline (captured s)\<rparr>]"
      using p pr f s0
      by (simp add: server_line_def server_prompt_def server_complete_def server_next_no_result)
  }
qed

text \<open>
  \<open>ls\<close> with lines of its listing captured: the prompt line and the fallback timer
  deliver the lines joined, with exit code 0, in both programs. Whole histories from the
  initial state, for the prompt, the fallback timer and the grace-window timer.
\<close>

theorem completion_result_witness:
  "active main_listing
     = Some \<lparr>tid = CmdId 2 1, command = str ''ls'', promise = 1,
             outputTimeout = False, lastOutputTime = 0, earlyCompleteScheduled = False\<rparr>
   \<and> active server_listing
     = Some \<lparr>tid = CmdId 2 1, command = str ''ls'', promise = 1,
             outputTimeout = False, lastOutputTime = 3, earlyCompleteScheduled = False\<rparr>
   \<and> isPrompt (str ''$ '')
   \<and> join_newline (captured main_listing) = str ''a.txt'' @ 10 # str ''b.txt''
   \<and> join_newline (captured server_listing) = str ''a.txt''
   \<and> filter is_result (effects (main_line (str ''$ '') main_listing))
       = [Resolve 1 \<lparr>exitCode = 0, output_str = str ''a.txt'' @ 10 # str ''b.txt''\<rparr>]
   \<and> filter is_result (effects (main_timeout 1 main_listing))
       = [Resolve 1 \<lparr>exitCode = 0, output_str = str ''a.txt'' @ 10 # str ''b.txt''\<rparr>]
   \<and> filter is_result (effects (server_line 4 (str ''$ '') server_listing))
       = [Resolve 1 \<lparr>exitCode = 0, output_str = str ''a.txt''\<rparr>]
   \<and> filter is_result (effects (server_timeout 5002 1 server_listing))
       = [Resolve 1 \<lparr>exitCode = 0, output_str = str ''a.txt''\<rparr>]
   \<and> snd (main_run [(0, Connect), (1, StdoutData ''Welcome\<newline>''), (2, Execute (str ''ls'')),
                  (3, StdoutData ''a.txt\<newline>b.txt\<newline>$ '')] init)
       = [Spawn, SetTimeout (ConnectTimeout 0) 15000, ConnectionResolve 0 None,
          Status Connected ''Connected to RDE'', ConnectReply True [],
          SetTimeout (HardTimeout 1) 30000, StdinWrite (str ''ls'' @ [10]),
          CommandOutput (CmdId 2 1) Stdout (str ''a.txt''),
          CommandOutput (CmdId 2 1) Stdout (str ''b.txt''),
          ClearTimeout (HardTimeout 1),
          Resolve 1 \<lparr>exitCode = 0, output_str = str ''a.txt'' @ 10 # str ''b.txt''\<rparr>]
   \<and> snd (main_run [(0, Connect), (1, StdoutData ''Welcome\<newline>''), (2, Execute (str ''ls'')),
                  (3, StdoutData ''a.txt\<newline>''), (30002, Timeout (HardTimeout 1))] init)
       = [Spawn, SetTimeout (ConnectTimeout 0) 15000, ConnectionResolve 0 None,
          Status Connected ''Connected to RDE'', ConnectReply True [],
          SetTimeout (HardTimeout 1) 30000, StdinWrite (str ''ls'' @ [10]),
          CommandOutput (CmdId 2 1) Stdout (str ''a.txt''),
          Resolve 1 \<lparr>exitCode = 0, output_str = str ''a.txt''\<rparr>]
   \<and> snd (main_run [(0, Connect), (1, StdoutData ''Welcome\<newline>''),
                  (2, Execute (str ''supervisorctl status'')),
                  (3, StdoutData ''api RUNNING\<newline>''), (4, StdoutData ''web RUNNING\<newline>''),
                  (303, Timeout (EarlyMain (CmdId 2 1)))] init)
       = [Spawn, SetTimeout (ConnectTimeout 0) 15000, ConnectionResolve 0 None,
          Status Connected ''Connected to RDE'', ConnectReply True [],
          SetTimeout (HardTimeout 1) 30000, StdinWrite (str ''supervisorctl status'' @ [10]),
          CommandOutput (CmdId 2 1) Stdout (str ''api RUNNING''),
          SetTimeout (EarlyMain (CmdId 2 1)) 300,
          CommandOutput (CmdId 2 1) Stdout (str ''web RUNNING''),
          Resolve 1 \<lparr>exitCode = 0, output_str = str ''api RUNNING'' @ 10 # str ''web RUNNING''\<rparr>]
   \<and> snd (server_run [(0, Connect), (1, StdoutData ''Welcome\<newline>''), (2, Execute (str ''ls'')),
                  (3, StdoutData ''a.txt\<newline>b.txt\<newline>$ '')] init)
       = [Spawn, SetTimeout (ConnectTimeout 0) 15000, ConnectionResolve 0 None,
          Status Connected ''Connected to RDE'', ConnectReply True [],
          SetTimeout (HardTimeout 1) 5000, StdinWrite (str ''ls'' @ [10]),
          CommandOutput (CmdId 2 1) Stdout (str ''a.txt''),
          CommandOutput (CmdId 2 1) Stdout (str ''b.txt''),
          ClearTimeout (HardTimeout 1),
          Resolve 1 \<lparr>exitCode = 0, output_str = str ''a.txt'' @ 10 # str ''b.txt''\<rparr>]
   \<and> snd (server_run [(0, Connect), (1, StdoutData ''Welcome\<newline>''), (2, Execute (str ''ls'')),
                  (3, StdoutData ''a.txt\<newline>''), (5002, Timeout (HardTimeout 1))] init)
       = [Spawn, SetTimeout (ConnectTimeout 0) 15000, ConnectionResolve 0 None,
          Status Connected ''Connected to RDE'', ConnectReply True [],
          SetTimeout (HardTimeout 1) 5000, StdinWrite (str ''ls'' @ [10]),
          CommandOutput (CmdId 2 1) Stdout (str ''a.txt''),
          ClearTimeout (HardTimeout 1),
          Resolve 1 \<lparr>exitCode = 0, output_str = str ''a.txt''\<rparr>]
   \<and> snd (server_run [(0, Connect), (1, StdoutData ''Welcome\<newline>''),
                  (2, Execute (str ''supervisorctl status'')),
                  (3, StdoutData ''api RUNNING\<newline>''), (4, StdoutData ''web RUNNING\<newline>''),
                  (2003, Timeout (EarlyServer (CmdId 2 1) 1))] init)
       = [Spawn, SetTimeout (ConnectTimeout 0) 15000, ConnectionResolve 0 None,
          Status Connected ''Connected to RDE'', ConnectReply True [],
          SetTimeout (HardTimeout 1) 5000, StdinWrite (str ''supervisorctl status'' @ [10]),
          CommandOutput (CmdId 2 1) Stdout (str ''api RUNNING''),
          SetTimeout (EarlyServer (CmdId 2 1) 1) 2000,
          CommandOutput (CmdId 2 1) Stdout (str ''web RUNNING''),
          ClearTimeout (HardTimeout 1),
          Resolve 1 \<lparr>exitCode = 0, output_str = str ''api RUNNING'' @ 10 # str ''web RUNNING''\<rparr>]"
proof -
  have a1: "active main_listing
     = Some \<lparr>tid = CmdId 2 1, command = str ''ls'', promise = 1,
             outputTimeout = False, lastOutputTime = 0, earlyCompleteScheduled = False\<rparr>"
    by (simp add: main_listing_eq active_def)
  have a2: "active server_listing
     = Some \<lparr>tid = CmdId 2 1, command = str ''ls'', promise = 1,
             outputTimeout = False, lastOutputTime = 3, earlyCompleteScheduled = False\<rparr>"
    by (simp add: server_listing_eq active_def)
  have p: "isPrompt (str ''$ '')"
    by (simp add: str_def is_space_def)
  have c: "join_newline (captured main_listing) = str ''a.txt'' @ 10 # str ''b.txt''
     \<and> join_newline (captured server_listing) = str ''a.txt''"
    by (simp add: main_listing_eq server_listing_eq captured_def active_def)
  have m: "snd (main_run [(0, Connect), (1, StdoutData ''Welcome\<newline>''), (2, Execute (str ''ls'')),
                  (3, StdoutData ''a.txt\<newline>b.txt\<newline>$ '')] init)
       = [Spawn, SetTimeout (ConnectTimeout 0) 15000, ConnectionResolve 0 None,
          Status Connected ''Connected to RDE'', ConnectReply True [],
          SetTimeout (HardTimeout 1) 30000, StdinWrite (str ''ls'' @ [10]),
          CommandOutput (CmdId 2 1) Stdout (str ''a.txt''),
          CommandOutput (CmdId 2 1) Stdout (str ''b.txt''),
          ClearTimeout (HardTimeout 1),
          Resolve 1 \<lparr>exitCode = 0, output_str = str ''a.txt'' @ 10 # str ''b.txt''\<rparr>]
   \<and> snd (main_run [(0, Connect), (1, StdoutData ''Welcome\<newline>''), (2, Execute (str ''ls'')),
                  (3, StdoutData ''a.txt\<newline>''), (30002, Timeout (HardTimeout 1))] init)
       = [Spawn, SetTimeout (ConnectTimeout 0) 15000, ConnectionResolve 0 None,
          Status Connected ''Connected to RDE'', ConnectReply True [],
          SetTimeout (HardTimeout 1) 30000, StdinWrite (str ''ls'' @ [10]),
          CommandOutput (CmdId 2 1) Stdout (str ''a.txt''),
          Resolve 1 \<lparr>exitCode = 0, output_str = str ''a.txt''\<rparr>]
   \<and> snd (main_run [(0, Connect), (1, StdoutData ''Welcome\<newline>''),
                  (2, Execute (str ''supervisorctl status'')),
                  (3, StdoutData ''api RUNNING\<newline>''), (4, StdoutData ''web RUNNING\<newline>''),
                  (303, Timeout (EarlyMain (CmdId 2 1)))] init)
       = [Spawn, SetTimeout (ConnectTimeout 0) 15000, ConnectionResolve 0 None,
          Status Connected ''Connected to RDE'', ConnectReply True [],
          SetTimeout (HardTimeout 1) 30000, StdinWrite (str ''supervisorctl status'' @ [10]),
          CommandOutput (CmdId 2 1) Stdout (str ''api RUNNING''),
          SetTimeout (EarlyMain (CmdId 2 1)) 300,
          CommandOutput (CmdId 2 1) Stdout (str ''web RUNNING''),
          Resolve 1 \<lparr>exitCode = 0, output_str = str ''api RUNNING'' @ 10 # str ''web RUNNING''\<rparr>]"
    by (simp add: string_defs session_defs main_defs Let_def)
  have v: "snd (server_run [(0, Connect), (1, StdoutData ''Welcome\<newline>''), (2, Execute (str ''ls'')),
                  (3, StdoutData ''a.txt\<newline>b.txt\<newline>$ '')] init)
       = [Spawn, SetTimeout (ConnectTimeout 0) 15000, ConnectionResolve 0 None,
          Status Connected ''Connected to RDE'', ConnectReply True [],
          SetTimeout (HardTimeout 1) 5000, StdinWrite (str ''ls'' @ [10]),
          CommandOutput (CmdId 2 1) Stdout (str ''a.txt''),
          CommandOutput (CmdId 2 1) Stdout (str ''b.txt''),
          ClearTimeout (HardTimeout 1),
          Resolve 1 \<lparr>exitCode = 0, output_str = str ''a.txt'' @ 10 # str ''b.txt''\<rparr>]
   \<and> snd (server_run [(0, Connect), (1, StdoutData ''Welcome\<newline>''), (2, Execute (str ''ls'')),
                  (3, StdoutData ''a.txt\<newline>''), (5002, Timeout (HardTimeout 1))] init)
       = [Spawn, SetTimeout (ConnectTimeout 0) 15000, ConnectionResolve 0 None,
          Status Connected ''Connected to RDE'', ConnectReply True [],
          SetTimeout (HardTimeout 1) 5000, StdinWrite (str ''ls'' @ [10]),
          CommandOutput (CmdId 2 1) Stdout (str ''a.txt''),
          ClearTimeout (HardTimeout 1),
          Resolve 1 \<lparr>exitCode = 0, output_str = str ''a.txt''\<rparr>]
   \<and> snd (server_run [(0, Connect), (1, StdoutData ''Welcome\<newline>''),
                  (2, Execute (str ''supervisorctl status'')),
                  (3, StdoutData ''api RUNNING\<newline>''), (4, StdoutData ''web RUNNING\<newline>''),
                  (2003, Timeout (EarlyServer (CmdId 2 1) 1))] init)
       = [Spawn, SetTimeout (ConnectTimeout 0) 15000, ConnectionResolve 0 None,
          Status Connected ''Connected to RDE'', ConnectReply True [],
          SetTimeout (HardTimeout 1) 5000, StdinWrite (str ''supervisorctl status'' @ [10]),
          CommandOutput (CmdId 2 1) Stdout (str ''api RUNNING''),
          SetTimeout (EarlyServer (CmdId 2 1) 1) 2000,
          CommandOutput (CmdId 2 1) Stdout (str ''web RUNNING''),
          ClearTimeout (HardTimeout 1),
          Resolve 1 \<lparr>exitCode = 0, output_str = str ''api RUNNING'' @ 10 # str ''web RUNNING''\<rparr>]"
    by (simp add: string_defs session_defs server_defs Let_def)
  show ?thesis
    using a1 a2 p c m v
      completion_result [where s = main_listing and ln = "str ''$ ''" and
        tr = "\<lparr>tid = CmdId 2 1, command = str ''ls'', promise = 1,
              outputTimeout = False, lastOutputTime = 0, earlyCompleteScheduled = False\<rparr>"]
      completion_result [where s = server_listing and ln = "str ''$ ''" and now = 4 and
        tr = "\<lparr>tid = CmdId 2 1, command = str ''ls'', promise = 1,
              outputTimeout = False, lastOutputTime = 3, earlyCompleteScheduled = False\<rparr>"]
      completion_result [where s = server_listing and now = 5002 and
        tr = "\<lparr>tid = CmdId 2 1, command = str ''ls'', promise = 1,
              outputTimeout = False, lastOutputTime = 3, earlyCompleteScheduled = False\<rparr>"]
    by simp
qed

section \<open>The session: loss of the process, and connecting twice\<close>

text \<open>
  C1, evaluated. \<open>ls\<close> is Active and \<open>pwd\<close> is Queued when the process exits. In both
  programs the exit handler rejects the promise of \<open>pwd\<close> and sends the status event, and
  does nothing with the promise of \<open>ls\<close>; the Active Command is dropped with the process,
  and its fallback timer, when it fires, throws on the session that is no more. A connect
  that is waiting for the welcome when the process exits is not failed either: the
  desktop program leaves it waiting for its own timeout, the server resolves it, and the
  connect request reports success after the status event of the exit.
\<close>

theorem exit_drops_active_command:
  "active main_busy
     = Some \<lparr>tid = CmdId 2 1, command = str ''ls'', promise = 1,
             outputTimeout = False, lastOutputTime = 0, earlyCompleteScheduled = False\<rparr>
   \<and> effects (main_exit main_busy)
       = [Reject 2 (JsError ''RDE session closed''), Status Disconnected ''RDE session closed'']
   \<and> \<not> list_ex (settles 1) (effects (main_exit main_busy))
   \<and> active (state_of (main_exit main_busy)) = None
   \<and> main_timeout 1 (state_of (main_exit main_busy)) = Throws (state_of (main_exit main_busy)) []
   \<and> effects (server_exit server_busy)
       = [Reject 2 (JsError ''RDE session closed''), Status Disconnected ''RDE session closed'']
   \<and> \<not> list_ex (settles 1) (effects (server_exit server_busy))
   \<and> server_timeout 5002 1 (state_of (server_exit server_busy))
       = Throws (state_of (server_exit server_busy)) []
   \<and> snd (main_run [(0, Connect), (1, Exit)] init)
       = [Spawn, SetTimeout (ConnectTimeout 0) 15000, Status Disconnected ''RDE session closed'']
   \<and> snd (server_run [(0, Connect), (1, Exit)] init)
       = [Spawn, SetTimeout (ConnectTimeout 0) 15000,
          ConnectionResolve 0 (Some (JsError ''RDE session closed before connection'')),
          Status Disconnected ''RDE session closed'', Status Connected ''Connected to RDE'',
          ConnectReply True []]"
  by (simp add: main_busy_eq server_busy_eq active_def session_defs main_defs server_defs Let_def)

text \<open>
  C6, evaluated. A connect request to the connected desktop program spawns nothing, but
  it does not return: it waits for another welcome, and when none comes within the bound
  its timer closes the session that was connected and the request fails. The server
  answers the same request at once and leaves the session alone. A second connect while
  the first is waiting spawns nothing in either program.
\<close>

theorem connect_when_connected:
  "main_connect main_connected
     = Returns (main_connected\<lparr>connectionResolve := Some 1, promises := 2\<rparr>)
         [SetTimeout (ConnectTimeout 1) 15000]
   \<and> snd (main_run [(2, Connect), (15002, Timeout (ConnectTimeout 1))] main_connected)
       = [SetTimeout (ConnectTimeout 1) 15000,
          ConnectionReject 1 (JsError ''Connection timeout: Welcome message not received''),
          StdinEnd, Kill, Status Failed ''Connection timeout: Welcome message not received'',
          ConnectReply False ''Connection timeout: Welcome message not received'']
   \<and> rdeProcess (fst (main_run [(2, Connect), (15002, Timeout (ConnectTimeout 1))] main_connected))
       = None
   \<and> server_connect server_connected
       = Returns server_connected [ConnectReply True ''Already connected'']
   \<and> snd (main_run [(0, Connect), (1, Connect)] init)
       = [Spawn, SetTimeout (ConnectTimeout 0) 15000, SetTimeout (ConnectTimeout 1) 15000]
   \<and> snd (server_run [(0, Connect), (1, Connect)] init)
       = [Spawn, SetTimeout (ConnectTimeout 0) 15000, SetTimeout (ConnectTimeout 1) 15000]"
  by (simp add: main_connected_eq server_connected_eq session_defs main_defs server_defs Let_def)

section \<open>The session: the grace window of the supervisor status command\<close>

lemma main_status_eq:
  "main_status =
     \<lparr>currentTarget = Some [],
      rdeProcess = Some \<lparr>currentCommand =
        Some \<lparr>tid = CmdId 2 1, command = str ''sudo supervisorctl status all'', promise = 1, outputTimeout = False,
              lastOutputTime = 0, earlyCompleteScheduled = False\<rparr>\<rparr>,
      commandQueue = [], isExecutingCommand = True,
      commandOutputs = [(CmdId 2 1, \<lparr>stdout = [], stderr = []\<rparr>)], commandCounter = 1,
      connectionResolve = None, welcomeBuffer = [], promises = 2\<rparr>"
  by (simp add: main_status_def main_connected_eq string_defs session_defs main_defs Let_def)

lemma server_status_eq:
  "server_status =
     \<lparr>currentTarget = Some [],
      rdeProcess = Some \<lparr>currentCommand =
        Some \<lparr>tid = CmdId 2 1, command = str ''sudo supervisorctl status all'', promise = 1, outputTimeout = False,
              lastOutputTime = 2, earlyCompleteScheduled = False\<rparr>\<rparr>,
      commandQueue = [], isExecutingCommand = True,
      commandOutputs = [(CmdId 2 1, \<lparr>stdout = [], stderr = []\<rparr>)], commandCounter = 1,
      connectionResolve = None, welcomeBuffer = [], promises = 2\<rparr>"
  by (simp add: server_status_def server_connected_eq main_connected_eq string_defs session_defs
      server_defs Let_def)

lemma active_push_stdout [simp]: "active (push_stdout c l s) = active s"
  by (simp add: active_def push_stdout_def)

lemma active_set_current: "rdeProcess s \<noteq> None \<Longrightarrow> active (set_current v s) = v"
  by (auto simp: active_def set_current_def)

lemma rdeProcess_push_stdout [simp]: "rdeProcess (push_stdout c l s) = rdeProcess s"
  by (simp add: push_stdout_def)

lemma commandOutputs_set_current [simp]: "commandOutputs (set_current v s) = commandOutputs s"
  by (simp add: set_current_def)

lemma map_of_push:
  "map_of (map (\<lambda>(k, out). if k = c then (k, out\<lparr>stdout := stdout out @ [l]\<rparr>) else (k, out)) m) k'
     = (if k' = c then map_option (\<lambda>out. out\<lparr>stdout := stdout out @ [l]\<rparr>) (map_of m k')
        else map_of m k')"
  by (induction m) auto

lemma map_of_push_stdout:
  "map_of (commandOutputs (push_stdout c l s)) k
     = (if k = c then map_option (\<lambda>out. out\<lparr>stdout := stdout out @ [l]\<rparr>) (map_of (commandOutputs s) k)
        else map_of (commandOutputs s) k)"
  by (simp add: push_stdout_def map_of_push)

lemma keys_push_stdout [simp]: "map fst (commandOutputs (push_stdout c l s)) = map fst (commandOutputs s)"
  by (auto simp: push_stdout_def)

lemma active_Some_process: "active s = Some tr \<Longrightarrow> \<exists>pr. rdeProcess s = Some pr \<and> currentCommand pr = Some tr"
  by (auto simp: active_def split: option.splits)

lemma main_forEach_content:
  assumes "trim ln \<noteq> []" and "\<not> isPrompt ln"
  shows "active s = Some tr \<Longrightarrow> distinct ids \<Longrightarrow>
    \<exists>s' es. main_outputs_forEach ln ids s = Returns s' es
      \<and> active s' = Some (tr\<lparr>earlyCompleteScheduled :=
            earlyCompleteScheduled tr \<or> (tid tr \<in> set ids \<and> early_pattern (command tr))\<rparr>)
      \<and> map fst (commandOutputs s') = map fst (commandOutputs s)
      \<and> map_of (commandOutputs s') (tid tr)
          = (if tid tr \<in> set ids
             then map_option (\<lambda>out. out\<lparr>stdout := stdout out @ [trim ln]\<rparr>)
                    (map_of (commandOutputs s) (tid tr))
             else map_of (commandOutputs s) (tid tr))
      \<and> filter is_grace_timer es
          = (if tid tr \<in> set ids \<and> early_pattern (command tr) \<and> \<not> earlyCompleteScheduled tr
             then [SetTimeout (EarlyMain (tid tr)) 300] else [])"
proof (induction ids arbitrary: s tr)
  case Nil
  then show ?case by simp
next
  case (Cons c ids)
  obtain pr where pr: "rdeProcess s = Some pr" "currentCommand pr = Some tr"
    using active_Some_process [OF Cons.prems(1)] by blast
  let ?s1 = "push_stdout c (trim ln) s"
  have d: "distinct ids" "c \<notin> set ids" using Cons.prems(2) by auto
  show ?case
  proof (cases "tid tr = c \<and> early_pattern (command tr) \<and> \<not> earlyCompleteScheduled tr")
    case True
    let ?tr1 = "tr\<lparr>earlyCompleteScheduled := True\<rparr>"
    let ?s2 = "set_current (Some ?tr1) ?s1"
    have a2: "active ?s2 = Some ?tr1"
      using pr by (simp add: active_set_current)
    from Cons.IH [OF a2 d(1)] obtain s' es where
      r: "main_outputs_forEach ln ids ?s2 = Returns s' es"
        "active s' = Some (?tr1\<lparr>earlyCompleteScheduled :=
            earlyCompleteScheduled ?tr1 \<or> (tid ?tr1 \<in> set ids \<and> early_pattern (command ?tr1))\<rparr>)"
        "map fst (commandOutputs s') = map fst (commandOutputs ?s2)"
        "map_of (commandOutputs s') (tid ?tr1)
          = (if tid ?tr1 \<in> set ids
             then map_option (\<lambda>out. out\<lparr>stdout := stdout out @ [trim ln]\<rparr>)
                    (map_of (commandOutputs ?s2) (tid ?tr1))
             else map_of (commandOutputs ?s2) (tid ?tr1))"
        "filter is_grace_timer es
          = (if tid ?tr1 \<in> set ids \<and> early_pattern (command ?tr1) \<and> \<not> earlyCompleteScheduled ?tr1
             then [SetTimeout (EarlyMain (tid ?tr1)) 300] else [])"
      by blast
    show ?thesis
      using True assms pr r d
      by (simp add: map_of_push_stdout)
  next
    case False
    have a1: "active ?s1 = Some tr"
      using Cons.prems(1) by simp
    from Cons.IH [OF a1 d(1)] obtain s' es where
      r: "main_outputs_forEach ln ids ?s1 = Returns s' es"
        "active s' = Some (tr\<lparr>earlyCompleteScheduled :=
            earlyCompleteScheduled tr \<or> (tid tr \<in> set ids \<and> early_pattern (command tr))\<rparr>)"
        "map fst (commandOutputs s') = map fst (commandOutputs ?s1)"
        "map_of (commandOutputs s') (tid tr)
          = (if tid tr \<in> set ids
             then map_option (\<lambda>out. out\<lparr>stdout := stdout out @ [trim ln]\<rparr>)
                    (map_of (commandOutputs ?s1) (tid tr))
             else map_of (commandOutputs ?s1) (tid tr))"
        "filter is_grace_timer es
          = (if tid tr \<in> set ids \<and> early_pattern (command tr) \<and> \<not> earlyCompleteScheduled tr
             then [SetTimeout (EarlyMain (tid tr)) 300] else [])"
      by blast
    show ?thesis
      using False assms pr r d
      by (auto simp: map_of_push_stdout)
  qed
qed

lemma captured_entry:
  "active s = Some tr \<Longrightarrow> map_of (commandOutputs s) (tid tr) = Some out \<Longrightarrow>
   captured s = stdout out"
  by (simp add: captured_def)

lemma main_line_content:
  assumes "trim ln \<noteq> []" and "\<not> isPrompt ln" and "active s = Some tr"
    and "map_of (commandOutputs s) (tid tr) = Some out"
    and "distinct (map fst (commandOutputs s))"
  shows "\<exists>s' es out'. main_line ln s = Returns s' es
      \<and> active s' = Some (tr\<lparr>earlyCompleteScheduled :=
            earlyCompleteScheduled tr \<or> early_pattern (command tr)\<rparr>)
      \<and> distinct (map fst (commandOutputs s'))
      \<and> map_of (commandOutputs s') (tid tr) = Some out'
      \<and> stdout out' = stdout out @ [trim ln]
      \<and> filter is_grace_timer es
          = (if early_pattern (command tr) \<and> \<not> earlyCompleteScheduled tr
             then [SetTimeout (EarlyMain (tid tr)) 300] else [])"
proof -
  have k: "tid tr \<in> set (map fst (commandOutputs s))"
    using assms(4) by (metis map_of_eq_None_iff option.distinct(1) set_map)
  from main_forEach_content [OF assms(1,2,3,5)] obtain s' es where
    r: "main_outputs_forEach ln (map fst (commandOutputs s)) s = Returns s' es"
      "active s' = Some (tr\<lparr>earlyCompleteScheduled :=
            earlyCompleteScheduled tr
            \<or> (tid tr \<in> set (map fst (commandOutputs s)) \<and> early_pattern (command tr))\<rparr>)"
      "map fst (commandOutputs s') = map fst (commandOutputs s)"
      "map_of (commandOutputs s') (tid tr)
          = (if tid tr \<in> set (map fst (commandOutputs s))
             then map_option (\<lambda>out. out\<lparr>stdout := stdout out @ [trim ln]\<rparr>)
                    (map_of (commandOutputs s) (tid tr))
             else map_of (commandOutputs s) (tid tr))"
      "filter is_grace_timer es
          = (if tid tr \<in> set (map fst (commandOutputs s)) \<and> early_pattern (command tr)
                \<and> \<not> earlyCompleteScheduled tr
             then [SetTimeout (EarlyMain (tid tr)) 300] else [])"
    by blast
  show ?thesis
    using r k assms by (simp add: main_line_def)
qed

lemma server_line_content:
  assumes "trim ln \<noteq> []" and "\<not> isPrompt ln" and "active s = Some tr"
  shows "\<exists>s' es. server_line now ln s = Returns s' es
      \<and> active s' = Some (tr\<lparr>lastOutputTime := now, earlyCompleteScheduled :=
            earlyCompleteScheduled tr \<or> early_pattern (command tr)\<rparr>)
      \<and> captured s' = captured s @ [trim ln]
      \<and> filter is_grace_timer es
          = (if early_pattern (command tr) \<and> \<not> earlyCompleteScheduled tr
             then [SetTimeout (EarlyServer (tid tr) (promise tr)) 2000] else [])"
proof -
  obtain pr where pr: "rdeProcess s = Some pr" "currentCommand pr = Some tr"
    using active_Some_process [OF assms(3)] by blast
  show ?thesis
    using assms pr
    by (auto simp: server_line_def server_store_def Let_def active_set_current captured_def
        map_of_push_stdout map_of_map_set split: option.splits)
qed

lemma content_lines_Cons:
  "content_lines (ln # lns)
     = (if trim ln \<noteq> [] \<and> \<not> isPrompt ln then trim ln # content_lines lns else content_lines lns)"
  by (simp add: content_lines_def)

lemma content_lines_Nil [simp]: "content_lines [] = []"
  by (simp add: content_lines_def)

lemma main_forEach_blank: "trim ln = [] \<Longrightarrow> main_outputs_forEach ln ids s = Returns s []"
  by (induction ids) auto

lemma main_forEach_connectionResolve:
  "connectionResolve (state_of (main_outputs_forEach ln ids s)) = connectionResolve s"
  by (induction ln ids s rule: main_outputs_forEach.induct)
    (auto simp: push_stdout_def set_current_def split: option.splits)

lemma main_line_any:
  assumes "\<not> isPrompt ln" and "early_pattern (command tr)" and "active s = Some tr"
    and "map_of (commandOutputs s) (tid tr) = Some out"
    and "distinct (map fst (commandOutputs s))"
  shows "\<exists>s' es out'. main_line ln s = Returns s' es
      \<and> active s' = Some (tr\<lparr>earlyCompleteScheduled := earlyCompleteScheduled tr \<or> trim ln \<noteq> []\<rparr>)
      \<and> distinct (map fst (commandOutputs s'))
      \<and> map_of (commandOutputs s') (tid tr) = Some out'
      \<and> stdout out' = stdout out @ content_lines [ln]
      \<and> filter is_grace_timer es
          = (if trim ln \<noteq> [] \<and> \<not> earlyCompleteScheduled tr
             then [SetTimeout (EarlyMain (tid tr)) 300] else [])
      \<and> connectionResolve s' = connectionResolve s"
proof (cases "trim ln = []")
  case True
  then show ?thesis
    using assms by (simp add: main_line_def main_forEach_blank content_lines_Cons)
next
  case False
  from main_line_content [OF False assms(1,3,4,5)] obtain s' es out' where
    r: "main_line ln s = Returns s' es"
      "active s' = Some (tr\<lparr>earlyCompleteScheduled :=
            earlyCompleteScheduled tr \<or> early_pattern (command tr)\<rparr>)"
      "distinct (map fst (commandOutputs s'))"
      "map_of (commandOutputs s') (tid tr) = Some out'"
      "stdout out' = stdout out @ [trim ln]"
      "filter is_grace_timer es
          = (if early_pattern (command tr) \<and> \<not> earlyCompleteScheduled tr
             then [SetTimeout (EarlyMain (tid tr)) 300] else [])"
    by blast
  have "state_of (main_line ln s)
      = state_of (main_outputs_forEach ln (map fst (commandOutputs s)) s)"
    using assms(1)
    by (cases "main_outputs_forEach ln (map fst (commandOutputs s)) s")
      (simp_all add: main_line_def)
  then have "connectionResolve s' = connectionResolve s"
    using r(1) main_forEach_connectionResolve [of ln "map fst (commandOutputs s)" s] by simp
  then show ?thesis
    using r False assms(1,2) by (simp add: content_lines_Cons)
qed

lemma main_lines_any:
  "list_all (\<lambda>l. \<not> isPrompt l) lns \<Longrightarrow> early_pattern (command tr) \<Longrightarrow>
    active s = Some tr \<Longrightarrow>
    map_of (commandOutputs s) (tid tr) = Some out \<Longrightarrow> distinct (map fst (commandOutputs s)) \<Longrightarrow>
    \<exists>s' es out'. main_lines lns s = Returns s' es
      \<and> active s'
          = Some (tr\<lparr>earlyCompleteScheduled := earlyCompleteScheduled tr \<or> content_lines lns \<noteq> []\<rparr>)
      \<and> distinct (map fst (commandOutputs s'))
      \<and> map_of (commandOutputs s') (tid tr) = Some out'
      \<and> stdout out' = stdout out @ content_lines lns
      \<and> filter is_grace_timer es
          = (if content_lines lns \<noteq> [] \<and> \<not> earlyCompleteScheduled tr
             then [SetTimeout (EarlyMain (tid tr)) 300] else [])
      \<and> connectionResolve s' = connectionResolve s"
proof (induction lns arbitrary: s tr out)
  case Nil
  then show ?case by simp
next
  case (Cons ln lns)
  have c: "\<not> isPrompt ln" and rest: "list_all (\<lambda>l. \<not> isPrompt l) lns"
    using Cons.prems(1) by auto
  let ?tr1 = "tr\<lparr>earlyCompleteScheduled := earlyCompleteScheduled tr \<or> trim ln \<noteq> []\<rparr>"
  from main_line_any [OF c Cons.prems(2,3,4,5)] obtain s1 es1 out1 where
    r1: "main_line ln s = Returns s1 es1"
      "active s1 = Some ?tr1"
      "distinct (map fst (commandOutputs s1))"
      "map_of (commandOutputs s1) (tid tr) = Some out1"
      "stdout out1 = stdout out @ content_lines [ln]"
      "filter is_grace_timer es1
          = (if trim ln \<noteq> [] \<and> \<not> earlyCompleteScheduled tr
             then [SetTimeout (EarlyMain (tid tr)) 300] else [])"
      "connectionResolve s1 = connectionResolve s"
    by blast
  have p1: "early_pattern (command ?tr1)" using Cons.prems(2) by simp
  have m1: "map_of (commandOutputs s1) (tid ?tr1) = Some out1" using r1(4) by simp
  from Cons.IH [OF rest p1 r1(2) m1 r1(3)] obtain s2 es2 out2 where
    r2: "main_lines lns s1 = Returns s2 es2"
      "active s2 = Some (?tr1\<lparr>earlyCompleteScheduled :=
          earlyCompleteScheduled ?tr1 \<or> content_lines lns \<noteq> []\<rparr>)"
      "distinct (map fst (commandOutputs s2))"
      "map_of (commandOutputs s2) (tid ?tr1) = Some out2"
      "stdout out2 = stdout out1 @ content_lines lns"
      "filter is_grace_timer es2
          = (if content_lines lns \<noteq> [] \<and> \<not> earlyCompleteScheduled ?tr1
             then [SetTimeout (EarlyMain (tid ?tr1)) 300] else [])"
      "connectionResolve s2 = connectionResolve s1"
    by blast
  show ?case
    using r1 r2 c by (auto simp: content_lines_Cons)
qed


lemma welcome_append_fields [simp]:
  "active (welcome_append t s) = active s"
  "commandOutputs (welcome_append t s) = commandOutputs s"
  "connectionResolve (welcome_append t s) = connectionResolve s"
  by (simp_all add: welcome_append_def Let_def active_def)

lemma captured_welcome_append [simp]: "captured (welcome_append t s) = captured s"
  by (simp add: captured_def split: option.splits)

lemma main_stdout_any:
  assumes "no_prompt d" and "early_pattern (command tr)" and "active s = Some tr"
    and "map_of (commandOutputs s) (tid tr) = Some out"
    and "distinct (map fst (commandOutputs s))" and "connectionResolve s = None"
  shows "\<exists>s' es out'. main_stdout d s = Returns s' es
      \<and> active s'
          = Some (tr\<lparr>earlyCompleteScheduled := earlyCompleteScheduled tr \<or> chunk_content d \<noteq> []\<rparr>)
      \<and> distinct (map fst (commandOutputs s'))
      \<and> map_of (commandOutputs s') (tid tr) = Some out'
      \<and> stdout out' = stdout out @ chunk_content d
      \<and> filter is_grace_timer es
          = (if chunk_content d \<noteq> [] \<and> \<not> earlyCompleteScheduled tr
             then [SetTimeout (EarlyMain (tid tr)) 300] else [])
      \<and> connectionResolve s' = None"
proof -
  let ?s1 = "welcome_append (toString d) s"
  have l: "list_all (\<lambda>l. \<not> isPrompt l) (split_newline (toString d))"
    using assms(1) by (simp add: no_prompt_def)
  have a: "active ?s1 = Some tr" "map_of (commandOutputs ?s1) (tid tr) = Some out"
    "distinct (map fst (commandOutputs ?s1))"
    using assms by simp_all
  from main_lines_any [OF l assms(2) a] obtain s' es out' where
    "main_lines (split_newline (toString d)) ?s1 = Returns s' es"
    "active s' = Some (tr\<lparr>earlyCompleteScheduled :=
        earlyCompleteScheduled tr \<or> content_lines (split_newline (toString d)) \<noteq> []\<rparr>)"
    "distinct (map fst (commandOutputs s'))"
    "map_of (commandOutputs s') (tid tr) = Some out'"
    "stdout out' = stdout out @ content_lines (split_newline (toString d))"
    "filter is_grace_timer es
        = (if content_lines (split_newline (toString d)) \<noteq> [] \<and> \<not> earlyCompleteScheduled tr
           then [SetTimeout (EarlyMain (tid tr)) 300] else [])"
    "connectionResolve s' = connectionResolve ?s1"
    by blast
  then show ?thesis
    using assms(6) by (simp add: main_stdout_def Let_def chunk_content_def)
qed

lemma chunks_content_Cons: "chunks_content (x # ds) = chunk_content (snd x) @ chunks_content ds"
  by (simp add: chunks_content_def)

lemma main_run_any:
  "list_all (\<lambda>x. no_prompt (snd x)) ds \<Longrightarrow> early_pattern (command tr) \<Longrightarrow>
    active s = Some tr \<Longrightarrow>
    map_of (commandOutputs s) (tid tr) = Some out \<Longrightarrow> distinct (map fst (commandOutputs s)) \<Longrightarrow>
    connectionResolve s = None \<Longrightarrow>
    \<exists>s' es out'. main_run (stdout_events ds) s = (s', es)
      \<and> active s'
          = Some (tr\<lparr>earlyCompleteScheduled := earlyCompleteScheduled tr \<or> chunks_content ds \<noteq> []\<rparr>)
      \<and> map_of (commandOutputs s') (tid tr) = Some out'
      \<and> stdout out' = stdout out @ chunks_content ds
      \<and> filter is_grace_timer es
          = (if chunks_content ds \<noteq> [] \<and> \<not> earlyCompleteScheduled tr
             then [SetTimeout (EarlyMain (tid tr)) 300] else [])"
proof (induction ds arbitrary: s tr out)
  case Nil
  then show ?case by (simp add: stdout_events_def chunks_content_def)
next
  case (Cons x ds)
  obtain t d where x: "x = (t, d)" by (cases x)
  have c: "no_prompt d" and rest: "list_all (\<lambda>x. no_prompt (snd x)) ds"
    using Cons.prems(1) x by auto
  let ?tr1 = "tr\<lparr>earlyCompleteScheduled := earlyCompleteScheduled tr \<or> chunk_content d \<noteq> []\<rparr>"
  from main_stdout_any [OF c Cons.prems(2,3,4,5,6)] obtain s1 es1 out1 where
    r1: "main_stdout d s = Returns s1 es1"
      "active s1 = Some ?tr1"
      "distinct (map fst (commandOutputs s1))"
      "map_of (commandOutputs s1) (tid tr) = Some out1"
      "stdout out1 = stdout out @ chunk_content d"
      "filter is_grace_timer es1
          = (if chunk_content d \<noteq> [] \<and> \<not> earlyCompleteScheduled tr
             then [SetTimeout (EarlyMain (tid tr)) 300] else [])"
      "connectionResolve s1 = None"
    by blast
  have p1: "early_pattern (command ?tr1)" using Cons.prems(2) by simp
  have m1: "map_of (commandOutputs s1) (tid ?tr1) = Some out1" using r1(4) by simp
  from Cons.IH [OF rest p1 r1(2) m1 r1(3) r1(7)] obtain s2 es2 out2 where
    r2: "main_run (stdout_events ds) s1 = (s2, es2)"
      "active s2 = Some (?tr1\<lparr>earlyCompleteScheduled :=
          earlyCompleteScheduled ?tr1 \<or> chunks_content ds \<noteq> []\<rparr>)"
      "map_of (commandOutputs s2) (tid ?tr1) = Some out2"
      "stdout out2 = stdout out1 @ chunks_content ds"
      "filter is_grace_timer es2
          = (if chunks_content ds \<noteq> [] \<and> \<not> earlyCompleteScheduled ?tr1
             then [SetTimeout (EarlyMain (tid ?tr1)) 300] else [])"
    by blast
  show ?case
    using r1 r2 x by (auto simp: stdout_events_def chunks_content_Cons)
qed

lemma server_store_connectionResolve:
  "connectionResolve (state_of (server_store now ln tr s)) = connectionResolve s"
  by (simp add: server_store_def Let_def set_current_def push_stdout_def)

lemma server_line_connectionResolve:
  "\<not> isPrompt ln \<Longrightarrow> connectionResolve (state_of (server_line now ln s)) = connectionResolve s"
proof -
  assume a: "\<not> isPrompt ln"
  show ?thesis
  proof (cases "rdeProcess s")
    case None
    then show ?thesis by (simp add: server_line_def)
  next
    case (Some pr)
    show ?thesis
    proof (cases "currentCommand pr")
      case None
      then show ?thesis using a Some by (simp add: server_line_def)
    next
      case tr: (Some tr)
      show ?thesis
        using a Some tr server_store_connectionResolve [of now ln tr s]
        by (cases "server_store now ln tr s") (simp_all add: server_line_def)
    qed
  qed
qed

lemma server_line_blank:
  assumes "trim ln = []" and "\<not> isPrompt ln" and "active s = Some tr"
  shows "\<exists>s'. server_line now ln s = Returns s' [] \<and> active s' = Some tr
      \<and> captured s' = captured s"
proof -
  obtain pr where pr: "rdeProcess s = Some pr" "currentCommand pr = Some tr"
    using active_Some_process [OF assms(3)] by blast
  show ?thesis
    using assms pr
    by (auto simp: server_line_def server_store_def Let_def captured_def active_def
        map_of_map_set split: option.splits)
qed

lemma server_line_any:
  assumes "\<not> isPrompt ln" and "early_pattern (command tr)" and "active s = Some tr"
  shows "\<exists>s' es. server_line now ln s = Returns s' es
      \<and> active s'
          = Some (tr\<lparr>lastOutputTime := (if trim ln \<noteq> [] then now else lastOutputTime tr),
                   earlyCompleteScheduled := earlyCompleteScheduled tr \<or> trim ln \<noteq> []\<rparr>)
      \<and> captured s' = captured s @ content_lines [ln]
      \<and> filter is_grace_timer es
          = (if trim ln \<noteq> [] \<and> \<not> earlyCompleteScheduled tr
             then [SetTimeout (EarlyServer (tid tr) (promise tr)) 2000] else [])
      \<and> connectionResolve s' = connectionResolve s"
proof (cases "trim ln = []")
  case True
  from server_line_blank [OF True assms(1,3), of now] obtain s' where
    r: "server_line now ln s = Returns s' []" "active s' = Some tr" "captured s' = captured s"
    by blast
  show ?thesis
    using r True assms(1) server_line_connectionResolve [OF assms(1), of now s]
    by (simp add: content_lines_Cons)
next
  case False
  from server_line_content [OF False assms(1,3), of now] obtain s' es where
    r: "server_line now ln s = Returns s' es"
      "active s' = Some (tr\<lparr>lastOutputTime := now, earlyCompleteScheduled :=
            earlyCompleteScheduled tr \<or> early_pattern (command tr)\<rparr>)"
      "captured s' = captured s @ [trim ln]"
      "filter is_grace_timer es
          = (if early_pattern (command tr) \<and> \<not> earlyCompleteScheduled tr
             then [SetTimeout (EarlyServer (tid tr) (promise tr)) 2000] else [])"
    by blast
  show ?thesis
    using r False assms(1,2) server_line_connectionResolve [OF assms(1), of now s]
    by (simp add: content_lines_Cons)
qed


lemma server_lines_any:
  "list_all (\<lambda>l. \<not> isPrompt l) lns \<Longrightarrow> early_pattern (command tr) \<Longrightarrow>
    active s = Some tr \<Longrightarrow>
    \<exists>s' es tr'. server_lines now lns s = Returns s' es
      \<and> active s' = Some tr' \<and> tid tr' = tid tr \<and> command tr' = command tr
      \<and> promise tr' = promise tr
      \<and> earlyCompleteScheduled tr' = (earlyCompleteScheduled tr \<or> content_lines lns \<noteq> [])
      \<and> captured s' = captured s @ content_lines lns
      \<and> filter is_grace_timer es
          = (if content_lines lns \<noteq> [] \<and> \<not> earlyCompleteScheduled tr
             then [SetTimeout (EarlyServer (tid tr) (promise tr)) 2000] else [])
      \<and> connectionResolve s' = connectionResolve s"
proof (induction lns arbitrary: s tr)
  case Nil
  then show ?case by simp
next
  case (Cons ln lns)
  have c: "\<not> isPrompt ln" and rest: "list_all (\<lambda>l. \<not> isPrompt l) lns"
    using Cons.prems(1) by auto
  let ?tr1 = "tr\<lparr>lastOutputTime := (if trim ln \<noteq> [] then now else lastOutputTime tr),
                   earlyCompleteScheduled := earlyCompleteScheduled tr \<or> trim ln \<noteq> []\<rparr>"
  from server_line_any [OF c Cons.prems(2,3), of now] obtain s1 es1 where
    r1: "server_line now ln s = Returns s1 es1"
      "active s1 = Some ?tr1"
      "captured s1 = captured s @ content_lines [ln]"
      "filter is_grace_timer es1
          = (if trim ln \<noteq> [] \<and> \<not> earlyCompleteScheduled tr
             then [SetTimeout (EarlyServer (tid tr) (promise tr)) 2000] else [])"
      "connectionResolve s1 = connectionResolve s"
    by blast
  have p1: "early_pattern (command ?tr1)" using Cons.prems(2) by simp
  from Cons.IH [OF rest p1 r1(2)] obtain s2 es2 tr2 where
    r2: "server_lines now lns s1 = Returns s2 es2"
      "active s2 = Some tr2" "tid tr2 = tid ?tr1" "command tr2 = command ?tr1"
      "promise tr2 = promise ?tr1"
      "earlyCompleteScheduled tr2 = (earlyCompleteScheduled ?tr1 \<or> content_lines lns \<noteq> [])"
      "captured s2 = captured s1 @ content_lines lns"
      "filter is_grace_timer es2
          = (if content_lines lns \<noteq> [] \<and> \<not> earlyCompleteScheduled ?tr1
             then [SetTimeout (EarlyServer (tid ?tr1) (promise ?tr1)) 2000] else [])"
      "connectionResolve s2 = connectionResolve s1"
    by blast
  show ?case
    using r1 r2 c by (auto simp: content_lines_Cons)
qed

lemma server_stdout_any:
  assumes "no_prompt d" and "early_pattern (command tr)" and "active s = Some tr"
    and "connectionResolve s = None"
  shows "\<exists>s' es tr'. server_stdout now d s = Returns s' es
      \<and> active s' = Some tr' \<and> tid tr' = tid tr \<and> command tr' = command tr
      \<and> promise tr' = promise tr
      \<and> earlyCompleteScheduled tr' = (earlyCompleteScheduled tr \<or> chunk_content d \<noteq> [])
      \<and> captured s' = captured s @ chunk_content d
      \<and> filter is_grace_timer es
          = (if chunk_content d \<noteq> [] \<and> \<not> earlyCompleteScheduled tr
             then [SetTimeout (EarlyServer (tid tr) (promise tr)) 2000] else [])
      \<and> connectionResolve s' = None"
proof -
  let ?s1 = "welcome_append (toString d) s"
  have l: "list_all (\<lambda>l. \<not> isPrompt l) (split_newline (toString d))"
    using assms(1) by (simp add: no_prompt_def)
  have a: "active ?s1 = Some tr" using assms(3) by simp
  from server_lines_any [OF l assms(2) a, of now] obtain s' es tr' where
    "server_lines now (split_newline (toString d)) ?s1 = Returns s' es"
    "active s' = Some tr'" "tid tr' = tid tr" "command tr' = command tr"
    "promise tr' = promise tr"
    "earlyCompleteScheduled tr'
       = (earlyCompleteScheduled tr \<or> content_lines (split_newline (toString d)) \<noteq> [])"
    "captured s' = captured ?s1 @ content_lines (split_newline (toString d))"
    "filter is_grace_timer es
        = (if content_lines (split_newline (toString d)) \<noteq> [] \<and> \<not> earlyCompleteScheduled tr
           then [SetTimeout (EarlyServer (tid tr) (promise tr)) 2000] else [])"
    "connectionResolve s' = connectionResolve ?s1"
    by blast
  then show ?thesis
    using assms(4) by (simp add: server_stdout_def Let_def chunk_content_def)
qed

lemma server_run_any:
  "list_all (\<lambda>x. no_prompt (snd x)) ds \<Longrightarrow> early_pattern (command tr) \<Longrightarrow>
    active s = Some tr \<Longrightarrow> connectionResolve s = None \<Longrightarrow>
    \<exists>s' es tr'. server_run (stdout_events ds) s = (s', es)
      \<and> active s' = Some tr' \<and> tid tr' = tid tr \<and> command tr' = command tr
      \<and> promise tr' = promise tr
      \<and> earlyCompleteScheduled tr' = (earlyCompleteScheduled tr \<or> chunks_content ds \<noteq> [])
      \<and> captured s' = captured s @ chunks_content ds
      \<and> filter is_grace_timer es
          = (if chunks_content ds \<noteq> [] \<and> \<not> earlyCompleteScheduled tr
             then [SetTimeout (EarlyServer (tid tr) (promise tr)) 2000] else [])"
proof (induction ds arbitrary: s tr)
  case Nil
  then show ?case by (simp add: stdout_events_def chunks_content_def)
next
  case (Cons x ds)
  obtain t d where x: "x = (t, d)" by (cases x)
  have c: "no_prompt d" and rest: "list_all (\<lambda>x. no_prompt (snd x)) ds"
    using Cons.prems(1) x by auto
  from server_stdout_any [OF c Cons.prems(2,3,4), of t] obtain s1 es1 tr1 where
    r1: "server_stdout t d s = Returns s1 es1"
      "active s1 = Some tr1" "tid tr1 = tid tr" "command tr1 = command tr"
      "promise tr1 = promise tr"
      "earlyCompleteScheduled tr1 = (earlyCompleteScheduled tr \<or> chunk_content d \<noteq> [])"
      "captured s1 = captured s @ chunk_content d"
      "filter is_grace_timer es1
          = (if chunk_content d \<noteq> [] \<and> \<not> earlyCompleteScheduled tr
             then [SetTimeout (EarlyServer (tid tr) (promise tr)) 2000] else [])"
      "connectionResolve s1 = None"
    by blast
  have p1: "early_pattern (command tr1)" using Cons.prems(2) r1(4) by simp
  from Cons.IH [OF rest p1 r1(2) r1(9)] obtain s2 es2 tr2 where
    r2: "server_run (stdout_events ds) s1 = (s2, es2)"
      "active s2 = Some tr2" "tid tr2 = tid tr1" "command tr2 = command tr1"
      "promise tr2 = promise tr1"
      "earlyCompleteScheduled tr2 = (earlyCompleteScheduled tr1 \<or> chunks_content ds \<noteq> [])"
      "captured s2 = captured s1 @ chunks_content ds"
      "filter is_grace_timer es2
          = (if chunks_content ds \<noteq> [] \<and> \<not> earlyCompleteScheduled tr1
             then [SetTimeout (EarlyServer (tid tr1) (promise tr1)) 2000] else [])"
    by blast
  show ?case
    using r1 r2 x by (auto simp: stdout_events_def chunks_content_Cons)
qed


text \<open>
  C4. A Command whose text matches the early-completion pattern is Active, with its
  collector, and no connect is waiting. Chunks of data arrive on stdout, one data event
  after the other, with no prompt line in them (blank lines and the empty last element
  of a chunk that ends in a newline are allowed). In both programs the whole history
  schedules the grace-window timer exactly once if a content line arrives and the timer
  was not scheduled before, and not at all otherwise; afterwards the Command is still
  Active, its flag says whether the timer was ever scheduled, and the lines captured for
  it are those captured before followed by the content lines of all chunks, trimmed and
  in order; and when the timer fires then, the Command completes with exit code 0 and
  all these lines.
\<close>

theorem grace_window:
  assumes "active s = Some tr" and "early_pattern (command tr)"
    and "map_of (commandOutputs s) (tid tr) \<noteq> None"
    and "distinct (map fst (commandOutputs s))"
    and "connectionResolve s = None"
    and "list_all (\<lambda>x. no_prompt (snd x)) ds"
  shows "(\<exists>s1 es tr1. main_run (stdout_events ds) s = (s1, es)
            \<and> filter is_grace_timer es
                = (if chunks_content ds \<noteq> [] \<and> \<not> earlyCompleteScheduled tr
                   then [SetTimeout (EarlyMain (tid tr)) 300] else [])
            \<and> active s1 = Some tr1 \<and> tid tr1 = tid tr \<and> promise tr1 = promise tr
            \<and> earlyCompleteScheduled tr1 = (earlyCompleteScheduled tr \<or> chunks_content ds \<noteq> [])
            \<and> captured s1 = captured s @ chunks_content ds
            \<and> (\<exists>s2 es2. main_early (tid tr) s1
                  = Returns s2 (Resolve (promise tr)
                      \<lparr>exitCode = 0,
                        output_str = join_newline (captured s @ chunks_content ds)\<rparr> # es2)))
       \<and> (\<exists>s1 es tr1. server_run (stdout_events ds) s = (s1, es)
            \<and> filter is_grace_timer es
                = (if chunks_content ds \<noteq> [] \<and> \<not> earlyCompleteScheduled tr
                   then [SetTimeout (EarlyServer (tid tr) (promise tr)) 2000] else [])
            \<and> active s1 = Some tr1 \<and> tid tr1 = tid tr \<and> promise tr1 = promise tr
            \<and> earlyCompleteScheduled tr1 = (earlyCompleteScheduled tr \<or> chunks_content ds \<noteq> [])
            \<and> captured s1 = captured s @ chunks_content ds
            \<and> (\<exists>s2 es2. server_early later (tid tr) (promise tr) s1
                  = Returns s2 (ClearTimeout (HardTimeout (promise tr))
                      # Resolve (promise tr)
                          \<lparr>exitCode = 0,
                            output_str = join_newline (captured s @ chunks_content ds)\<rparr> # es2)))"
proof
  obtain out where out: "map_of (commandOutputs s) (tid tr) = Some out"
    using assms(3) by blast
  let ?tr1 = "tr\<lparr>earlyCompleteScheduled := earlyCompleteScheduled tr \<or> chunks_content ds \<noteq> []\<rparr>"
  from main_run_any [OF assms(6,2,1) out assms(4,5)] obtain s1 es out1 where
    r: "main_run (stdout_events ds) s = (s1, es)"
      "active s1 = Some ?tr1"
      "map_of (commandOutputs s1) (tid tr) = Some out1"
      "stdout out1 = stdout out @ chunks_content ds"
      "filter is_grace_timer es
          = (if chunks_content ds \<noteq> [] \<and> \<not> earlyCompleteScheduled tr
             then [SetTimeout (EarlyMain (tid tr)) 300] else [])"
    by blast
  have c1: "captured s1 = captured s @ chunks_content ds"
    using r(2,3,4) out assms(1) by (simp add: captured_def)
  obtain pr1 where pr1: "rdeProcess s1 = Some pr1" "currentCommand pr1 = Some ?tr1"
    using active_Some_process [OF r(2)] by blast
  have ne: "rdeProcess s1 \<noteq> None" using pr1 by simp
  from main_complete_returns [OF ne, of "tid tr" "promise tr"] obtain s2 es2 where
    "main_complete (tid tr) (promise tr) s1
       = Returns s2 (Resolve (promise tr) \<lparr>exitCode = 0, output_str = fullOutput (tid tr) s1\<rparr> # es2)"
    by blast
  then have "main_early (tid tr) s1
       = Returns s2 (Resolve (promise tr)
           \<lparr>exitCode = 0, output_str = join_newline (captured s @ chunks_content ds)\<rparr> # es2)"
    using pr1 c1 fullOutput_captured [OF r(2)] by (simp add: main_early_def)
  then show "\<exists>s1 es tr1. main_run (stdout_events ds) s = (s1, es)
            \<and> filter is_grace_timer es
                = (if chunks_content ds \<noteq> [] \<and> \<not> earlyCompleteScheduled tr
                   then [SetTimeout (EarlyMain (tid tr)) 300] else [])
            \<and> active s1 = Some tr1 \<and> tid tr1 = tid tr \<and> promise tr1 = promise tr
            \<and> earlyCompleteScheduled tr1 = (earlyCompleteScheduled tr \<or> chunks_content ds \<noteq> [])
            \<and> captured s1 = captured s @ chunks_content ds
            \<and> (\<exists>s2 es2. main_early (tid tr) s1
                  = Returns s2 (Resolve (promise tr)
                      \<lparr>exitCode = 0,
                        output_str = join_newline (captured s @ chunks_content ds)\<rparr> # es2))"
    using r(1,2,5) c1 by auto
next
  from server_run_any [OF assms(6,2,1,5)] obtain s1 es tr1 where
    r: "server_run (stdout_events ds) s = (s1, es)"
      "active s1 = Some tr1" "tid tr1 = tid tr" "command tr1 = command tr"
      "promise tr1 = promise tr"
      "earlyCompleteScheduled tr1 = (earlyCompleteScheduled tr \<or> chunks_content ds \<noteq> [])"
      "captured s1 = captured s @ chunks_content ds"
      "filter is_grace_timer es
          = (if chunks_content ds \<noteq> [] \<and> \<not> earlyCompleteScheduled tr
             then [SetTimeout (EarlyServer (tid tr) (promise tr)) 2000] else [])"
    by blast
  obtain pr1 where pr1: "rdeProcess s1 = Some pr1" "currentCommand pr1 = Some tr1"
    using active_Some_process [OF r(2)] by blast
  have ne: "rdeProcess s1 \<noteq> None" using pr1 by simp
  from server_complete_returns [OF ne, of later "tid tr" "promise tr"
      "[ClearTimeout (HardTimeout (promise tr))]"] obtain s2 es2 where
    "server_complete later (tid tr) (promise tr) [ClearTimeout (HardTimeout (promise tr))] s1
       = Returns s2 ([ClearTimeout (HardTimeout (promise tr))]
           @ Resolve (promise tr) \<lparr>exitCode = 0, output_str = fullOutput (tid tr) s1\<rparr> # es2)"
    by blast
  then have "server_early later (tid tr) (promise tr) s1
       = Returns s2 (ClearTimeout (HardTimeout (promise tr))
           # Resolve (promise tr)
               \<lparr>exitCode = 0, output_str = join_newline (captured s @ chunks_content ds)\<rparr> # es2)"
    using pr1 r(3,7) fullOutput_captured [OF r(2)] by (simp add: server_early_def)
  then show "\<exists>s1 es tr1. server_run (stdout_events ds) s = (s1, es)
            \<and> filter is_grace_timer es
                = (if chunks_content ds \<noteq> [] \<and> \<not> earlyCompleteScheduled tr
                   then [SetTimeout (EarlyServer (tid tr) (promise tr)) 2000] else [])
            \<and> active s1 = Some tr1 \<and> tid tr1 = tid tr \<and> promise tr1 = promise tr
            \<and> earlyCompleteScheduled tr1 = (earlyCompleteScheduled tr \<or> chunks_content ds \<noteq> [])
            \<and> captured s1 = captured s @ chunks_content ds
            \<and> (\<exists>s2 es2. server_early later (tid tr) (promise tr) s1
                  = Returns s2 (ClearTimeout (HardTimeout (promise tr))
                      # Resolve (promise tr)
                          \<lparr>exitCode = 0,
                            output_str = join_newline (captured s @ chunks_content ds)\<rparr> # es2))"
    using r(1,2,3,5,6,7,8) by auto
qed



text \<open>
  The supervisor status command, answered by five lines in three chunks and no prompt:
  one timer, set with the first line, and at its expiry a result with all five lines.
\<close>

theorem grace_window_witness:
  "active main_status
     = Some \<lparr>tid = CmdId 2 1, command = str ''sudo supervisorctl status all'', promise = 1,
          outputTimeout = False, lastOutputTime = 0, earlyCompleteScheduled = False\<rparr>
   \<and> active server_status
     = Some \<lparr>tid = CmdId 2 1, command = str ''sudo supervisorctl status all'', promise = 1,
          outputTimeout = False, lastOutputTime = 2, earlyCompleteScheduled = False\<rparr>
   \<and> early_pattern (str ''sudo supervisorctl status all'')
   \<and> map_of (commandOutputs main_status) (CmdId 2 1) \<noteq> None
   \<and> map_of (commandOutputs server_status) (CmdId 2 1) \<noteq> None
   \<and> distinct (map fst (commandOutputs main_status))
   \<and> distinct (map fst (commandOutputs server_status))
   \<and> connectionResolve main_status = None \<and> connectionResolve server_status = None
   \<and> list_all (\<lambda>x. no_prompt (snd x))
         [(3, ''api RUNNING\<newline>''), (50, ''web RUNNING\<newline>worker RUNNING\<newline>''),
          (120, ''cron STOPPED\<newline>mail FATAL\<newline>'')]
   \<and> chunks_content
         [(3, ''api RUNNING\<newline>''), (50, ''web RUNNING\<newline>worker RUNNING\<newline>''),
          (120, ''cron STOPPED\<newline>mail FATAL\<newline>'')]
       = [str ''api RUNNING'', str ''web RUNNING'', str ''worker RUNNING'', str ''cron STOPPED'',
          str ''mail FATAL'']
   \<and> snd (main_run (stdout_events
         [(3, ''api RUNNING\<newline>''), (50, ''web RUNNING\<newline>worker RUNNING\<newline>''),
          (120, ''cron STOPPED\<newline>mail FATAL\<newline>'')]) main_status)
       = [CommandOutput (CmdId 2 1) Stdout (str ''api RUNNING''),
          SetTimeout (EarlyMain (CmdId 2 1)) 300,
          CommandOutput (CmdId 2 1) Stdout (str ''web RUNNING''),
          CommandOutput (CmdId 2 1) Stdout (str ''worker RUNNING''),
          CommandOutput (CmdId 2 1) Stdout (str ''cron STOPPED''),
          CommandOutput (CmdId 2 1) Stdout (str ''mail FATAL'')]
   \<and> effects (main_early (CmdId 2 1) (fst (main_run (stdout_events
         [(3, ''api RUNNING\<newline>''), (50, ''web RUNNING\<newline>worker RUNNING\<newline>''),
          (120, ''cron STOPPED\<newline>mail FATAL\<newline>'')]) main_status)))
       = [Resolve 1 \<lparr>exitCode = 0, output_str =
            str ''api RUNNING'' @ 10 # str ''web RUNNING'' @ 10 # str ''worker RUNNING'' @ 10
            # str ''cron STOPPED'' @ 10 # str ''mail FATAL''\<rparr>]
   \<and> snd (server_run (stdout_events
         [(3, ''api RUNNING\<newline>''), (50, ''web RUNNING\<newline>worker RUNNING\<newline>''),
          (120, ''cron STOPPED\<newline>mail FATAL\<newline>'')]) server_status)
       = [CommandOutput (CmdId 2 1) Stdout (str ''api RUNNING''),
          SetTimeout (EarlyServer (CmdId 2 1) 1) 2000,
          CommandOutput (CmdId 2 1) Stdout (str ''web RUNNING''),
          CommandOutput (CmdId 2 1) Stdout (str ''worker RUNNING''),
          CommandOutput (CmdId 2 1) Stdout (str ''cron STOPPED''),
          CommandOutput (CmdId 2 1) Stdout (str ''mail FATAL'')]
   \<and> effects (server_early 2003 (CmdId 2 1) 1 (fst (server_run (stdout_events
         [(3, ''api RUNNING\<newline>''), (50, ''web RUNNING\<newline>worker RUNNING\<newline>''),
          (120, ''cron STOPPED\<newline>mail FATAL\<newline>'')]) server_status)))
       = [ClearTimeout (HardTimeout 1), Resolve 1 \<lparr>exitCode = 0, output_str =
            str ''api RUNNING'' @ 10 # str ''web RUNNING'' @ 10 # str ''worker RUNNING'' @ 10
            # str ''cron STOPPED'' @ 10 # str ''mail FATAL''\<rparr>]"
proof -
  have a1: "active main_status
     = Some \<lparr>tid = CmdId 2 1, command = str ''sudo supervisorctl status all'', promise = 1,
          outputTimeout = False, lastOutputTime = 0, earlyCompleteScheduled = False\<rparr>"
    by (simp add: main_status_eq active_def)
  have a2: "active server_status
     = Some \<lparr>tid = CmdId 2 1, command = str ''sudo supervisorctl status all'', promise = 1,
          outputTimeout = False, lastOutputTime = 2, earlyCompleteScheduled = False\<rparr>"
    by (simp add: server_status_eq active_def)
  have e1: "early_pattern (command \<lparr>tid = CmdId 2 1, command = str ''sudo supervisorctl status all'', promise = 1,
          outputTimeout = False, lastOutputTime = 0, earlyCompleteScheduled = False\<rparr>)"
    by (simp add: early_pattern_def str_def)
  have e2: "early_pattern (command \<lparr>tid = CmdId 2 1, command = str ''sudo supervisorctl status all'', promise = 1,
          outputTimeout = False, lastOutputTime = 2, earlyCompleteScheduled = False\<rparr>)"
    by (simp add: early_pattern_def str_def)
  have m1: "map_of (commandOutputs main_status) (tid \<lparr>tid = CmdId 2 1, command = str ''sudo supervisorctl status all'', promise = 1,
          outputTimeout = False, lastOutputTime = 0, earlyCompleteScheduled = False\<rparr>) \<noteq> None"
    by (simp add: main_status_eq)
  have m2: "map_of (commandOutputs server_status) (tid \<lparr>tid = CmdId 2 1, command = str ''sudo supervisorctl status all'', promise = 1,
          outputTimeout = False, lastOutputTime = 2, earlyCompleteScheduled = False\<rparr>) \<noteq> None"
    by (simp add: server_status_eq)
  have d1: "distinct (map fst (commandOutputs main_status))"
    by (simp add: main_status_eq)
  have d2: "distinct (map fst (commandOutputs server_status))"
    by (simp add: server_status_eq)
  have c1: "connectionResolve main_status = None"
    by (simp add: main_status_eq)
  have c2: "connectionResolve server_status = None"
    by (simp add: server_status_eq)
  have np: "list_all (\<lambda>x. no_prompt (snd x))
         [(3, ''api RUNNING\<newline>''), (50, ''web RUNNING\<newline>worker RUNNING\<newline>''),
          (120, ''cron STOPPED\<newline>mail FATAL\<newline>'')]"
    by (simp add: no_prompt_def string_defs)
  have cc: "chunks_content
         [(3, ''api RUNNING\<newline>''), (50, ''web RUNNING\<newline>worker RUNNING\<newline>''),
          (120, ''cron STOPPED\<newline>mail FATAL\<newline>'')]
       = [str ''api RUNNING'', str ''web RUNNING'', str ''worker RUNNING'', str ''cron STOPPED'',
          str ''mail FATAL'']"
    by (simp add: chunks_content_def chunk_content_def content_lines_def string_defs)
  have rm: "snd (main_run (stdout_events
         [(3, ''api RUNNING\<newline>''), (50, ''web RUNNING\<newline>worker RUNNING\<newline>''),
          (120, ''cron STOPPED\<newline>mail FATAL\<newline>'')]) main_status)
       = [CommandOutput (CmdId 2 1) Stdout (str ''api RUNNING''),
          SetTimeout (EarlyMain (CmdId 2 1)) 300,
          CommandOutput (CmdId 2 1) Stdout (str ''web RUNNING''),
          CommandOutput (CmdId 2 1) Stdout (str ''worker RUNNING''),
          CommandOutput (CmdId 2 1) Stdout (str ''cron STOPPED''),
          CommandOutput (CmdId 2 1) Stdout (str ''mail FATAL'')]
   \<and> effects (main_early (CmdId 2 1) (fst (main_run (stdout_events
         [(3, ''api RUNNING\<newline>''), (50, ''web RUNNING\<newline>worker RUNNING\<newline>''),
          (120, ''cron STOPPED\<newline>mail FATAL\<newline>'')]) main_status)))
       = [Resolve 1 \<lparr>exitCode = 0, output_str =
            str ''api RUNNING'' @ 10 # str ''web RUNNING'' @ 10 # str ''worker RUNNING'' @ 10
            # str ''cron STOPPED'' @ 10 # str ''mail FATAL''\<rparr>]"
    by (simp add: stdout_events_def main_status_eq string_defs session_defs main_defs Let_def)
  have rs: "snd (server_run (stdout_events
         [(3, ''api RUNNING\<newline>''), (50, ''web RUNNING\<newline>worker RUNNING\<newline>''),
          (120, ''cron STOPPED\<newline>mail FATAL\<newline>'')]) server_status)
       = [CommandOutput (CmdId 2 1) Stdout (str ''api RUNNING''),
          SetTimeout (EarlyServer (CmdId 2 1) 1) 2000,
          CommandOutput (CmdId 2 1) Stdout (str ''web RUNNING''),
          CommandOutput (CmdId 2 1) Stdout (str ''worker RUNNING''),
          CommandOutput (CmdId 2 1) Stdout (str ''cron STOPPED''),
          CommandOutput (CmdId 2 1) Stdout (str ''mail FATAL'')]
   \<and> effects (server_early 2003 (CmdId 2 1) 1 (fst (server_run (stdout_events
         [(3, ''api RUNNING\<newline>''), (50, ''web RUNNING\<newline>worker RUNNING\<newline>''),
          (120, ''cron STOPPED\<newline>mail FATAL\<newline>'')]) server_status)))
       = [ClearTimeout (HardTimeout 1), Resolve 1 \<lparr>exitCode = 0, output_str =
            str ''api RUNNING'' @ 10 # str ''web RUNNING'' @ 10 # str ''worker RUNNING'' @ 10
            # str ''cron STOPPED'' @ 10 # str ''mail FATAL''\<rparr>]"
    by (simp add: stdout_events_def server_status_eq string_defs session_defs server_defs Let_def)
  show ?thesis
    using a1 a2 e1 m1 m2 d1 d2 c1 c2 np cc rm rs
      grace_window [OF a1 e1 m1 d1 c1 np, of 303]
      grace_window [OF a2 e2 m2 d2 c2 np, of 2003]
    by simp
qed

section \<open>The session: the inactivity check of the server\<close>

text \<open>
  What \<open>checkOutputActivity\<close> does when it runs for the Active Command: it completes the
  Command only with a line captured and 1000 ms gone since the last one, and otherwise
  sets its timer again, 200 ms ahead, and keeps the handle in the tracker.
\<close>

lemma checkOutputActivity_only_when:
  "Resolve q r \<in> set (effects (checkOutputActivity now p s)) \<Longrightarrow>
   q = p \<and> captured s \<noteq> [] \<and> (\<exists>tr. active s = Some tr \<and> promise tr = p \<and> now - lastOutputTime tr \<ge> 1000)"
  by (auto simp: checkOutputActivity_def completeCommand_def active_def captured_def
      split: option.splits if_splits dest!: server_complete_resolve)

lemma checkOutputActivity_again:
  "active s = Some tr \<Longrightarrow> promise tr = p \<Longrightarrow> captured s = [] \<or> now - lastOutputTime tr < 1000 \<Longrightarrow>
   checkOutputActivity now p s
     = Returns (set_current (Some (tr\<lparr>outputTimeout := True\<rparr>)) s) [SetTimeout (OutputCheck p) 200]"
  by (auto simp: checkOutputActivity_def active_def captured_def split: option.splits)

lemma server_line_last_output:
  "active s = Some tr \<Longrightarrow> trim ln \<noteq> [] \<Longrightarrow> \<not> isPrompt ln \<Longrightarrow>
   \<exists>tr'. active (state_of (server_line t ln s)) = Some tr' \<and> promise tr' = promise tr
     \<and> lastOutputTime tr' = t"
  by (auto simp: server_line_def server_store_def Let_def active_def set_current_def
      split: option.splits)


text \<open>
  C5, evaluated. \<open>processNextCommand\<close> of the server calls \<open>checkOutputActivity()\<close> before the
  tracker is the Active Command, so the check sees another Command, or none, and sets no
  timer. \<open>ls\<close> is submitted at time 2 and one line of its listing arrives at time 3; then
  the shell is silent. No timer of the inactivity check is among the effects, the handle
  \<open>outputTimeout\<close> of the Active Command is not set, and the line is captured: nothing
  completes the Command after a second of silence, and its result comes with the
  fallback timer, five seconds after it was submitted.
\<close>

theorem inactivity_check_never_armed:
  "snd (server_run [(0, Connect), (1, StdoutData ''Welcome\<newline>''), (2, Execute (str ''ls'')),
                    (3, StdoutData ''a.txt\<newline>'')] init)
     = [Spawn, SetTimeout (ConnectTimeout 0) 15000, ConnectionResolve 0 None,
        Status Connected ''Connected to RDE'', ConnectReply True [],
        SetTimeout (HardTimeout 1) 5000, StdinWrite (str ''ls'' @ [10]),
        CommandOutput (CmdId 2 1) Stdout (str ''a.txt'')]
   \<and> \<not> list_ex is_poll_timer
        (snd (server_run [(0, Connect), (1, StdoutData ''Welcome\<newline>''),
                          (2, Execute (str ''ls'')), (3, StdoutData ''a.txt\<newline>'')] init))
   \<and> active (fst (server_run [(0, Connect), (1, StdoutData ''Welcome\<newline>''),
                              (2, Execute (str ''ls'')), (3, StdoutData ''a.txt\<newline>'')] init))
     = Some \<lparr>tid = CmdId 2 1, command = str ''ls'', promise = 1,
             outputTimeout = False, lastOutputTime = 3, earlyCompleteScheduled = False\<rparr>
   \<and> captured (fst (server_run [(0, Connect), (1, StdoutData ''Welcome\<newline>''),
                                (2, Execute (str ''ls'')), (3, StdoutData ''a.txt\<newline>'')] init))
     = [str ''a.txt'']
   \<and> snd (server_run [(0, Connect), (1, StdoutData ''Welcome\<newline>''), (2, Execute (str ''ls'')),
                      (3, StdoutData ''a.txt\<newline>''), (5002, Timeout (HardTimeout 1))] init)
     = [Spawn, SetTimeout (ConnectTimeout 0) 15000, ConnectionResolve 0 None,
        Status Connected ''Connected to RDE'', ConnectReply True [],
        SetTimeout (HardTimeout 1) 5000, StdinWrite (str ''ls'' @ [10]),
        CommandOutput (CmdId 2 1) Stdout (str ''a.txt''),
        ClearTimeout (HardTimeout 1),
        Resolve 1 \<lparr>exitCode = 0, output_str = str ''a.txt''\<rparr>]"
  by (simp add: active_def captured_def string_defs session_defs server_defs Let_def)

section \<open>The session: stderr\<close>

lemma stderr_effects:
  "effects (main_stderr d s) =
     (if trim (toString d) = [] then []
      else map (\<lambda>k. CommandOutput k Stderr (trim (toString d))) (map fst (commandOutputs s)))"
  by (auto simp: main_stderr_def)

lemma map_of_stderr:
  "map_of (map (\<lambda>(k, out). (k, out\<lparr>stderr := stderr out @ [t]\<rparr>)) m) k
     = map_option (\<lambda>out. out\<lparr>stderr := stderr out @ [t]\<rparr>) (map_of m k)"
  by (induction m) auto

lemma stderr_active: "active (state_of (main_stderr d s)) = active s"
  by (simp add: main_stderr_def active_def)

lemma stderr_captured: "captured (state_of (main_stderr d s)) = captured s"
  by (auto simp: main_stderr_def captured_def active_def map_of_stderr split: option.splits)

lemma map_state_emit [simp]: "map_state f (emit es r) = emit es (map_state f r)"
  by (cases r) auto

lemma map_state_seq:
  "(\<And>s. g (f s) = map_state f (g s)) \<Longrightarrow> seq (map_state f r) g = map_state f (seq r g)"
  by (cases r) auto

lemma state_of_map_state [simp]: "state_of (map_state f r) = f (state_of r)"
  by (cases r) auto

lemma effects_map_state [simp]: "effects (map_state f r) = effects r"
  by (cases r) auto

lemma map_state_resume:
  "(\<And>s. g (f s) = map_state f (g s)) \<Longrightarrow> resume (map_state f r) g = map_state f (resume r g)"
  by (cases r) auto

lemma forget_fields [simp]:
  "rdeProcess (forget_stderr s) = rdeProcess s"
  "currentTarget (forget_stderr s) = currentTarget s"
  "commandQueue (forget_stderr s) = commandQueue s"
  "isExecutingCommand (forget_stderr s) = isExecutingCommand s"
  "commandCounter (forget_stderr s) = commandCounter s"
  "connectionResolve (forget_stderr s) = connectionResolve s"
  "welcomeBuffer (forget_stderr s) = welcomeBuffer s"
  "promises (forget_stderr s) = promises s"
  "map fst (commandOutputs (forget_stderr s)) = map fst (commandOutputs s)"
  by (auto simp: forget_stderr_def)

lemma forget_updates:
  "(forget_stderr s)\<lparr>rdeProcess := a\<rparr> = forget_stderr (s\<lparr>rdeProcess := a\<rparr>)"
  "(forget_stderr s)\<lparr>currentTarget := b\<rparr> = forget_stderr (s\<lparr>currentTarget := b\<rparr>)"
  "(forget_stderr s)\<lparr>commandQueue := c\<rparr> = forget_stderr (s\<lparr>commandQueue := c\<rparr>)"
  "(forget_stderr s)\<lparr>isExecutingCommand := d\<rparr> = forget_stderr (s\<lparr>isExecutingCommand := d\<rparr>)"
  "(forget_stderr s)\<lparr>commandCounter := e\<rparr> = forget_stderr (s\<lparr>commandCounter := e\<rparr>)"
  "(forget_stderr s)\<lparr>connectionResolve := f\<rparr> = forget_stderr (s\<lparr>connectionResolve := f\<rparr>)"
  "(forget_stderr s)\<lparr>welcomeBuffer := g\<rparr> = forget_stderr (s\<lparr>welcomeBuffer := g\<rparr>)"
  "(forget_stderr s)\<lparr>promises := h\<rparr> = forget_stderr (s\<lparr>promises := h\<rparr>)"
  by (simp_all add: forget_stderr_def)

lemma map_of_forget:
  "map_of (map (\<lambda>(k, out). (k, out\<lparr>stderr := []\<rparr>)) m) k
     = map_option (\<lambda>out. out\<lparr>stderr := []\<rparr>) (map_of m k)"
  by (induction m) auto

lemma fullOutput_forget [simp]: "fullOutput cid (forget_stderr s) = fullOutput cid s"
  by (simp add: fullOutput_def forget_stderr_def map_of_forget split: option.splits)

lemma forget_push_list:
  "map (\<lambda>(k, out). if k = c then (k, out\<lparr>stdout := stdout out @ [l]\<rparr>) else (k, out))
     (map (\<lambda>(k, out). (k, out\<lparr>stderr := []\<rparr>)) m)
   = map (\<lambda>(k, out). (k, out\<lparr>stderr := []\<rparr>))
       (map (\<lambda>(k, out). if k = c then (k, out\<lparr>stdout := stdout out @ [l]\<rparr>) else (k, out)) m)"
  by (induction m) auto

lemma forget_push_stdout: "push_stdout c l (forget_stderr s) = forget_stderr (push_stdout c l s)"
  by (simp add: push_stdout_def forget_stderr_def forget_push_list del: map_map)

lemma forget_set_current: "set_current v (forget_stderr s) = forget_stderr (set_current v s)"
  by (simp add: set_current_def forget_stderr_def)

lemma forget_map_set:
  "map_set k \<lparr>stdout = [], stderr = []\<rparr> (map (\<lambda>(k, out). (k, out\<lparr>stderr := []\<rparr>)) m)
     = map (\<lambda>(k, out). (k, out\<lparr>stderr := []\<rparr>)) (map_set k \<lparr>stdout = [], stderr = []\<rparr> m)"
  by (induction m) auto

lemma forget_map_delete:
  "map_delete k (map (\<lambda>(k, out). (k, out\<lparr>stderr := []\<rparr>)) m)
     = map (\<lambda>(k, out). (k, out\<lparr>stderr := []\<rparr>)) (map_delete k m)"
  by (induction m) (auto simp: map_delete_def)

lemma forget_main_next:
  "main_processNextCommand (forget_stderr s) = map_state forget_stderr (main_processNextCommand s)"
  by (auto simp: main_processNextCommand_def Let_def forget_stderr_def set_current_def
      forget_map_set split: list.splits)

lemma forget_main_complete:
  "main_complete cid p (forget_stderr s) = map_state forget_stderr (main_complete cid p s)"
proof -
  have "set_current None
          (forget_stderr s\<lparr>commandOutputs := map_delete cid (commandOutputs (forget_stderr s)),
             isExecutingCommand := False\<rparr>)
        = forget_stderr (set_current None
          (s\<lparr>commandOutputs := map_delete cid (commandOutputs s), isExecutingCommand := False\<rparr>))"
    by (simp add: forget_stderr_def set_current_def forget_map_delete)
  then show ?thesis
    by (simp add: main_complete_def forget_main_next)
qed

lemma forget_main_early: "main_early c (forget_stderr s) = map_state forget_stderr (main_early c s)"
  by (auto simp: main_early_def forget_main_complete split: option.splits)

lemma forget_main_timeout: "main_timeout p (forget_stderr s) = map_state forget_stderr (main_timeout p s)"
  by (auto simp: main_timeout_def forget_main_complete split: option.splits)

lemma forget_main_prompt: "main_prompt (forget_stderr s) = map_state forget_stderr (main_prompt s)"
  by (auto simp: main_prompt_def forget_main_complete split: option.splits)

lemma forget_main_forEach:
  "main_outputs_forEach ln ids (forget_stderr s)
     = map_state forget_stderr (main_outputs_forEach ln ids s)"
  by (induction ln ids s rule: main_outputs_forEach.induct)
    (auto simp: forget_push_stdout forget_set_current split: option.splits)

lemma forget_main_line: "main_line ln (forget_stderr s) = map_state forget_stderr (main_line ln s)"
proof -
  have "seq (map_state forget_stderr (main_outputs_forEach ln (map fst (commandOutputs s)) s))
          (\<lambda>s1. if isPrompt ln then main_prompt s1 else Returns s1 [])
        = map_state forget_stderr
            (seq (main_outputs_forEach ln (map fst (commandOutputs s)) s)
               (\<lambda>s1. if isPrompt ln then main_prompt s1 else Returns s1 []))"
    by (rule map_state_seq) (simp add: forget_main_prompt)
  then show ?thesis
    by (simp add: main_line_def forget_main_forEach)
qed

lemma forget_main_lines:
  "main_lines lns (forget_stderr s) = map_state forget_stderr (main_lines lns s)"
proof (induction lns arbitrary: s)
  case Nil
  show ?case by simp
next
  case (Cons ln lns)
  have "seq (map_state forget_stderr (main_line ln s)) (main_lines lns)
        = map_state forget_stderr (seq (main_line ln s) (main_lines lns))"
    by (rule map_state_seq) (rule Cons.IH)
  then show ?case
    by (simp add: forget_main_line)
qed

lemma forget_welcome_append:
  "welcome_append t (forget_stderr s) = forget_stderr (welcome_append t s)"
  by (simp add: welcome_append_def Let_def forget_stderr_def)

lemma welcome_seen_forget [simp]: "welcome_seen (forget_stderr s) = welcome_seen s"
  by (simp add: welcome_seen_def)

lemma forget_main_connect_resolved:
  "main_connect_resolved (forget_stderr s) = map_state forget_stderr (main_connect_resolved s)"
  by (simp add: main_connect_resolved_def forget_stderr_def)

lemma forget_update:
  "(forget_stderr s)\<lparr>connectionResolve := c, welcomeBuffer := w\<rparr>
     = forget_stderr (s\<lparr>connectionResolve := c, welcomeBuffer := w\<rparr>)"
  by (simp add: forget_stderr_def)

lemma forget_main_stdout:
  "main_stdout d (forget_stderr s) = map_state forget_stderr (main_stdout d s)"
proof -
  let ?s1 = "welcome_append (toString d) s"
  let ?s2 = "?s1\<lparr>connectionResolve := None, welcomeBuffer := []\<rparr>"
  have r: "resume (map_state forget_stderr (main_lines (split_newline (toString d)) ?s2))
             main_connect_resolved
           = map_state forget_stderr
               (resume (main_lines (split_newline (toString d)) ?s2) main_connect_resolved)"
    by (rule map_state_resume) (rule forget_main_connect_resolved)
  show ?thesis
    using r
    by (simp add: main_stdout_def Let_def forget_welcome_append forget_main_lines forget_update
        split: option.splits)
qed

lemma forget_closeRDESession:
  "closeRDESession (forget_stderr s) = map_state forget_stderr (closeRDESession s)"
  by (simp add: closeRDESession_def forget_stderr_def)

lemma forget_main_connect: "main_connect (forget_stderr s) = map_state forget_stderr (main_connect s)"
  by (simp add: main_connect_def createRDESession_def forget_stderr_def)

lemma forget_main_connect_timeout:
  "main_connect_timeout w (forget_stderr s) = map_state forget_stderr (main_connect_timeout w s)"
  by (simp add: main_connect_timeout_def main_connect_rejected_def closeRDESession_def
      forget_stderr_def)

lemma forget_main_exit: "main_exit (forget_stderr s) = map_state forget_stderr (main_exit s)"
  by (simp add: main_exit_def forget_stderr_def)

lemma forget_main_error: "main_error msg (forget_stderr s) = map_state forget_stderr (main_error msg s)"
  by (simp add: main_error_def forget_stderr_def)

lemma forget_main_execute:
  "main_execute now cmd (forget_stderr s) = map_state forget_stderr (main_execute now cmd s)"
  by (simp add: main_execute_def main_executeInRDESession_def forget_updates forget_main_next)

lemma forget_main_disconnect:
  "main_disconnect (forget_stderr s) = map_state forget_stderr (main_disconnect s)"
  by (simp add: main_disconnect_def closeRDESession_def forget_stderr_def)

lemma forget_main_step:
  "\<not> is_stderr_data ev \<Longrightarrow>
   main_step now ev (forget_stderr s) = map_state forget_stderr (main_step now ev s)"
proof (cases ev)
  case (Timeout cb)
  then show ?thesis
    by (cases cb)
      (simp_all add: forget_main_timeout forget_main_early forget_main_connect_timeout)
qed (simp_all add: forget_main_connect forget_main_disconnect forget_main_execute
    forget_main_stdout forget_main_exit forget_main_error)

lemma forget_list_stderr:
  "map (\<lambda>(k, out). (k, out\<lparr>stderr := []\<rparr>)) (map (\<lambda>(k, out). (k, out\<lparr>stderr := stderr out @ [t]\<rparr>)) m)
     = map (\<lambda>(k, out). (k, out\<lparr>stderr := []\<rparr>)) m"
  by (induction m) auto

lemma forget_main_stderr: "forget_stderr (state_of (main_stderr d s)) = forget_stderr s"
  by (simp add: main_stderr_def forget_stderr_def forget_list_stderr del: map_map)

lemma main_stderr_only: "filter (\<lambda>e. \<not> is_stderr_output e) (effects (main_stderr d s)) = []"
  by (auto simp: main_stderr_def filter_empty_conv)

lemma main_run_without_stderr:
  "fst (main_run [x \<leftarrow> evs. \<not> is_stderr_data (snd x)] (forget_stderr s))
     = forget_stderr (fst (main_run evs s))
   \<and> [e \<leftarrow> snd (main_run [x \<leftarrow> evs. \<not> is_stderr_data (snd x)] (forget_stderr s)).
        \<not> is_stderr_output e]
     = [e \<leftarrow> snd (main_run evs s). \<not> is_stderr_output e]"
proof (induction evs arbitrary: s)
  case Nil
  show ?case by simp
next
  case (Cons x evs)
  obtain now ev where x: "x = (now, ev)" by (cases x)
  obtain s1 es1 where r1: "main_run evs (state_of (main_step now ev s)) = (s1, es1)"
    by (cases "main_run evs (state_of (main_step now ev s))")
  show ?case
  proof (cases "is_stderr_data ev")
    case True
    then obtain d where d: "ev = StderrData d" by (cases ev) auto
    show ?thesis
      using Cons.IH [of "state_of (main_stderr d s)"] r1
      by (simp add: x d forget_main_stderr main_stderr_only)
  next
    case False
    obtain s2 es2 where r2:
      "main_run [x \<leftarrow> evs. \<not> is_stderr_data (snd x)] (forget_stderr (state_of (main_step now ev s)))
         = (s2, es2)"
      by (cases "main_run [x \<leftarrow> evs. \<not> is_stderr_data (snd x)]
            (forget_stderr (state_of (main_step now ev s)))")
    show ?thesis
      using Cons.IH [of "state_of (main_step now ev s)"] r1 r2 False
      by (simp add: x forget_main_step)
  qed
qed

lemma forget_init: "forget_stderr init = init"
  by (simp add: forget_stderr_def init_def)

lemma result_not_stderr: "is_result e \<Longrightarrow> \<not> is_stderr_output e"
  by (cases e) auto

lemma filter_results:
  "[e \<leftarrow> xs. \<not> is_stderr_output e] = [e \<leftarrow> ys. \<not> is_stderr_output e] \<Longrightarrow>
   filter is_result xs = filter is_result ys"
proof -
  assume a: "[e \<leftarrow> xs. \<not> is_stderr_output e] = [e \<leftarrow> ys. \<not> is_stderr_output e]"
  have "filter is_result zs = filter is_result [e \<leftarrow> zs. \<not> is_stderr_output e]" for zs
    using result_not_stderr by (induction zs) auto
  then show ?thesis using a by metis
qed

lemma server_run_without_stderr:
  "filter is_result (snd (server_run [x \<leftarrow> evs. \<not> is_stderr_data (snd x)] s))
     = filter is_result (snd (server_run evs s))"
proof (induction evs arbitrary: s)
  case Nil
  show ?case by simp
next
  case (Cons x evs)
  obtain now ev where x: "x = (now, ev)" by (cases x)
  obtain s1 es1 where r1: "server_run evs (state_of (server_step now ev s)) = (s1, es1)"
    by (cases "server_run evs (state_of (server_step now ev s))")
  show ?case
  proof (cases "is_stderr_data ev")
    case True
    then obtain d where d: "ev = StderrData d" by (cases ev) auto
    show ?thesis
      using Cons.IH [of s] r1 by (simp add: x d server_stderr_def)
  next
    case False
    obtain s2 es2 where r2:
      "server_run [x \<leftarrow> evs. \<not> is_stderr_data (snd x)] (state_of (server_step now ev s))
         = (s2, es2)"
      by (cases "server_run [x \<leftarrow> evs. \<not> is_stderr_data (snd x)]
            (state_of (server_step now ev s))")
    show ?thesis
      using Cons.IH [of "state_of (server_step now ev s)"] r1 r2 False by (simp add: x)
  qed
qed

text \<open>
  C9. In the desktop program the stderr handler publishes the trimmed text of a chunk
  that is not blank as a \<open>command/output\<close> event with source stderr, one for each
  collector (the Active Command's), and leaves the captured stdout lines as they were.
  In every history from the initial state, the results delivered, and all other effects
  but the stderr events, are those of the same history with its stderr data removed:
  nothing received on stderr is part of any result. The server publishes the text of the
  chunk with source stderr under the diagnostic id and leaves the state as it was, and
  the results of its histories are those of the histories without the stderr data too.
\<close>

theorem stderr_never_in_results:
  "effects (main_stderr d s)
     = (if trim (toString d) = [] then []
        else map (\<lambda>k. CommandOutput k Stderr (trim (toString d))) (map fst (commandOutputs s)))
   \<and> captured (state_of (main_stderr d s)) = captured s
   \<and> filter is_result (snd (main_run evs init))
       = filter is_result (snd (main_run [x \<leftarrow> evs. \<not> is_stderr_data (snd x)] init))
   \<and> [e \<leftarrow> snd (main_run evs init). \<not> is_stderr_output e]
       = [e \<leftarrow> snd (main_run [x \<leftarrow> evs. \<not> is_stderr_data (snd x)] init).
            \<not> is_stderr_output e]
   \<and> server_stderr d s = Returns s [DebugOutput Stderr (toString d)]
   \<and> filter is_result (snd (server_run evs init))
       = filter is_result (snd (server_run [x \<leftarrow> evs. \<not> is_stderr_data (snd x)] init))"
proof -
  have n: "[e \<leftarrow> snd (main_run [x \<leftarrow> evs. \<not> is_stderr_data (snd x)] init).
            \<not> is_stderr_output e]
       = [e \<leftarrow> snd (main_run evs init). \<not> is_stderr_output e]"
    using main_run_without_stderr [of evs init] by (simp add: forget_init)
  then have "filter is_result (snd (main_run [x \<leftarrow> evs. \<not> is_stderr_data (snd x)] init))
       = filter is_result (snd (main_run evs init))"
    by (rule filter_results)
  then show ?thesis
    using n stderr_effects [of d s] stderr_captured [of d s]
      server_run_without_stderr [of evs init]
    by (simp add: server_stderr_def)
qed

text \<open>
  \<open>ls\<close> prints a line on stdout and a complaint on stderr before the prompt: the
  complaint is published with source stderr, and the result is the stdout line alone, as
  without the complaint, in both programs.
\<close>

theorem stderr_never_in_results_witness:
  "snd (main_run [(0, Connect), (1, StdoutData ''Welcome\<newline>''), (2, Execute (str ''ls'')),
                  (3, StdoutData ''a.txt\<newline>''),
                  (4, StderrData ''ls: x: No such file\<newline>''), (5, StdoutData ''$ '')] init)
     = [Spawn, SetTimeout (ConnectTimeout 0) 15000, ConnectionResolve 0 None,
        Status Connected ''Connected to RDE'', ConnectReply True [],
        SetTimeout (HardTimeout 1) 30000, StdinWrite (str ''ls'' @ [10]),
        CommandOutput (CmdId 2 1) Stdout (str ''a.txt''),
        CommandOutput (CmdId 2 1) Stderr (str ''ls: x: No such file''),
        ClearTimeout (HardTimeout 1),
        Resolve 1 \<lparr>exitCode = 0, output_str = str ''a.txt''\<rparr>]
   \<and> filter is_result
        (snd (main_run [(0, Connect), (1, StdoutData ''Welcome\<newline>''), (2, Execute (str ''ls'')),
                        (3, StdoutData ''a.txt\<newline>''), (5, StdoutData ''$ '')] init))
     = [Resolve 1 \<lparr>exitCode = 0, output_str = str ''a.txt''\<rparr>]
   \<and> snd (server_run [(0, Connect), (1, StdoutData ''Welcome\<newline>''), (2, Execute (str ''ls'')),
                  (3, StdoutData ''a.txt\<newline>''),
                  (4, StderrData ''ls: x: No such file\<newline>''), (5, StdoutData ''$ '')] init)
     = [Spawn, SetTimeout (ConnectTimeout 0) 15000, ConnectionResolve 0 None,
        Status Connected ''Connected to RDE'', ConnectReply True [],
        SetTimeout (HardTimeout 1) 5000, StdinWrite (str ''ls'' @ [10]),
        CommandOutput (CmdId 2 1) Stdout (str ''a.txt''),
        DebugOutput Stderr (str ''ls: x: No such file'' @ [10]),
        ClearTimeout (HardTimeout 1),
        Resolve 1 \<lparr>exitCode = 0, output_str = str ''a.txt''\<rparr>]"
  using stderr_never_in_results
    [of "''ls: x: No such file\<newline>''" init
        "[(0, Connect), (1, StdoutData ''Welcome\<newline>''), (2, Execute (str ''ls'')),
          (3, StdoutData ''a.txt\<newline>''),
          (4, StderrData ''ls: x: No such file\<newline>''), (5, StdoutData ''$ '')]"]
  by (simp add: string_defs session_defs main_defs server_defs Let_def)

section \<open>Trimmed lines\<close>

lemma keeps_Returns: "I s \<Longrightarrow> list_all G es \<Longrightarrow> keeps I G (Returns s es)"
  by (simp add: keeps_def)
lemma keeps_Throws: "I s \<Longrightarrow> list_all G es \<Longrightarrow> keeps I G (Throws s es)"
  by (simp add: keeps_def)
lemma keeps_emit: "list_all G es \<Longrightarrow> keeps I G r \<Longrightarrow> keeps I G (emit es r)"
  by (cases r) (auto simp: keeps_def)
lemma keeps_seq: "keeps I G r \<Longrightarrow> (\<And>s. I s \<Longrightarrow> keeps I G (f s)) \<Longrightarrow> keeps I G (seq r f)"
  by (cases r) (auto simp: keeps_def)
lemma keeps_resume: "keeps I G r \<Longrightarrow> (\<And>s. I s \<Longrightarrow> keeps I G (f s)) \<Longrightarrow> keeps I G (resume r f)"
  by (cases r) (auto simp: keeps_def)

lemma last_dropWhile: "dropWhile P xs \<noteq> [] \<Longrightarrow> last (dropWhile P xs) = last xs"
  by (induction xs) (auto split: if_splits)

lemma trim_trimmed: "trim l \<noteq> [] \<Longrightarrow> trimmed (trim l)"
proof -
  assume a: "trim l \<noteq> []"
  let ?m = "dropWhile is_space l"
  let ?d = "dropWhile is_space (rev ?m)"
  have d: "?d \<noteq> []" using a by (simp add: trim_def)
  have m: "?m \<noteq> []"
    using d by (metis dropWhile.simps(1) rev.simps(1))
  have "\<not> is_space (hd ?d)" using d hd_dropWhile by blast
  then have l: "\<not> is_space (last (trim l))"
    using d by (simp add: trim_def last_rev)
  have "last ?d = last (rev ?m)" using d by (rule last_dropWhile)
  then have "hd (trim l) = hd ?m"
    using d m by (simp add: trim_def hd_rev last_rev)
  moreover have "\<not> is_space (hd ?m)" using m hd_dropWhile by blast
  ultimately show ?thesis using a l by (simp add: trimmed_def)
qed

lemma set_trim: "set (trim l) \<subseteq> set l"
  by (auto simp: trim_def dest!: set_dropWhileD)

lemma trim_clean: "trim l \<noteq> [] \<Longrightarrow> 10 \<notin> set l \<Longrightarrow> clean_line (trim l)"
  using set_trim [of l] by (auto simp: clean_line_def trim_trimmed)

lemma split_join:
  "ls \<noteq> [] \<Longrightarrow> \<forall>l \<in> set ls. 10 \<notin> set l \<Longrightarrow> split_newline (join_newline ls) = ls"
proof (induction ls rule: join_newline.induct)
  case 1
  then show ?case by simp
next
  case (2 l)
  then show ?case by (simp add: split_newline_plain)
next
  case (3 l m ls)
  have "split_from [] (l @ 10 # join_newline (m # ls)) = split_from l (10 # join_newline (m # ls))"
    using split_from_prefix [of l "[]" "10 # join_newline (m # ls)"] 3 by simp
  then show ?case using 3 by (simp add: split_newline_def)
qed

lemma clean_fullOutput:
  "clean_outputs s \<Longrightarrow> clean_effect (Resolve p \<lparr>exitCode = 0, output_str = fullOutput cid s\<rparr>)"
proof (cases "map_of (commandOutputs s) cid")
  case None
  then show ?thesis by (simp add: fullOutput_def)
next
  case (Some out)
  assume c: "clean_outputs s"
  have "(cid, out) \<in> set (commandOutputs s)" using Some by (rule map_of_SomeD)
  then have l: "\<forall>l \<in> set (stdout out). clean_line l"
    using c by (auto simp: clean_outputs_def list_all_iff)
  show ?thesis
  proof (cases "stdout out = []")
    case True
    then show ?thesis using Some by (simp add: fullOutput_def)
  next
    case False
    then have "split_newline (join_newline (stdout out)) = stdout out"
      using l by (intro split_join) (auto simp: clean_line_def)
    then show ?thesis
      using Some l by (simp add: fullOutput_def list_all_iff clean_line_def)
  qed
qed

lemma clean_set_current [simp]: "clean_outputs (set_current v s) = clean_outputs s"
  by (simp add: clean_outputs_def set_current_def)

lemma list_all_map_set: "list_all P m \<Longrightarrow> P (k, v) \<Longrightarrow> list_all P (map_set k v m)"
  by (induction m) auto

lemma list_all_map_delete: "list_all P m \<Longrightarrow> list_all P (map_delete k m)"
  by (simp add: map_delete_def list_all_iff)

lemma list_all_push:
  "list_all (\<lambda>(k, out). list_all clean_line (stdout out)) m \<Longrightarrow> clean_line l \<Longrightarrow>
   list_all (\<lambda>(k, out). list_all clean_line (stdout out))
     (map (\<lambda>(k, out). if k = c then (k, out\<lparr>stdout := stdout out @ [l]\<rparr>) else (k, out)) m)"
  by (induction m) (auto split: if_splits)

lemma clean_push_stdout: "clean_outputs s \<Longrightarrow> clean_line l \<Longrightarrow> clean_outputs (push_stdout c l s)"
  by (simp add: clean_outputs_def push_stdout_def list_all_push)

lemma clean_main_next: "clean_outputs s \<Longrightarrow> clean (main_processNextCommand s)"
  by (auto simp: main_processNextCommand_def Let_def keeps_def clean_outputs_def
      set_current_def list_all_map_set split: list.splits)

lemma clean_server_next: "clean_outputs s \<Longrightarrow> clean (server_processNextCommand now s)"
  by (auto simp: server_processNextCommand_def Let_def keeps_def clean_outputs_def
      set_current_def list_all_map_set split: list.splits)

lemma clean_completed:
  "clean_outputs s \<Longrightarrow>
   clean_outputs (set_current None
     (s\<lparr>commandOutputs := map_delete cid (commandOutputs s), isExecutingCommand := False\<rparr>))"
  by (simp add: clean_outputs_def set_current_def list_all_map_delete)

lemma clean_resolve:
  "clean_outputs s \<Longrightarrow>
   list_all clean_effect (clears @ [Resolve p \<lparr>exitCode = 0, output_str = fullOutput cid s\<rparr>])
     = list_all clean_effect clears"
  using clean_fullOutput [of s p cid] by simp

lemma clean_main_complete: "clean_outputs s \<Longrightarrow> clean (main_complete cid p s)"
  unfolding main_complete_def
  using clean_resolve [of s "[]" p cid]
  by (intro keeps_emit clean_main_next clean_completed) simp_all

lemma clean_server_complete:
  "clean_outputs s \<Longrightarrow> list_all clean_effect clears \<Longrightarrow> clean (server_complete now cid p clears s)"
  unfolding server_complete_def
  by (intro keeps_emit clean_server_next clean_completed) (simp_all only: clean_resolve)

lemma clean_same:
  "clean_outputs s \<Longrightarrow> commandOutputs s' = commandOutputs s \<Longrightarrow> clean_outputs s'"
  by (simp add: clean_outputs_def)

lemma clean_main_early: "clean_outputs s \<Longrightarrow> clean (main_early c s)"
  by (auto simp: main_early_def keeps_Returns keeps_Throws clean_main_complete split: option.splits)

lemma clean_main_timeout: "clean_outputs s \<Longrightarrow> clean (main_timeout p s)"
  by (auto simp: main_timeout_def keeps_Returns keeps_Throws clean_main_complete split: option.splits)

lemma clean_main_prompt: "clean_outputs s \<Longrightarrow> clean (main_prompt s)"
  by (auto simp: main_prompt_def keeps_Returns keeps_Throws clean_main_complete
      intro!: keeps_emit split: option.splits)

lemma clean_main_forEach:
  "10 \<notin> set ln \<Longrightarrow> clean_outputs s \<Longrightarrow> clean (main_outputs_forEach ln ids s)"
proof (induction ln ids s rule: main_outputs_forEach.induct)
  case (1 ln s)
  then show ?case by (simp add: keeps_Returns)
next
  case (2 ln cmdId rest s)
  show ?case
  proof (cases "trim ln \<noteq> [] \<and> \<not> isPrompt ln")
    case False
    then show ?thesis using 2 by auto
  next
    case True
    have cl: "clean_line (trim ln)" using True "2.prems"(1) by (simp add: trim_clean)
    have c1: "clean_outputs (push_stdout cmdId (trim ln) s)"
      using "2.prems"(2) cl by (rule clean_push_stdout)
    have t: "trimmed (trim ln)" using cl by (simp add: clean_line_def)
    show ?thesis
    proof (cases "rdeProcess s")
      case None
      then show ?thesis using True c1 t by (simp add: keeps_Throws)
    next
      case (Some pr)
      show ?thesis
      proof (cases "currentCommand pr")
        case None
        then show ?thesis
          using True Some t "2.IH"(1) [OF True Some None "2.prems"(1) c1]
          by (simp add: keeps_emit)
      next
        case (Some tr)
        note tr = Some
        show ?thesis
        proof (cases "tid tr = cmdId \<and> early_pattern (command tr) \<and> \<not> earlyCompleteScheduled tr")
          case True
          note e = True
          have "clean (main_outputs_forEach ln rest
                  (set_current (Some (tr\<lparr>earlyCompleteScheduled := True\<rparr>))
                     (push_stdout cmdId (trim ln) s)))"
            using "2.IH"(2) [OF \<open>trim ln \<noteq> [] \<and> \<not> isPrompt ln\<close> \<open>rdeProcess s = Some pr\<close> tr e
                "2.prems"(1)] c1 by simp
          then show ?thesis
            using \<open>trim ln \<noteq> [] \<and> \<not> isPrompt ln\<close> \<open>rdeProcess s = Some pr\<close> tr e t
            by (simp add: keeps_emit)
        next
          case False
          note e = False
          have "clean (main_outputs_forEach ln rest (push_stdout cmdId (trim ln) s))"
            using "2.IH"(3) [OF \<open>trim ln \<noteq> [] \<and> \<not> isPrompt ln\<close> \<open>rdeProcess s = Some pr\<close> tr e
                "2.prems"(1) c1] .
          then show ?thesis
            using \<open>trim ln \<noteq> [] \<and> \<not> isPrompt ln\<close> \<open>rdeProcess s = Some pr\<close> tr e t
            by (auto simp: keeps_emit)
        qed
      qed
    qed
  qed
qed

lemma clean_main_line: "10 \<notin> set ln \<Longrightarrow> clean_outputs s \<Longrightarrow> clean (main_line ln s)"
  unfolding main_line_def
  by (intro keeps_seq clean_main_forEach) (auto simp: clean_main_prompt keeps_Returns)

lemma clean_main_lines:
  "\<forall>ln \<in> set lns. 10 \<notin> set ln \<Longrightarrow> clean_outputs s \<Longrightarrow> clean (main_lines lns s)"
proof (induction lns arbitrary: s)
  case Nil
  then show ?case by (simp add: keeps_Returns)
next
  case (Cons ln lns)
  show ?case
    using Cons.prems Cons.IH
    by (auto intro!: keeps_seq clean_main_line)
qed

lemma split_lines_no_newline: "\<forall>ln \<in> set (split_newline t). 10 \<notin> set ln"
  using split_newline_no_newline by blast

lemma clean_welcome_append [simp]: "clean_outputs (welcome_append t s) = clean_outputs s"
  by (simp add: welcome_append_def Let_def clean_outputs_def)

lemma clean_main_connect_resolved: "clean_outputs s \<Longrightarrow> clean (main_connect_resolved s)"
  by (simp add: main_connect_resolved_def keeps_def clean_outputs_def)

lemma clean_main_stdout: "clean_outputs s \<Longrightarrow> clean (main_stdout d s)"
  unfolding main_stdout_def Let_def
  by (auto split: option.splits
      intro!: keeps_emit keeps_resume clean_main_lines split_lines_no_newline
        clean_main_connect_resolved
      simp: clean_outputs_def welcome_append_def Let_def)

lemma clean_closeRDESession: "clean_outputs s \<Longrightarrow> clean (closeRDESession s)"
  by (simp add: closeRDESession_def keeps_def clean_outputs_def)

lemma clean_createRDESession: "clean_outputs s \<Longrightarrow> clean (createRDESession s)"
  by (simp add: createRDESession_def keeps_def clean_outputs_def)

lemma clean_main_connect: "clean_outputs s \<Longrightarrow> clean (main_connect s)"
  unfolding main_connect_def
  by (intro keeps_seq clean_createRDESession) (simp_all add: keeps_def clean_outputs_def)

lemma clean_main_connect_timeout: "clean_outputs s \<Longrightarrow> clean (main_connect_timeout w s)"
  unfolding main_connect_timeout_def main_connect_rejected_def
  by (auto intro!: keeps_emit keeps_seq clean_closeRDESession
      simp: keeps_Returns clean_outputs_def)

lemma list_all_stderr:
  "list_all (\<lambda>(k, out). list_all clean_line (stdout out)) m \<Longrightarrow>
   list_all (\<lambda>(k, out). list_all clean_line (stdout out))
     (map (\<lambda>(k, out). (k, out\<lparr>stderr := stderr out @ [t]\<rparr>)) m)"
  by (induction m) auto

lemma clean_main_stderr: "clean_outputs s \<Longrightarrow> clean (main_stderr d s)"
  by (auto simp: main_stderr_def keeps_def clean_outputs_def list_all_stderr list_all_iff)

lemma clean_main_exit: "clean_outputs s \<Longrightarrow> clean (main_exit s)"
  by (auto simp: main_exit_def keeps_def clean_outputs_def list_all_iff)

lemma clean_main_error: "clean_outputs s \<Longrightarrow> clean (main_error msg s)"
  by (auto simp: main_error_def keeps_def clean_outputs_def list_all_iff)

lemma clean_main_execute: "clean_outputs s \<Longrightarrow> clean (main_execute now cmd s)"
  unfolding main_execute_def main_executeInRDESession_def
  by (auto intro!: clean_main_next keeps_Returns simp: clean_outputs_def)

lemma clean_main_disconnect: "clean_outputs s \<Longrightarrow> clean (main_disconnect s)"
  unfolding main_disconnect_def
  by (intro keeps_seq clean_closeRDESession) (simp_all add: keeps_def)

lemma clean_main_step: "clean_outputs s \<Longrightarrow> clean (main_step now ev s)"
proof (cases ev)
  case (Timeout cb)
  assume "clean_outputs s"
  then show ?thesis
    using Timeout
    by (cases cb)
      (simp_all add: clean_main_timeout clean_main_early clean_main_connect_timeout keeps_Returns)
qed (simp_all add: clean_main_connect clean_main_disconnect clean_main_execute clean_main_stdout
    clean_main_stderr clean_main_exit clean_main_error)

lemma clean_main_run:
  "clean_outputs s \<Longrightarrow>
   clean_outputs (fst (main_run evs s)) \<and> list_all clean_effect (snd (main_run evs s))"
proof (induction evs arbitrary: s)
  case Nil
  then show ?case by simp
next
  case (Cons e evs)
  obtain now ev where e: "e = (now, ev)" by (cases e)
  have k: "clean (main_step now ev s)" using Cons.prems by (rule clean_main_step)
  then have "clean_outputs (state_of (main_step now ev s))" by (simp add: keeps_def)
  from Cons.IH [OF this] show ?case
    using k by (cases "main_run evs (state_of (main_step now ev s))") (simp add: e keeps_def)
qed

lemma clean_completeCommand: "clean_outputs s \<Longrightarrow> clean (completeCommand now p s)"
  by (auto simp: completeCommand_def keeps_Returns keeps_Throws clean_server_complete
      split: option.splits)

lemma clean_checkOutputActivity: "clean_outputs s \<Longrightarrow> clean (checkOutputActivity now p s)"
  by (auto simp: checkOutputActivity_def keeps_Returns keeps_Throws clean_completeCommand
      split: option.splits)

lemma clean_server_timeout: "clean_outputs s \<Longrightarrow> clean (server_timeout now p s)"
  by (auto simp: server_timeout_def keeps_Returns keeps_Throws clean_completeCommand
      split: option.splits)

lemma clean_server_early: "clean_outputs s \<Longrightarrow> clean (server_early now c p s)"
  by (auto simp: server_early_def keeps_Returns keeps_Throws clean_server_complete
      split: option.splits)

lemma clean_server_prompt: "clean_outputs s \<Longrightarrow> clean (server_prompt now s)"
  by (auto simp: server_prompt_def keeps_Returns keeps_Throws clean_server_complete
      split: option.splits)

lemma clean_ensure:
  "clean_outputs s \<Longrightarrow>
   clean_outputs (if map_of (commandOutputs s) k = None
     then s\<lparr>commandOutputs := map_set k \<lparr>stdout = [], stderr = []\<rparr> (commandOutputs s)\<rparr>
     else s)"
  by (simp add: clean_outputs_def list_all_map_set)

lemma clean_server_store:
  "10 \<notin> set ln \<Longrightarrow> clean_outputs s \<Longrightarrow> clean (server_store now ln tr s)"
proof -
  assume n: "10 \<notin> set ln" and c: "clean_outputs s"
  let ?s0 = "if map_of (commandOutputs s) (tid tr) = None
     then s\<lparr>commandOutputs := map_set (tid tr) \<lparr>stdout = [], stderr = []\<rparr> (commandOutputs s)\<rparr>
     else s"
  have c0: "clean_outputs ?s0" using c by (rule clean_ensure)
  show ?thesis
  proof (cases "trim ln \<noteq> [] \<and> \<not> isPrompt ln")
    case False
    then show ?thesis
      using c0 unfolding server_store_def Let_def by (auto simp: keeps_Returns)
  next
    case True
    have cl: "clean_line (trim ln)" using True n by (simp add: trim_clean)
    have c1: "clean_outputs (push_stdout (tid tr) (trim ln) ?s0)"
      using c0 cl by (rule clean_push_stdout)
    have t: "trimmed (trim ln)" using cl by (simp add: clean_line_def)
    show ?thesis
      using True c1 t unfolding server_store_def Let_def by (auto simp: keeps_Returns)
  qed
qed

lemma emit_Nil [simp]: "emit [] r = r"
  by (cases r) auto

lemma clean_server_line: "10 \<notin> set ln \<Longrightarrow> clean_outputs s \<Longrightarrow> clean (server_line now ln s)"
  unfolding server_line_def
  by (auto split: option.splits
      intro!: keeps_seq clean_server_store clean_server_prompt keeps_Returns keeps_Throws)

lemma clean_server_lines:
  "\<forall>ln \<in> set lns. 10 \<notin> set ln \<Longrightarrow> clean_outputs s \<Longrightarrow> clean (server_lines now lns s)"
proof (induction lns arbitrary: s)
  case Nil
  then show ?case by (simp add: keeps_Returns)
next
  case (Cons ln lns)
  show ?case
    using Cons.prems Cons.IH
    by (auto intro!: keeps_seq clean_server_line)
qed

lemma clean_server_connect_resolved: "clean_outputs s \<Longrightarrow> clean (server_connect_resolved s)"
  by (simp add: server_connect_resolved_def keeps_def clean_outputs_def)

lemma clean_server_stdout: "clean_outputs s \<Longrightarrow> clean (server_stdout now d s)"
  unfolding server_stdout_def Let_def
  by (auto split: option.splits
      intro!: keeps_emit keeps_resume clean_server_lines split_lines_no_newline
        clean_server_connect_resolved
      simp: clean_outputs_def welcome_append_def Let_def)

lemma clean_server_connect: "clean_outputs s \<Longrightarrow> clean (server_connect s)"
  unfolding server_connect_def
  by (auto intro!: keeps_seq clean_createRDESession keeps_Returns simp: clean_outputs_def)

lemma clean_server_connect_timeout: "clean_outputs s \<Longrightarrow> clean (server_connect_timeout w s)"
  unfolding server_connect_timeout_def server_connect_rejected_def
  by (auto intro!: keeps_emit keeps_seq clean_closeRDESession keeps_Returns
      simp: clean_outputs_def)

lemma clean_server_closed: "clean_outputs s \<Longrightarrow> clean (server_closed cmsg msg st s)"
  unfolding server_closed_def Let_def
  by (auto split: option.splits
      intro!: keeps_emit keeps_resume keeps_Returns clean_server_connect_resolved
      simp: clean_outputs_def list_all_iff)

lemma clean_server_execute: "clean_outputs s \<Longrightarrow> clean (server_execute now cmd s)"
  unfolding server_execute_def server_executeInRDESession_def
  by (auto intro!: clean_server_next keeps_Returns simp: clean_outputs_def)

lemma clean_server_disconnect: "clean_outputs s \<Longrightarrow> clean (server_disconnect s)"
  unfolding server_disconnect_def
  by (intro keeps_seq clean_closeRDESession) (simp_all add: keeps_def)

lemma clean_server_step: "clean_outputs s \<Longrightarrow> clean (server_step now ev s)"
proof (cases ev)
  case (Timeout cb)
  assume "clean_outputs s"
  then show ?thesis
    using Timeout
    by (cases cb)
      (simp_all add: clean_server_timeout clean_server_early clean_server_connect_timeout
        clean_checkOutputActivity keeps_Returns)
qed (simp_all add: clean_server_connect clean_server_disconnect clean_server_execute
    clean_server_stdout server_stderr_def keeps_Returns server_exit_def server_error_def
    clean_server_closed)

lemma clean_server_run:
  "clean_outputs s \<Longrightarrow>
   clean_outputs (fst (server_run evs s)) \<and> list_all clean_effect (snd (server_run evs s))"
proof (induction evs arbitrary: s)
  case Nil
  then show ?case by simp
next
  case (Cons e evs)
  obtain now ev where e: "e = (now, ev)" by (cases e)
  have k: "clean (server_step now ev s)" using Cons.prems by (rule clean_server_step)
  then have "clean_outputs (state_of (server_step now ev s))" by (simp add: keeps_def)
  from Cons.IH [OF this] show ?case
    using k by (cases "server_run evs (state_of (server_step now ev s))") (simp add: e keeps_def)
qed

lemma tail_forEach_trimmed: "list_all (\<lambda>x. trimmed (logline x)) (snd (tail_forEach ls cf))"
proof (induction ls arbitrary: cf)
  case Nil
  show ?case by simp
next
  case (Cons a ls)
  obtain c1 s1 where r: "tail_forEach ls cf = (c1, s1)"
    by (cases "tail_forEach ls cf")
  have "list_all (\<lambda>x. trimmed (logline x)) s1"
    using Cons.IH [of cf] r by simp
  then show ?case
    using r Cons.IH by (auto simp: trim_trimmed split: option.splits)
qed

lemma tail_text_trimmed: "list_all (\<lambda>x. trimmed (logline x)) (snd (tail_text t st))"
proof -
  obtain c1 s1 where r:
    "tail_forEach (butlast (split_newline (buffer st @ t))) (currentFile st) = (c1, s1)"
    by (cases "tail_forEach (butlast (split_newline (buffer st @ t))) (currentFile st)")
  show ?thesis
    using tail_forEach_trimmed [of "butlast (split_newline (buffer st @ t))" "currentFile st"] r
    by (simp add: tail_text_def)
qed

lemma tail_texts_trimmed: "list_all (\<lambda>x. trimmed (logline x)) (snd (tail_texts ts st))"
proof (induction ts arbitrary: st)
  case Nil
  show ?case by simp
next
  case (Cons t ts)
  obtain st1 s1 where r1: "tail_text t st = (st1, s1)"
    by (cases "tail_text t st")
  obtain st2 s2 where r2: "tail_texts ts st1 = (st2, s2)"
    by (cases "tail_texts ts st1")
  show ?case
    using tail_text_trimmed [of t st] Cons.IH [of st1] r1 r2 by simp
qed

lemma clean_init: "clean_outputs init"
  by (simp add: init_def clean_outputs_def)


text \<open>
  In every history of either program from its initial state, every stdout line
  streamed for a Command is trimmed (not blank, no white space at either end), every
  line held in a collector is trimmed and free of newlines, and every result delivered
  has an output that is empty or splits at the newlines into trimmed lines only. Every
  line a log stream of the desktop program forwards is trimmed.
\<close>

theorem lines_trimmed:
  "list_all clean_effect (snd (main_run evs init))
   \<and> clean_outputs (fst (main_run evs init))
   \<and> list_all clean_effect (snd (server_run evs init))
   \<and> clean_outputs (fst (server_run evs init))
   \<and> list_all (\<lambda>x. trimmed (logline x)) (snd (tail_chunks chunks st))"
  using clean_main_run [OF clean_init, of evs] clean_server_run [OF clean_init, of evs]
    tail_texts_trimmed [of "map toString chunks" st]
  by (simp add: tail_chunks_def)

text \<open>
  The listing comes with indentation, carriage returns, an empty line and a line of
  blanks: two trimmed lines are streamed and joined in the result. A log line with
  blanks around it is forwarded without them.
\<close>

theorem lines_trimmed_witness:
  "snd (main_run [(0, Connect), (1, StdoutData ''Welcome\<newline>''), (2, Execute (str ''ls'')),
                  (3, StdoutData (''  a.txt '' @ CHR 0x0D # ''\<newline>\<newline> '' @ CHR 0x09
                                    # '' \<newline> b.txt\<newline>$ ''))] init)
     = [Spawn, SetTimeout (ConnectTimeout 0) 15000, ConnectionResolve 0 None,
        Status Connected ''Connected to RDE'', ConnectReply True [],
        SetTimeout (HardTimeout 1) 30000, StdinWrite (str ''ls'' @ [10]),
        CommandOutput (CmdId 2 1) Stdout (str ''a.txt''),
        CommandOutput (CmdId 2 1) Stdout (str ''b.txt''),
        ClearTimeout (HardTimeout 1),
        Resolve 1 \<lparr>exitCode = 0, output_str = str ''a.txt'' @ 10 # str ''b.txt''\<rparr>]
   \<and> list_all clean_effect
        (snd (main_run [(0, Connect), (1, StdoutData ''Welcome\<newline>''), (2, Execute (str ''ls'')),
                  (3, StdoutData (''  a.txt '' @ CHR 0x0D # ''\<newline>\<newline> '' @ CHR 0x09
                                    # '' \<newline> b.txt\<newline>$ ''))] init))
   \<and> snd (tail_chunks [''  x  \<newline>''] (tail_start [str ''/var/log/app.log'']))
     = [\<lparr>logfile = Some (str ''/var/log/app.log''), logline = str ''x''\<rparr>]"
proof -
  have e: "snd (main_run [(0, Connect), (1, StdoutData ''Welcome\<newline>''), (2, Execute (str ''ls'')),
                  (3, StdoutData (''  a.txt '' @ CHR 0x0D # ''\<newline>\<newline> '' @ CHR 0x09
                                    # '' \<newline> b.txt\<newline>$ ''))] init)
     = [Spawn, SetTimeout (ConnectTimeout 0) 15000, ConnectionResolve 0 None,
        Status Connected ''Connected to RDE'', ConnectReply True [],
        SetTimeout (HardTimeout 1) 30000, StdinWrite (str ''ls'' @ [10]),
        CommandOutput (CmdId 2 1) Stdout (str ''a.txt''),
        CommandOutput (CmdId 2 1) Stdout (str ''b.txt''),
        ClearTimeout (HardTimeout 1),
        Resolve 1 \<lparr>exitCode = 0, output_str = str ''a.txt'' @ 10 # str ''b.txt''\<rparr>]"
    by (simp add: string_defs session_defs main_defs Let_def)
  have t: "snd (tail_chunks [''  x  \<newline>''] (tail_start [str ''/var/log/app.log'']))
     = [\<lparr>logfile = Some (str ''/var/log/app.log''), logline = str ''x''\<rparr>]"
    by (simp add: tail_chunks_def tail_text_def tail_start_def toString_def split_newline_def
        trim_def is_space_def fileHeaderMatch_def str_def)
  have "list_all clean_effect
        (snd (main_run [(0, Connect), (1, StdoutData ''Welcome\<newline>''), (2, Execute (str ''ls'')),
                  (3, StdoutData (''  a.txt '' @ CHR 0x0D # ''\<newline>\<newline> '' @ CHR 0x09
                                    # '' \<newline> b.txt\<newline>$ ''))] init))"
    using lines_trimmed
      [of "[(0, Connect), (1, StdoutData ''Welcome\<newline>''), (2, Execute (str ''ls'')),
                  (3, StdoutData (''  a.txt '' @ CHR 0x0D # ''\<newline>\<newline> '' @ CHR 0x09
                                    # '' \<newline> b.txt\<newline>$ ''))]" "[]" "tail_start []"]
    by blast
  then show ?thesis
    using e t by blast
qed

text \<open>The web server drops the blank lines of a chunk too.\<close>

lemma server_tail_drops_blank:
  "list_all (\<lambda>x. trim (logline x) \<noteq> []) (server_tail_chunks files chunks)"
  by (auto simp: server_tail_chunks_def server_tail_data_def list_all_iff)

text \<open>
  C10, evaluated on the log stream of the web server. A line is tested for blankness
  with \<open>trim\<close> and forwarded as it came: the indented line of a stack trace keeps the
  white space at both ends, where the desktop program forwards it trimmed.
\<close>

theorem server_tail_forwards_untrimmed:
  "server_tail_data [str ''/var/log/app.log''] ''Error: boom\<newline>    at run (app.js:3)  \<newline>''
     = [\<lparr>logfile = Some (str ''/var/log/app.log''), logline = str ''Error: boom''\<rparr>,
        \<lparr>logfile = Some (str ''/var/log/app.log''), logline = str ''    at run (app.js:3)  ''\<rparr>]
   \<and> \<not> trimmed (str ''    at run (app.js:3)  '')
   \<and> snd (tail_data ''Error: boom\<newline>    at run (app.js:3)  \<newline>'' (tail_start [str ''/var/log/app.log'']))
     = [\<lparr>logfile = Some (str ''/var/log/app.log''), logline = str ''Error: boom''\<rparr>,
        \<lparr>logfile = Some (str ''/var/log/app.log''), logline = str ''at run (app.js:3)''\<rparr>]"
  by (simp add: server_tail_data_def tail_data_def tail_text_def tail_start_def toString_def
      split_newline_def fileHeaderMatch_def trim_def str_def is_space_def header_tail_def
      is_line_terminator_def trimmed_def)

section \<open>After the loss of the process: promises that nothing settles\<close>

text \<open>
  Every handler of the desktop program keeps an orphan promise an orphan and settles
  only promises it finds in the queue or in the active slot, or creates itself.
\<close>

lemmas orphan_defs = orphan_def active_def set_current_def

lemma lost_main_next: "orphan p s \<Longrightarrow> lost p (main_processNextCommand s)"
  by (auto simp: main_processNextCommand_def Let_def keeps_def orphan_defs
      split: list.splits option.splits)

lemma lost_main_complete: "orphan p s \<Longrightarrow> q \<noteq> p \<Longrightarrow> lost p (main_complete cid q s)"
  unfolding main_complete_def
  by (intro keeps_emit lost_main_next) (auto simp: orphan_defs split: option.splits)

lemma lost_main_early: "orphan p s \<Longrightarrow> lost p (main_early c s)"
  by (auto simp: main_early_def intro!: keeps_Returns keeps_Throws lost_main_complete
      split: option.splits) (auto simp: orphan_defs)

lemma lost_main_timeout: "orphan p s \<Longrightarrow> lost p (main_timeout q s)"
  by (auto simp: main_timeout_def intro!: keeps_Returns keeps_Throws lost_main_complete
      split: option.splits) (auto simp: orphan_defs)

lemma lost_main_prompt: "orphan p s \<Longrightarrow> lost p (main_prompt s)"
  by (auto simp: main_prompt_def intro!: keeps_Returns keeps_Throws keeps_emit lost_main_complete
      split: option.splits) (auto simp: orphan_defs)

lemma orphan_push_stdout: "orphan p (push_stdout c l s) = orphan p s"
  by (simp add: orphan_defs push_stdout_def)

lemma orphan_flag:
  "orphan p s \<Longrightarrow> active s = Some tr \<Longrightarrow> orphan p (set_current (Some (f tr)) s)
   \<longleftrightarrow> promise (f tr) \<noteq> p"
  by (auto simp: orphan_defs split: option.splits)

lemma lost_main_forEach: "orphan p s \<Longrightarrow> lost p (main_outputs_forEach ln ks s)"
proof (induction ks arbitrary: s)
  case Nil
  then show ?case by (simp add: keeps_def)
next
  case (Cons k ks)
  have a: "orphan p (push_stdout k (trim ln) s)" using Cons.prems by (simp add: orphan_push_stdout)
  show ?case
  proof (cases "trim ln \<noteq> [] \<and> \<not> isPrompt ln")
    case False
    then show ?thesis using Cons.IH [OF Cons.prems] by auto
  next
    case True
    show ?thesis
    proof (cases "rdeProcess s")
      case None
      then show ?thesis using True a by (simp add: keeps_def)
    next
      case (Some pr)
      show ?thesis
      proof (cases "currentCommand pr")
        case None
        then show ?thesis using True Some Cons.IH [OF a] by (auto intro!: keeps_emit)
      next
        case tr: (Some tr)
        have "promise tr \<noteq> p" using Cons.prems Some tr by (simp add: orphan_defs)
        then have b: "orphan p (set_current (Some (tr\<lparr>earlyCompleteScheduled := True\<rparr>))
            (push_stdout k (trim ln) s))"
          using a by (auto simp: orphan_defs split: option.splits)
        show ?thesis
          using True Some tr Cons.IH [OF a] Cons.IH [OF b] by (auto intro!: keeps_emit)
      qed
    qed
  qed
qed

lemma lost_main_line: "orphan p s \<Longrightarrow> lost p (main_line ln s)"
  unfolding main_line_def
  by (auto intro!: keeps_seq lost_main_forEach lost_main_prompt keeps_Returns)

lemma lost_main_lines: "orphan p s \<Longrightarrow> lost p (main_lines lns s)"
  by (induction lns arbitrary: s) (auto intro!: keeps_seq lost_main_line keeps_Returns)

lemma orphan_updates [simp]:
  "orphan p (s\<lparr>welcomeBuffer := b\<rparr>) = orphan p s"
  "orphan p (s\<lparr>connectionResolve := w\<rparr>) = orphan p s"
  "orphan p (s\<lparr>currentTarget := t\<rparr>) = orphan p s"
  "orphan p (s\<lparr>commandCounter := n\<rparr>) = orphan p s"
  "orphan p (s\<lparr>commandOutputs := m\<rparr>) = orphan p s"
  "orphan p (s\<lparr>isExecutingCommand := e\<rparr>) = orphan p s"
  by (simp_all add: orphan_defs)

lemma orphan_welcome_append [simp]: "orphan p (welcome_append t s) = orphan p s"
  by (simp add: welcome_append_def Let_def)

lemma lost_main_connect_resolved: "orphan p s \<Longrightarrow> lost p (main_connect_resolved s)"
  by (simp add: main_connect_resolved_def keeps_def)

lemma lost_main_stdout: "orphan p s \<Longrightarrow> lost p (main_stdout d s)"
  unfolding main_stdout_def Let_def
  by (auto split: option.splits
      intro!: keeps_emit keeps_resume lost_main_lines lost_main_connect_resolved)

lemma lost_closeRDESession: "orphan p s \<Longrightarrow> lost p (closeRDESession s)"
  by (simp add: closeRDESession_def keeps_def orphan_defs)

lemma lost_createRDESession: "orphan p s \<Longrightarrow> lost p (createRDESession s)"
  by (simp add: createRDESession_def keeps_def orphan_defs)

lemma lost_main_connect: "orphan p s \<Longrightarrow> lost p (main_connect s)"
  unfolding main_connect_def
  by (intro keeps_seq lost_createRDESession) (auto simp: keeps_def orphan_defs split: option.splits)

lemma lost_main_disconnect: "orphan p s \<Longrightarrow> lost p (main_disconnect s)"
  unfolding main_disconnect_def
  by (intro keeps_seq lost_closeRDESession) (simp_all add: keeps_def)

lemma lost_main_connect_timeout: "orphan p s \<Longrightarrow> lost p (main_connect_timeout w s)"
  unfolding main_connect_timeout_def main_connect_rejected_def
  by (auto intro!: keeps_emit keeps_seq lost_closeRDESession keeps_Returns)

lemma lost_main_stderr: "orphan p s \<Longrightarrow> lost p (main_stderr d s)"
  by (auto simp: main_stderr_def keeps_def list_all_iff)

lemma lost_main_exit: "orphan p s \<Longrightarrow> lost p (main_exit s)"
  by (auto simp: main_exit_def keeps_def orphan_defs list_all_iff)

lemma lost_main_error: "orphan p s \<Longrightarrow> lost p (main_error m s)"
  by (auto simp: main_error_def keeps_def orphan_defs list_all_iff)

lemma lost_main_execute: "orphan p s \<Longrightarrow> lost p (main_execute now cmd s)"
  unfolding main_execute_def main_executeInRDESession_def
  by (auto intro!: lost_main_next keeps_Returns) (auto simp: orphan_defs split: option.splits)

lemma lost_main_step: "orphan p s \<Longrightarrow> lost p (main_step now ev s)"
proof (cases ev)
  case (Timeout cb)
  assume "orphan p s"
  then show ?thesis
    using Timeout
    by (cases cb)
      (simp_all add: lost_main_timeout lost_main_early lost_main_connect_timeout keeps_Returns)
qed (simp_all add: lost_main_connect lost_main_disconnect lost_main_execute lost_main_stdout
    lost_main_stderr lost_main_exit lost_main_error)

lemma main_orphan_never_settled:
  "orphan p s \<Longrightarrow> list_all (\<lambda>e. \<not> settles p e) (snd (main_run evs s))"
proof (induction evs arbitrary: s)
  case Nil
  show ?case by simp
next
  case (Cons x evs)
  obtain now ev where x: "x = (now, ev)" by (cases x)
  have k: "lost p (main_step now ev s)" using Cons.prems by (rule lost_main_step)
  then have "orphan p (state_of (main_step now ev s))" by (simp add: keeps_def)
  from Cons.IH [OF this] show ?case
    using k by (cases "main_run evs (state_of (main_step now ev s))") (simp add: x keeps_def)
qed


text \<open>
  When the process exits while a Command is Active, the promise of that Command is
  settled neither by the exit handler nor by anything that happens afterwards: the
  caller of the Command waits for ever.
\<close>

lemma main_exit_loses_active:
  "active s = Some tr \<Longrightarrow> promise tr < promises s \<Longrightarrow>
   list_all (\<lambda>q. qpromise q \<noteq> promise tr) (commandQueue s) \<Longrightarrow>
   list_all (\<lambda>e. \<not> settles (promise tr) e) (snd (main_run ((now, Exit) # evs) s))"
proof -
  assume a: "active s = Some tr" "promise tr < promises s"
    "list_all (\<lambda>q. qpromise q \<noteq> promise tr) (commandQueue s)"
  have o: "orphan (promise tr) (state_of (main_exit s))"
    using a by (simp add: main_exit_def orphan_defs)
  have e: "list_all (\<lambda>e. \<not> settles (promise tr) e) (effects (main_exit s))"
    using a by (auto simp: main_exit_def list_all_iff)
  show ?thesis
    using e main_orphan_never_settled [OF o, of evs]
    by (cases "main_run evs (state_of (main_exit s))") simp
qed

text \<open>
  The same for the server. Its grace-window timer resolves the promise it has closed
  over, so the histories are those in which no such timer of the promise fires; none is
  set for a command without the early-completion pattern.
\<close>

lemma lost_server_next: "orphan p s \<Longrightarrow> lost p (server_processNextCommand now s)"
  by (auto simp: server_processNextCommand_def Let_def keeps_def orphan_defs
      split: list.splits option.splits)

lemma lost_server_complete:
  "orphan p s \<Longrightarrow> q \<noteq> p \<Longrightarrow> list_all (\<lambda>e. \<not> settles p e) clears \<Longrightarrow>
   lost p (server_complete now cid q clears s)"
  unfolding server_complete_def
  by (intro keeps_emit lost_server_next) (auto simp: orphan_defs split: option.splits)

lemma lost_completeCommand: "orphan p s \<Longrightarrow> lost p (completeCommand now q s)"
  by (auto simp: completeCommand_def intro!: keeps_Returns keeps_Throws lost_server_complete
      split: option.splits) (auto simp: orphan_defs)

lemma lost_checkOutputActivity: "orphan p s \<Longrightarrow> lost p (checkOutputActivity now q s)"
  by (auto simp: checkOutputActivity_def intro!: keeps_Returns keeps_Throws lost_completeCommand
      split: option.splits) (auto simp: orphan_defs)

lemma lost_server_timeout: "orphan p s \<Longrightarrow> lost p (server_timeout now q s)"
  by (auto simp: server_timeout_def intro!: keeps_Returns keeps_Throws lost_completeCommand
      split: option.splits)

lemma lost_server_early: "orphan p s \<Longrightarrow> q \<noteq> p \<Longrightarrow> lost p (server_early now c q s)"
  by (auto simp: server_early_def intro!: keeps_Returns keeps_Throws lost_server_complete
      split: option.splits)

lemma lost_server_prompt: "orphan p s \<Longrightarrow> lost p (server_prompt now s)"
  by (auto simp: server_prompt_def intro!: keeps_Returns keeps_Throws lost_server_complete
      split: option.splits) (auto simp: orphan_defs)

lemma lost_server_store:
  "orphan p s \<Longrightarrow> promise tr \<noteq> p \<Longrightarrow> lost p (server_store now ln tr s)"
  by (auto simp: server_store_def Let_def keeps_def orphan_defs push_stdout_def
      split: option.splits)

lemma lost_server_line: "orphan p s \<Longrightarrow> lost p (server_line now ln s)"
proof (cases "rdeProcess s")
  case None
  assume "orphan p s"
  then show ?thesis using None by (simp add: server_line_def keeps_def)
next
  case (Some pr)
  assume o: "orphan p s"
  have "lost p (case currentCommand pr of None \<Rightarrow> Returns s []
      | Some tr \<Rightarrow> server_store now ln tr s)"
  proof (cases "currentCommand pr")
    case None
    then show ?thesis using o by (simp add: keeps_def)
  next
    case tr: (Some tr)
    have "promise tr \<noteq> p" using o Some tr by (simp add: orphan_defs)
    then show ?thesis using o tr by (simp add: lost_server_store)
  qed
  then show ?thesis
    using Some unfolding server_line_def
    by (auto intro!: keeps_seq lost_server_prompt keeps_Returns)
qed

lemma lost_server_lines: "orphan p s \<Longrightarrow> lost p (server_lines now lns s)"
  by (induction lns arbitrary: s) (auto intro!: keeps_seq lost_server_line keeps_Returns)

lemma lost_server_connect_resolved: "orphan p s \<Longrightarrow> lost p (server_connect_resolved s)"
  by (simp add: server_connect_resolved_def keeps_def)

lemma lost_server_stdout: "orphan p s \<Longrightarrow> lost p (server_stdout now d s)"
  unfolding server_stdout_def Let_def
  by (auto split: option.splits
      intro!: keeps_emit keeps_resume lost_server_lines lost_server_connect_resolved)

lemma lost_server_connect: "orphan p s \<Longrightarrow> lost p (server_connect s)"
  unfolding server_connect_def
  by (auto intro!: keeps_seq lost_createRDESession keeps_Returns)
    (auto simp: orphan_defs split: option.splits)

lemma lost_server_disconnect: "orphan p s \<Longrightarrow> lost p (server_disconnect s)"
  unfolding server_disconnect_def
  by (intro keeps_seq lost_closeRDESession) (simp_all add: keeps_def)

lemma lost_server_connect_timeout: "orphan p s \<Longrightarrow> lost p (server_connect_timeout w s)"
  unfolding server_connect_timeout_def server_connect_rejected_def
  by (auto intro!: keeps_emit keeps_seq lost_closeRDESession keeps_Returns)

lemma lost_server_closed: "orphan p s \<Longrightarrow> lost p (server_closed cmsg msg st s)"
  by (auto simp: server_closed_def Let_def keeps_def server_connect_resolved_def orphan_defs
      list_all_iff split: option.splits)

lemma lost_server_execute: "orphan p s \<Longrightarrow> lost p (server_execute now cmd s)"
  unfolding server_execute_def server_executeInRDESession_def
  by (auto intro!: lost_server_next keeps_Returns) (auto simp: orphan_defs split: option.splits)

lemma lost_server_step:
  "orphan p s \<Longrightarrow> \<not> is_early_event p ev \<Longrightarrow> lost p (server_step now ev s)"
proof (cases ev)
  case (Timeout cb)
  assume "orphan p s" "\<not> is_early_event p ev"
  then show ?thesis
    using Timeout
    by (cases cb)
      (simp_all add: lost_server_timeout lost_server_early lost_server_connect_timeout
        lost_checkOutputActivity keeps_Returns)
next
  case (StderrData d)
  assume "orphan p s"
  then show ?thesis using StderrData by (simp add: server_stderr_def keeps_def)
qed (simp_all add: lost_server_connect lost_server_disconnect lost_server_execute
    lost_server_stdout server_exit_def server_error_def lost_server_closed)

lemma server_orphan_never_settled:
  "orphan p s \<Longrightarrow> list_all (\<lambda>x. \<not> is_early_event p (snd x)) evs \<Longrightarrow>
   list_all (\<lambda>e. \<not> settles p e) (snd (server_run evs s))"
proof (induction evs arbitrary: s)
  case Nil
  show ?case by simp
next
  case (Cons x evs)
  obtain now ev where x: "x = (now, ev)" by (cases x)
  have k: "lost p (server_step now ev s)" using Cons.prems x by (simp add: lost_server_step)
  then have "orphan p (state_of (server_step now ev s))" by (simp add: keeps_def)
  from Cons.IH [OF this] show ?case
    using k Cons.prems
    by (cases "server_run evs (state_of (server_step now ev s))") (simp add: x keeps_def)
qed

lemma server_exit_loses_active:
  "active s = Some tr \<Longrightarrow> promise tr < promises s \<Longrightarrow>
   list_all (\<lambda>q. qpromise q \<noteq> promise tr) (commandQueue s) \<Longrightarrow>
   list_all (\<lambda>x. \<not> is_early_event (promise tr) (snd x)) evs \<Longrightarrow>
   list_all (\<lambda>e. \<not> settles (promise tr) e) (snd (server_run ((now, Exit) # evs) s))"
proof -
  assume a: "active s = Some tr" "promise tr < promises s"
    "list_all (\<lambda>q. qpromise q \<noteq> promise tr) (commandQueue s)"
    and b: "list_all (\<lambda>x. \<not> is_early_event (promise tr) (snd x)) evs"
  have o: "orphan (promise tr) (state_of (server_exit s))"
    using a
    by (auto simp: server_exit_def server_closed_def server_connect_resolved_def orphan_defs
        Let_def split: option.splits)
  have e: "list_all (\<lambda>e. \<not> settles (promise tr) e) (effects (server_exit s))"
    using a
    by (auto simp: server_exit_def server_closed_def server_connect_resolved_def Let_def
        list_all_iff split: option.splits)
  show ?thesis
    using e server_orphan_never_settled [OF o b]
    by (cases "server_run evs (state_of (server_exit s))") simp
qed

section \<open>The inactivity check is never scheduled\<close>

text \<open>
  No handler of the server but \<open>checkOutputActivity\<close> itself sets the timer of the
  inactivity check, and \<open>processNextCommand\<close> calls it before the tracker is the Active
  Command: in a history in which no such timer fires, none is ever set, so none fires.
\<close>

lemma quiet_server_next: "quiet (server_processNextCommand now s)"
  by (auto simp: server_processNextCommand_def Let_def keeps_def split: list.splits)

lemma quiet_server_complete:
  "list_all (\<lambda>e. \<not> is_poll_timer e) clears \<Longrightarrow> quiet (server_complete now cid p clears s)"
  unfolding server_complete_def
  by (intro keeps_emit quiet_server_next) simp_all

lemma quiet_completeCommand: "quiet (completeCommand now p s)"
  by (auto simp: completeCommand_def keeps_Returns keeps_Throws quiet_server_complete
      split: option.splits)

lemma quiet_server_timeout: "quiet (server_timeout now p s)"
  by (auto simp: server_timeout_def keeps_Returns keeps_Throws quiet_completeCommand
      split: option.splits)

lemma quiet_server_early: "quiet (server_early now c p s)"
  by (auto simp: server_early_def keeps_Returns keeps_Throws quiet_server_complete
      split: option.splits)

lemma quiet_server_prompt: "quiet (server_prompt now s)"
  by (auto simp: server_prompt_def keeps_Returns keeps_Throws quiet_server_complete
      split: option.splits)

lemma quiet_server_store: "quiet (server_store now ln tr s)"
  by (auto simp: server_store_def Let_def keeps_def)

lemma quiet_server_line: "quiet (server_line now ln s)"
  unfolding server_line_def
  by (auto split: option.splits
      intro!: keeps_seq quiet_server_store quiet_server_prompt keeps_Returns keeps_Throws)

lemma quiet_server_lines: "quiet (server_lines now lns s)"
  by (induction lns arbitrary: s) (auto intro!: keeps_seq quiet_server_line keeps_Returns)

lemma quiet_server_connect_resolved: "quiet (server_connect_resolved s)"
  by (simp add: server_connect_resolved_def keeps_def)

lemma quiet_server_stdout: "quiet (server_stdout now d s)"
  unfolding server_stdout_def Let_def
  by (auto split: option.splits
      intro!: keeps_emit keeps_resume quiet_server_lines quiet_server_connect_resolved)

lemma quiet_closeRDESession: "quiet (closeRDESession s)"
  by (simp add: closeRDESession_def keeps_def)

lemma quiet_server_connect: "quiet (server_connect s)"
  by (simp add: server_connect_def createRDESession_def keeps_def)

lemma quiet_server_connect_timeout: "quiet (server_connect_timeout w s)"
  by (simp add: server_connect_timeout_def server_connect_rejected_def closeRDESession_def
      keeps_def)

lemma quiet_server_closed: "quiet (server_closed cmsg msg st s)"
  by (auto simp: server_closed_def Let_def keeps_def server_connect_resolved_def list_all_iff
      split: option.splits)

lemma quiet_server_execute: "quiet (server_execute now cmd s)"
  unfolding server_execute_def server_executeInRDESession_def
  by (auto intro!: quiet_server_next keeps_Returns)

lemma quiet_server_step: "\<not> is_poll_event ev \<Longrightarrow> quiet (server_step now ev s)"
proof (cases ev)
  case (Timeout cb)
  assume "\<not> is_poll_event ev"
  then show ?thesis
    using Timeout
    by (cases cb)
      (simp_all add: quiet_server_timeout quiet_server_early quiet_server_connect_timeout
        keeps_Returns)
next
  case Connect
  then show ?thesis by (simp add: quiet_server_connect)
next
  case Disconnect
  then show ?thesis
    by (auto simp: server_disconnect_def intro!: keeps_seq quiet_closeRDESession keeps_Returns)
next
  case (Execute cmd)
  then show ?thesis by (simp add: quiet_server_execute)
next
  case (StdoutData d)
  then show ?thesis by (simp add: quiet_server_stdout)
next
  case (StderrData d)
  then show ?thesis by (simp add: server_stderr_def keeps_def)
next
  case Exit
  then show ?thesis by (simp add: server_exit_def quiet_server_closed)
next
  case (ProcessError m)
  then show ?thesis by (simp add: server_error_def quiet_server_closed)
qed

lemma server_poll_never_armed:
  "list_all (\<lambda>x. \<not> is_poll_event (snd x)) evs \<Longrightarrow>
   list_all (\<lambda>e. \<not> is_poll_timer e) (snd (server_run evs s))"
proof (induction evs arbitrary: s)
  case Nil
  show ?case by simp
next
  case (Cons x evs)
  obtain now ev where x: "x = (now, ev)" by (cases x)
  have k: "quiet (server_step now ev s)" using Cons.prems x by (simp add: quiet_server_step)
  show ?case
    using Cons.IH [of "state_of (server_step now ev s)"] Cons.prems k
    by (cases "server_run evs (state_of (server_step now ev s))") (simp add: x keeps_def)
qed

end
